theory Spec2Isabelle
  imports
    Complex_Main
    "HOL-Library.AList"
    "HOL-Library.Char_ord"
    "HOL-Library.List_Lexorder"
    "HOL-Library.Log_Nat"
    "HOL-Library.Product_Lexorder"
begin

section \<open>The portfolio rebalancer of \<^verbatim>\<open>portfolio.py\<close>\<close>

text \<open>
  The embedding follows \<^verbatim>\<open>src/portfolio.py\<close> function by function.

  \<^item> A Python \<^verbatim>\<open>dict\<close> is an association list in insertion order:
    \<open>map_of d k\<close> is the lookup, \<open>AList.update k v d\<close> is \<^verbatim>\<open>d[k] = v\<close> (an existing key
    keeps its position, a new key goes to the end), \<open>map fst d\<close> is the iteration order.
  \<^item> A Python \<^verbatim>\<open>float\<close> is a \<open>real\<close>. The methods are embedded twice. In the first
    embedding sums, products and quotients are exact. In the second, whose names end in
    \<open>_float\<close>, every operation rounds its result to the nearest IEEE-754 double, as the
    interpreter does; what depends on the rounding is stated of the second. NaN and the
    infinities are in neither.
  \<^item> A method that mutates \<^verbatim>\<open>self\<close> takes the object and returns the outcome together
    with the object as the call leaves it, also when the call raises.
  \<^item> \<^verbatim>\<open>raise ValueError(msg)\<close> is \<open>Inl (ValueError msg)\<close>; a failed subscript
    \<^verbatim>\<open>d[k]\<close> is \<open>Inl (KeyError k)\<close>.
\<close>

subsection \<open>Data\<close>

type_synonym ('k, 'v) dict = "('k \<times> 'v) list"

datatype error = ValueError string | KeyError string

text \<open>\<^verbatim>\<open>class Stock\<close>: the field \<^verbatim>\<open>_price\<close> is \<open>price\<close>.\<close>

record Stock =
  symbol :: string
  price :: real

definition current_price :: "Stock \<Rightarrow> real" where
  "current_price self = price self"

text \<open>An order is the dict \<^verbatim>\<open>{"symbol": ..., "amount_in_dollars": ...}\<close>.\<close>

record order =
  order_symbol :: string
  amount_in_dollars :: real

text \<open>A plan is the dict \<^verbatim>\<open>{"buy": [...], "sell": [...]}\<close>.\<close>

type_synonym plan = "(string, order list) dict"

record Portfolio =
  target_allocation :: "(string, real) dict"
  stock_objects :: "(string, Stock) dict"
  holdings :: "(string, real) dict"

text \<open>\<^verbatim>\<open>d.get(k, dflt)\<close>\<close>

definition dict_get :: "('k, 'v) dict \<Rightarrow> 'k \<Rightarrow> 'v \<Rightarrow> 'v" where
  "dict_get d k dflt = (case map_of d k of None \<Rightarrow> dflt | Some v \<Rightarrow> v)"

text \<open>
  \<^verbatim>\<open>round(x, 2)\<close>: the nearest multiple of one hundredth, a tie going to the even
  neighbour.
\<close>

definition round2 :: "real \<Rightarrow> real" where
  "round2 x =
     (let y = x * 100; f = \<lfloor>y\<rfloor>; d = y - of_int f
      in of_int (if d < 1 / 2 then f
                 else if 1 / 2 < d then f + 1
                 else if even f then f else f + 1) / 100)"

definition quote :: "string \<Rightarrow> string" where
  "quote s = [CHR 0x27] @ s @ [CHR 0x27]"

subsection \<open>Construction\<close>

text \<open>
  \<^verbatim>\<open>{stock.symbol: stock for stock in all_tradable_stocks}\<close>: a later stock of the same
  symbol replaces the earlier one in place.
\<close>

definition build_stock_objects :: "Stock list \<Rightarrow> (string, Stock) dict" where
  "build_stock_objects all_tradable_stocks =
     fold (\<lambda>stock d. AList.update (symbol stock) stock d) all_tradable_stocks []"

text \<open>
  \<^verbatim>\<open>Portfolio.__init__\<close>. \<open>None\<close> for \<open>initial_holdings\<close> is the default argument.
\<close>

definition init ::
  "Stock list \<Rightarrow> (string, real) dict \<Rightarrow> (string, real) dict option \<Rightarrow> error + Portfolio" where
  "init all_tradable_stocks target initial_holdings =
     (if \<not> (sum_list (map snd target) = 1)
      then Inl (ValueError ''Target allocation percentages must sum to 1.0'')
      else
        let stocks = build_stock_objects all_tradable_stocks;
            held = (case initial_holdings of Some h \<Rightarrow> h | None \<Rightarrow> [])
        in (case find (\<lambda>symb. map_of stocks symb = None) (map fst target) of
              Some symb \<Rightarrow>
                Inl (ValueError (''Stock '' @ quote symb @
                       '' in target allocation is not in tradable stocks list.''))
            | None \<Rightarrow>
                Inr \<lparr>target_allocation = target, stock_objects = stocks, holdings = held\<rparr>))"

subsection \<open>Deposits\<close>

text \<open>\<^verbatim>\<open>Portfolio.add_position\<close>\<close>

definition add_position :: "Portfolio \<Rightarrow> string \<Rightarrow> real \<Rightarrow> (error + unit) \<times> Portfolio" where
  "add_position self symb shares =
     (if map_of (stock_objects self) symb = None
      then (Inl (ValueError (''Error: Cannot add position for '' @ quote symb @
                   ''. It is not a known tradable stock.'')), self)
      else if 0 < shares
      then (Inr (), self\<lparr>holdings :=
                     AList.update symb (dict_get (holdings self) symb 0 + shares) (holdings self)\<rparr>)
      else (Inr (), self))"

subsection \<open>Valuation\<close>

text \<open>The loop of \<^verbatim>\<open>Portfolio.get_total_value\<close> over \<^verbatim>\<open>self.holdings.items()\<close>.\<close>

fun total_value_loop ::
  "(string, Stock) dict \<Rightarrow> (string, real) dict \<Rightarrow> real \<Rightarrow> error + real" where
  "total_value_loop stocks [] total_value = Inr total_value"
| "total_value_loop stocks ((symb, shares) # items) total_value =
     (case map_of stocks symb of
        None \<Rightarrow> Inl (KeyError symb)
      | Some stock \<Rightarrow>
          total_value_loop stocks items (total_value + shares * current_price stock))"

definition get_total_value :: "Portfolio \<Rightarrow> error + real" where
  "get_total_value self = total_value_loop (stock_objects self) (holdings self) 0"

subsection \<open>The allocation report\<close>

text \<open>
  \<^verbatim>\<open>Portfolio.get_current_allocation\<close> prints and returns nothing. The model returns
  what is printed, one value per line, with the numbers before formatting:
  \<open>Empty_portfolio\<close> is the line \<^verbatim>\<open>Portfolio is currently empty.\<close>, \<open>Total_line v\<close> the
  line of the total value, \<open>Position_line symbol shares value percentage\<close> the line of
  one position.
\<close>

datatype line =
  Empty_portfolio
| Total_line real
| Position_line string real real real

fun allocation_loop ::
  "(string, Stock) dict \<Rightarrow> real \<Rightarrow> (string \<times> real) list \<Rightarrow> error + line list" where
  "allocation_loop stocks total_value [] = Inr []"
| "allocation_loop stocks total_value ((symb, shares) # items) =
     (case map_of stocks symb of
        None \<Rightarrow> Inl (KeyError symb)
      | Some stock \<Rightarrow>
          let val = shares * current_price stock;
              percentage = (if 0 < total_value then (val / total_value) * 100 else 0)
          in (case allocation_loop stocks total_value items of
                Inl e \<Rightarrow> Inl e
              | Inr printed \<Rightarrow>
                  Inr (if 0 < percentage
                       then Position_line symb shares val percentage # printed
                       else printed)))"

definition get_current_allocation :: "Portfolio \<Rightarrow> error + line list" where
  "get_current_allocation self =
     (case get_total_value self of
        Inl e \<Rightarrow> Inl e
      | Inr total_value \<Rightarrow>
          if total_value = 0 then Inr [Empty_portfolio]
          else (case allocation_loop (stock_objects self) total_value (sort (holdings self)) of
                  Inl e \<Rightarrow> Inl e
                | Inr printed \<Rightarrow> Inr (Total_line total_value # printed)))"

subsection \<open>Planning\<close>

text \<open>
  The first loop of \<^verbatim>\<open>Portfolio.create_rebalance_plan\<close>: every symbol of
  \<^verbatim>\<open>self.stock_objects\<close> that the target allocation lacks is added with 0.0.
\<close>

definition backfill :: "(string, Stock) dict \<Rightarrow> (string, real) dict \<Rightarrow> (string, real) dict" where
  "backfill stocks target =
     fold (\<lambda>symb t. if map_of t symb = None then AList.update symb 0 t else t)
       (map fst stocks) target"

text \<open>
  The second loop, over \<^verbatim>\<open>self.target_allocation.items()\<close>; the pair of lists is
  \<^verbatim>\<open>actions["buy"]\<close> and \<^verbatim>\<open>actions["sell"]\<close>, and \<^verbatim>\<open>append\<close> adds at the end.
\<close>

fun plan_loop ::
  "(string, Stock) dict \<Rightarrow> (string, real) dict \<Rightarrow> real \<Rightarrow> (string \<times> real) list \<Rightarrow>
   order list \<times> order list \<Rightarrow> error + order list \<times> order list" where
  "plan_loop stocks held total_portfolio_value [] actions = Inr actions"
| "plan_loop stocks held total_portfolio_value ((symb, target_percent) # items) (buy, sell) =
     (case map_of stocks symb of
        None \<Rightarrow> Inl (KeyError symb)
      | Some stock \<Rightarrow>
          let target_value = total_portfolio_value * target_percent;
              current_value = dict_get held symb 0 * current_price stock;
              value_difference = target_value - current_value
          in if 1 / 100 < value_difference
             then plan_loop stocks held total_portfolio_value items
                    (buy @ [\<lparr>order_symbol = symb,
                              amount_in_dollars = round2 value_difference\<rparr>], sell)
             else if value_difference < - (1 / 100)
             then plan_loop stocks held total_portfolio_value items
                    (buy, sell @ [\<lparr>order_symbol = symb,
                                    amount_in_dollars = round2 \<bar>value_difference\<bar>\<rparr>])
             else plan_loop stocks held total_portfolio_value items (buy, sell))"

definition create_rebalance_plan :: "Portfolio \<Rightarrow> (error + plan) \<times> Portfolio" where
  "create_rebalance_plan self =
     (case get_total_value self of
        Inl e \<Rightarrow> (Inl e, self)
      | Inr total_portfolio_value \<Rightarrow>
          if total_portfolio_value = 0 then (Inr [(''buy'', []), (''sell'', [])], self)
          else
            let self' = self\<lparr>target_allocation :=
                               backfill (stock_objects self) (target_allocation self)\<rparr>
            in (case plan_loop (stock_objects self') (holdings self') total_portfolio_value
                       (target_allocation self') ([], []) of
                  Inl e \<Rightarrow> (Inl e, self')
                | Inr (buy, sell) \<Rightarrow> (Inr [(''buy'', buy), (''sell'', sell)], self')))"

subsection \<open>Execution\<close>

text \<open>The two loops of \<^verbatim>\<open>Portfolio.execute_rebalance\<close>.\<close>

fun sell_loop :: "order list \<Rightarrow> Portfolio \<Rightarrow> (error + unit) \<times> Portfolio" where
  "sell_loop [] self = (Inr (), self)"
| "sell_loop (ord # rest) self =
     (let symb = order_symbol ord; amount_to_sell = amount_in_dollars ord
      in case map_of (stock_objects self) symb of
           None \<Rightarrow> (Inl (KeyError symb), self)
         | Some stock \<Rightarrow>
             let p = current_price stock
             in if 0 < p
                then
                  let shares_to_sell = amount_to_sell / p
                  in sell_loop rest
                       (self\<lparr>holdings :=
                          AList.update symb
                            (max 0 (dict_get (holdings self) symb 0 - shares_to_sell))
                            (holdings self)\<rparr>)
                else sell_loop rest self)"

fun buy_loop :: "order list \<Rightarrow> Portfolio \<Rightarrow> (error + unit) \<times> Portfolio" where
  "buy_loop [] self = (Inr (), self)"
| "buy_loop (ord # rest) self =
     (let symb = order_symbol ord; amount_to_buy = amount_in_dollars ord
      in case map_of (stock_objects self) symb of
           None \<Rightarrow> (Inl (KeyError symb), self)
         | Some stock \<Rightarrow>
             let p = current_price stock
             in if 0 < p
                then
                  let shares_to_buy = amount_to_buy / p
                  in buy_loop rest
                       (self\<lparr>holdings :=
                          AList.update symb
                            (dict_get (holdings self) symb 0 + shares_to_buy)
                            (holdings self)\<rparr>)
                else buy_loop rest self)"

definition execute_rebalance :: "Portfolio \<Rightarrow> plan \<Rightarrow> (error + unit) \<times> Portfolio" where
  "execute_rebalance self plan =
     (case sell_loop (dict_get plan ''sell'' []) self of
        (Inl e, self') \<Rightarrow> (Inl e, self')
      | (Inr _, self') \<Rightarrow> buy_loop (dict_get plan ''buy'' []) self')"

subsection \<open>The example of the main block\<close>

definition all_stocks :: "Stock list" where
  "all_stocks =
     [\<lparr>symbol = ''AAPL'', price = 150\<rparr>, \<lparr>symbol = ''META'', price = 300\<rparr>,
      \<lparr>symbol = ''GOOG'', price = 135\<rparr>, \<lparr>symbol = ''MSFT'', price = 250\<rparr>]"

definition initial_holdings :: "(string, real) dict" where
  "initial_holdings = [(''AAPL'', 10), (''GOOG'', 5), (''MSFT'', 8)]"

definition my_target_allocation :: "(string, real) dict" where
  "my_target_allocation = [(''AAPL'', 50 / 100), (''META'', 30 / 100), (''GOOG'', 20 / 100)]"

definition portfolio :: Portfolio where
  "portfolio =
     \<lparr>target_allocation = my_target_allocation,
      stock_objects =
        [(''AAPL'', \<lparr>symbol = ''AAPL'', price = 150\<rparr>), (''META'', \<lparr>symbol = ''META'', price = 300\<rparr>),
         (''GOOG'', \<lparr>symbol = ''GOOG'', price = 135\<rparr>), (''MSFT'', \<lparr>symbol = ''MSFT'', price = 250\<rparr>)],
      holdings = initial_holdings\<rparr>"

definition unknown_holdings :: "(string, real) dict" where
  "unknown_holdings = [(''AAPL'', 10), (''TSLA'', 2)]"

definition unknown_portfolio :: Portfolio where
  "unknown_portfolio = portfolio\<lparr>holdings := unknown_holdings\<rparr>"

subsection \<open>Reading a report\<close>

text \<open>The symbols of the position lines of a report, in the order printed.\<close>

fun position_symbols :: "line list \<Rightarrow> string list" where
  "position_symbols [] = []"
| "position_symbols (Position_line symb shares val percentage # printed) =
     symb # position_symbols printed"
| "position_symbols (Empty_portfolio # printed) = position_symbols printed"
| "position_symbols (Total_line v # printed) = position_symbols printed"

text \<open>\<^verbatim>\<open>symbol in self.stock_objects\<close>\<close>

definition tradable :: "Portfolio \<Rightarrow> string \<Rightarrow> bool" where
  "tradable self symb = (map_of (stock_objects self) symb \<noteq> None)"

text \<open>\<^verbatim>\<open>self.stock_objects[symbol].current_price()\<close>, for a tradable symbol.\<close>

definition price_of :: "Portfolio \<Rightarrow> string \<Rightarrow> real" where
  "price_of self symb = current_price (the (map_of (stock_objects self) symb))"

text \<open>
  The line that the loop of \<^verbatim>\<open>get_current_allocation\<close> prints for one item of the
  holdings, and the test \<^verbatim>\<open>percentage > 0\<close> that decides whether it prints it.
\<close>

definition position_of :: "(string, Stock) dict \<Rightarrow> real \<Rightarrow> string \<times> real \<Rightarrow> line" where
  "position_of stocks t = (\<lambda>(symb, shares).
     Position_line symb shares (shares * current_price (the (map_of stocks symb)))
       (if 0 < t then shares * current_price (the (map_of stocks symb)) / t * 100 else 0))"

definition shown :: "(string, Stock) dict \<Rightarrow> real \<Rightarrow> string \<times> real \<Rightarrow> bool" where
  "shown stocks t = (\<lambda>(symb, shares).
     0 < (if 0 < t then shares * current_price (the (map_of stocks symb)) / t * 100 else 0))"

text \<open>A portfolio that holds a stock whose price is 0.\<close>

definition zero_price_portfolio :: Portfolio where
  "zero_price_portfolio =
     \<lparr>target_allocation = [(''AAPL'', 1)],
      stock_objects = [(''AAPL'', \<lparr>symbol = ''AAPL'', price = 150\<rparr>),
                       (''META'', \<lparr>symbol = ''META'', price = 0\<rparr>)],
      holdings = [(''META'', 3), (''AAPL'', 1)]\<rparr>"

subsection \<open>Execution, in the words of the specification\<close>

text \<open>
  Holdings as a map from symbols to shares. A sell order of a symbol with a price \<open>> 0\<close>
  sets the holding to \<open>max 0 (held - amount / price)\<close>, a buy order adds \<open>amount / price\<close>,
  and an order of a symbol whose price is \<open>\<le> 0\<close> changes nothing.
\<close>

definition held_shares :: "(string \<rightharpoonup> real) \<Rightarrow> string \<Rightarrow> real" where
  "held_shares h symb = (case h symb of None \<Rightarrow> 0 | Some v \<Rightarrow> v)"

definition spec_sell :: "(string \<Rightarrow> real) \<Rightarrow> (string \<rightharpoonup> real) \<Rightarrow> order \<Rightarrow> (string \<rightharpoonup> real)" where
  "spec_sell price_fn h ord =
     (if price_fn (order_symbol ord) \<le> 0 then h
      else h(order_symbol ord \<mapsto>
             max 0 (held_shares h (order_symbol ord)
                    - amount_in_dollars ord / price_fn (order_symbol ord))))"

definition spec_buy :: "(string \<Rightarrow> real) \<Rightarrow> (string \<rightharpoonup> real) \<Rightarrow> order \<Rightarrow> (string \<rightharpoonup> real)" where
  "spec_buy price_fn h ord =
     (if price_fn (order_symbol ord) \<le> 0 then h
      else h(order_symbol ord \<mapsto>
             held_shares h (order_symbol ord)
             + amount_in_dollars ord / price_fn (order_symbol ord)))"

text \<open>The plan of the example.\<close>

definition example_plan :: plan where
  "example_plan =
     [(''buy'', [\<lparr>order_symbol = ''AAPL'', amount_in_dollars = 587.50\<rparr>,
                 \<lparr>order_symbol = ''META'', amount_in_dollars = 1252.50\<rparr>,
                 \<lparr>order_symbol = ''GOOG'', amount_in_dollars = 160.00\<rparr>]),
      (''sell'', [\<lparr>order_symbol = ''MSFT'', amount_in_dollars = 2000.00\<rparr>])]"

subsection \<open>Sequences of calls\<close>

text \<open>
  The states that a caller reaches from a constructed portfolio by calls of
  \<^verbatim>\<open>add_position\<close>, \<^verbatim>\<open>create_rebalance_plan\<close> and \<^verbatim>\<open>execute_rebalance\<close> in any order and
  number. The second component lists the plans that \<^verbatim>\<open>create_rebalance_plan\<close> has
  returned so far; \<^verbatim>\<open>execute_rebalance\<close> is called with any of them, however old. A call
  that raises leaves the object as it was when the exception left the method.
\<close>

inductive reachable :: "Portfolio \<Rightarrow> Portfolio \<times> plan list \<Rightarrow> bool" for start where
  constructed: "reachable start (start, [])"
| deposit:
    "reachable start (self, plans) \<Longrightarrow>
     reachable start (snd (add_position self symb shares), plans)"
| planned:
    "reachable start (self, plans) \<Longrightarrow> create_rebalance_plan self = (Inr plan, self') \<Longrightarrow>
     reachable start (self', plan # plans)"
| planning_raised:
    "reachable start (self, plans) \<Longrightarrow> create_rebalance_plan self = (Inl e, self') \<Longrightarrow>
     reachable start (self', plans)"
| executed:
    "reachable start (self, plans) \<Longrightarrow> plan \<in> set plans \<Longrightarrow>
     reachable start (snd (execute_rebalance self plan), plans)"

code_pred reachable .

text \<open>Every value of a holdings dict is \<open>\<ge> 0\<close>; every amount of a list of orders is \<open>\<ge> 0\<close>.\<close>

definition nonneg :: "(string, real) dict \<Rightarrow> bool" where
  "nonneg d = (\<forall>shares \<in> set (map snd d). 0 \<le> shares)"

definition nonneg_amounts :: "order list \<Rightarrow> bool" where
  "nonneg_amounts orders = (\<forall>ord \<in> set orders. 0 \<le> amount_in_dollars ord)"

subsection \<open>Dicts shared with the caller\<close>

text \<open>
  The functions above pass the dicts of a portfolio by value. Python passes them by
  reference: the constructor stores the dicts it is given, and the caller keeps them.
  Here a heap maps references to dicts, and a portfolio object holds the references of
  its target allocation and of its holdings (the stock objects are a dict that the
  constructor builds itself). \<open>next_ref\<close> is the first reference not yet in use.
\<close>

type_synonym ref = nat

record heap =
  cells :: "ref \<Rightarrow> (string, real) dict"
  next_ref :: ref

record Portfolio_ref =
  target_allocation_ref :: ref
  stock_objects_of :: "(string, Stock) dict"
  holdings_ref :: ref

text \<open>The portfolio that a method sees through the references of the object.\<close>

definition view :: "heap \<Rightarrow> Portfolio_ref \<Rightarrow> Portfolio" where
  "view h obj =
     \<lparr>target_allocation = cells h (target_allocation_ref obj),
      stock_objects = stock_objects_of obj,
      holdings = cells h (holdings_ref obj)\<rparr>"

text \<open>\<^verbatim>\<open>d = {}\<close>: a new, empty dict.\<close>

definition new_dict :: "heap \<Rightarrow> ref \<times> heap" where
  "new_dict h = (next_ref h, h\<lparr>cells := (cells h)(next_ref h := []), next_ref := Suc (next_ref h)\<rparr>)"

text \<open>
  \<^verbatim>\<open>Portfolio.__init__\<close> on references. The line
  \<^verbatim>\<open>self.holdings = initial_holdings if initial_holdings is not None else {}\<close> stores
  the reference it is given; only the default makes a new dict.
\<close>

definition init_ref ::
  "heap \<Rightarrow> Stock list \<Rightarrow> ref \<Rightarrow> ref option \<Rightarrow> (error + Portfolio_ref) \<times> heap" where
  "init_ref h all_tradable_stocks target initial =
     (if \<not> (sum_list (map snd (cells h target)) = 1)
      then (Inl (ValueError ''Target allocation percentages must sum to 1.0''), h)
      else
        let stocks = build_stock_objects all_tradable_stocks;
            (held, h') = (case initial of Some r \<Rightarrow> (r, h) | None \<Rightarrow> new_dict h)
        in (case find (\<lambda>symb. map_of stocks symb = None) (map fst (cells h' target)) of
              Some symb \<Rightarrow>
                (Inl (ValueError (''Stock '' @ quote symb @
                        '' in target allocation is not in tradable stocks list.'')), h')
            | None \<Rightarrow>
                (Inr \<lparr>target_allocation_ref = target, stock_objects_of = stocks,
                      holdings_ref = held\<rparr>, h')))"

text \<open>
  A method that assigns to the items of \<^verbatim>\<open>self.holdings\<close> only (\<^verbatim>\<open>add_position\<close>,
  \<^verbatim>\<open>execute_rebalance\<close>): it runs on the portfolio it sees, and the holdings it leaves are
  the new content of the dict that \<^verbatim>\<open>self.holdings\<close> refers to.
\<close>

definition on_holdings ::
  "(Portfolio \<Rightarrow> 'a \<times> Portfolio) \<Rightarrow> heap \<Rightarrow> Portfolio_ref \<Rightarrow> 'a \<times> heap" where
  "on_holdings method h obj =
     (let (r, self') = method (view h obj)
      in (r, h\<lparr>cells := (cells h)(holdings_ref obj := holdings self')\<rparr>))"

definition add_position_ref ::
  "heap \<Rightarrow> Portfolio_ref \<Rightarrow> string \<Rightarrow> real \<Rightarrow> (error + unit) \<times> heap" where
  "add_position_ref h obj symb shares = on_holdings (\<lambda>self. add_position self symb shares) h obj"

definition execute_rebalance_ref ::
  "heap \<Rightarrow> Portfolio_ref \<Rightarrow> plan \<Rightarrow> (error + unit) \<times> heap" where
  "execute_rebalance_ref h obj plan = on_holdings (\<lambda>self. execute_rebalance self plan) h obj"

text \<open>
  The caller of the main block: the target allocation is the dict at reference 0, the
  initial holdings the dict at reference 1.
\<close>

definition caller_heap :: heap where
  "caller_heap =
     \<lparr>cells = (\<lambda>r. [])(0 := my_target_allocation, 1 := initial_holdings), next_ref = 2\<rparr>"

definition portfolio_ref :: Portfolio_ref where
  "portfolio_ref =
     \<lparr>target_allocation_ref = 0, stock_objects_of = stock_objects portfolio, holdings_ref = 1\<rparr>"

subsection \<open>Double precision\<close>

text \<open>
  A Python \<^verbatim>\<open>float\<close> is an IEEE-754 binary64 number, and an operation on floats returns its
  exact result rounded to the nearest such number, a tie going to the one whose significand
  is even. The definitions above compute with real numbers; the definitions from here on
  round as the interpreter does.

  \<open>round_half_even\<close> is the nearest integer, \<open>binade x\<close> is \<open>\<lfloor>log\<^sub>2 \<bar>x\<bar>\<rfloor>\<close> for \<open>x \<noteq> 0\<close>, and
  \<open>double_round x\<close> is the binary64 number nearest to \<open>x\<close>: a multiple of \<open>2\<^sup>e\<^sup>-\<^sup>5\<^sup>2\<close> for the
  binade \<open>e\<close> of \<open>x\<close>, and of \<open>2\<^sup>-\<^sup>1\<^sup>0\<^sup>7\<^sup>4\<close> below \<open>2\<^sup>-\<^sup>1\<^sup>0\<^sup>2\<^sup>2\<close>, where the numbers are subnormal.
  A result of \<open>2\<^sup>1\<^sup>0\<^sup>2\<^sup>4\<close> or more, for which Python has \<^verbatim>\<open>inf\<close> or raises
  \<^verbatim>\<open>OverflowError\<close>, has no counterpart here: \<open>double_round\<close> rounds it as if binades had
  no upper end.
\<close>

definition round_half_even :: "real \<Rightarrow> int" where
  "round_half_even y =
     (let f = \<lfloor>y\<rfloor>; d = y - of_int f
      in if d < 1 / 2 then f
         else if 1 / 2 < d then f + 1
         else if even f then f else f + 1)"

definition binade :: "real \<Rightarrow> int" where
  "binade x =
     (if 1 \<le> \<bar>x\<bar> then bitlen \<lfloor>\<bar>x\<bar>\<rfloor> - 1
      else let b = bitlen \<lfloor>1 / \<bar>x\<bar>\<rfloor>
           in if 1 / \<bar>x\<bar> = 2 ^ nat (b - 1) then 1 - b else - b)"

definition double_round :: "real \<Rightarrow> real" where
  "double_round x =
     (let q = 2 powi (max (binade x) (- 1022) - 52)
      in of_int (round_half_even (x / q)) * q)"

text \<open>
  \<^verbatim>\<open>a + b\<close>, \<^verbatim>\<open>a - b\<close>, \<^verbatim>\<open>a * b\<close> and \<^verbatim>\<open>a / b\<close> on floats, and \<^verbatim>\<open>round(x, 2)\<close>, which returns
  the float nearest to the decimal rounding of \<open>x\<close>. Negation, \<^verbatim>\<open>abs\<close>, \<^verbatim>\<open>max\<close> and the
  comparisons are exact. The literal \<^verbatim>\<open>0.01\<close> is \<open>double_round (1 / 100)\<close>.
\<close>

definition float_add :: "real \<Rightarrow> real \<Rightarrow> real" where
  "float_add a b = double_round (a + b)"

definition float_sub :: "real \<Rightarrow> real \<Rightarrow> real" where
  "float_sub a b = double_round (a - b)"

definition float_mul :: "real \<Rightarrow> real \<Rightarrow> real" where
  "float_mul a b = double_round (a * b)"

definition float_div :: "real \<Rightarrow> real \<Rightarrow> real" where
  "float_div a b = double_round (a / b)"

definition float_round2 :: "real \<Rightarrow> real" where
  "float_round2 x = double_round (round2 x)"

text \<open>\<^verbatim>\<open>Portfolio.get_total_value\<close> on floats.\<close>

fun total_value_loop_float ::
  "(string, Stock) dict \<Rightarrow> (string, real) dict \<Rightarrow> real \<Rightarrow> error + real" where
  "total_value_loop_float stocks [] total_value = Inr total_value"
| "total_value_loop_float stocks ((symb, shares) # items) total_value =
     (case map_of stocks symb of
        None \<Rightarrow> Inl (KeyError symb)
      | Some stock \<Rightarrow>
          total_value_loop_float stocks items
            (float_add total_value (float_mul shares (current_price stock))))"

definition get_total_value_float :: "Portfolio \<Rightarrow> error + real" where
  "get_total_value_float self =
     total_value_loop_float (stock_objects self) (holdings self) 0"

text \<open>\<^verbatim>\<open>Portfolio.create_rebalance_plan\<close> on floats.\<close>

fun plan_loop_float ::
  "(string, Stock) dict \<Rightarrow> (string, real) dict \<Rightarrow> real \<Rightarrow> (string \<times> real) list \<Rightarrow>
   order list \<times> order list \<Rightarrow> error + order list \<times> order list" where
  "plan_loop_float stocks held total_portfolio_value [] actions = Inr actions"
| "plan_loop_float stocks held total_portfolio_value ((symb, target_percent) # items)
     (buy, sell) =
     (case map_of stocks symb of
        None \<Rightarrow> Inl (KeyError symb)
      | Some stock \<Rightarrow>
          let target_value = float_mul total_portfolio_value target_percent;
              current_value = float_mul (dict_get held symb 0) (current_price stock);
              value_difference = float_sub target_value current_value
          in if double_round (1 / 100) < value_difference
             then plan_loop_float stocks held total_portfolio_value items
                    (buy @ [\<lparr>order_symbol = symb,
                              amount_in_dollars = float_round2 value_difference\<rparr>], sell)
             else if value_difference < - double_round (1 / 100)
             then plan_loop_float stocks held total_portfolio_value items
                    (buy, sell @ [\<lparr>order_symbol = symb,
                                    amount_in_dollars = float_round2 \<bar>value_difference\<bar>\<rparr>])
             else plan_loop_float stocks held total_portfolio_value items (buy, sell))"

definition create_rebalance_plan_float :: "Portfolio \<Rightarrow> (error + plan) \<times> Portfolio" where
  "create_rebalance_plan_float self =
     (case get_total_value_float self of
        Inl e \<Rightarrow> (Inl e, self)
      | Inr total_portfolio_value \<Rightarrow>
          if total_portfolio_value = 0 then (Inr [(''buy'', []), (''sell'', [])], self)
          else
            let self' = self\<lparr>target_allocation :=
                               backfill (stock_objects self) (target_allocation self)\<rparr>
            in (case plan_loop_float (stock_objects self') (holdings self')
                       total_portfolio_value (target_allocation self') ([], []) of
                  Inl e \<Rightarrow> (Inl e, self')
                | Inr (buy, sell) \<Rightarrow> (Inr [(''buy'', buy), (''sell'', sell)], self')))"

text \<open>\<^verbatim>\<open>Portfolio.execute_rebalance\<close> on floats.\<close>

fun sell_loop_float :: "order list \<Rightarrow> Portfolio \<Rightarrow> (error + unit) \<times> Portfolio" where
  "sell_loop_float [] self = (Inr (), self)"
| "sell_loop_float (ord # rest) self =
     (let symb = order_symbol ord; amount_to_sell = amount_in_dollars ord
      in case map_of (stock_objects self) symb of
           None \<Rightarrow> (Inl (KeyError symb), self)
         | Some stock \<Rightarrow>
             let p = current_price stock
             in if 0 < p
                then
                  let shares_to_sell = float_div amount_to_sell p
                  in sell_loop_float rest
                       (self\<lparr>holdings :=
                          AList.update symb
                            (max 0 (float_sub (dict_get (holdings self) symb 0) shares_to_sell))
                            (holdings self)\<rparr>)
                else sell_loop_float rest self)"

fun buy_loop_float :: "order list \<Rightarrow> Portfolio \<Rightarrow> (error + unit) \<times> Portfolio" where
  "buy_loop_float [] self = (Inr (), self)"
| "buy_loop_float (ord # rest) self =
     (let symb = order_symbol ord; amount_to_buy = amount_in_dollars ord
      in case map_of (stock_objects self) symb of
           None \<Rightarrow> (Inl (KeyError symb), self)
         | Some stock \<Rightarrow>
             let p = current_price stock
             in if 0 < p
                then
                  let shares_to_buy = float_div amount_to_buy p
                  in buy_loop_float rest
                       (self\<lparr>holdings :=
                          AList.update symb
                            (float_add (dict_get (holdings self) symb 0) shares_to_buy)
                            (holdings self)\<rparr>)
                else buy_loop_float rest self)"

definition execute_rebalance_float :: "Portfolio \<Rightarrow> plan \<Rightarrow> (error + unit) \<times> Portfolio" where
  "execute_rebalance_float self plan =
     (case sell_loop_float (dict_get plan ''sell'' []) self of
        (Inl e, self') \<Rightarrow> (Inl e, self')
      | (Inr _, self') \<Rightarrow> buy_loop_float (dict_get plan ''buy'' []) self')"

subsection \<open>The plan as two filters\<close>

text \<open>
  \<^verbatim>\<open>value_difference\<close> of the second loop of \<^verbatim>\<open>create_rebalance_plan\<close> for one item of the
  target allocation, and the orders that the loop appends for a list of items.
\<close>

definition value_difference_float :: "Portfolio \<Rightarrow> real \<Rightarrow> string \<times> real \<Rightarrow> real" where
  "value_difference_float self t = (\<lambda>(symb, target_percent).
     float_sub (float_mul t target_percent)
       (float_mul (dict_get (holdings self) symb 0) (price_of self symb)))"

definition buy_orders_float :: "Portfolio \<Rightarrow> real \<Rightarrow> (string \<times> real) list \<Rightarrow> order list" where
  "buy_orders_float self t its =
     map (\<lambda>it. \<lparr>order_symbol = fst it,
                 amount_in_dollars = float_round2 (value_difference_float self t it)\<rparr>)
       (filter (\<lambda>it. double_round (1 / 100) < value_difference_float self t it) its)"

definition sell_orders_float :: "Portfolio \<Rightarrow> real \<Rightarrow> (string \<times> real) list \<Rightarrow> order list" where
  "sell_orders_float self t its =
     map (\<lambda>it. \<lparr>order_symbol = fst it,
                 amount_in_dollars = float_round2 \<bar>value_difference_float self t it\<bar>\<rparr>)
       (filter (\<lambda>it. \<not> double_round (1 / 100) < value_difference_float self t it
                     \<and> value_difference_float self t it < - double_round (1 / 100)) its)"

subsection \<open>The two loops of the execution as one\<close>

text \<open>
  The loops of \<^verbatim>\<open>execute_rebalance\<close> differ in the holding that they assign: \<open>sold\<close> in the
  first, \<open>bought\<close> in the second. \<open>order_loop\<close> is the loop with that assignment as an
  argument, and \<open>float_order\<close> is one step of it on the holdings as a map.
\<close>

definition sold :: "real \<Rightarrow> real \<Rightarrow> real \<Rightarrow> real" where
  "sold held amount p = max 0 (float_sub held (float_div amount p))"

definition bought :: "real \<Rightarrow> real \<Rightarrow> real \<Rightarrow> real" where
  "bought held amount p = float_add held (float_div amount p)"

fun order_loop ::
  "(real \<Rightarrow> real \<Rightarrow> real \<Rightarrow> real) \<Rightarrow> order list \<Rightarrow> Portfolio \<Rightarrow> (error + unit) \<times> Portfolio" where
  "order_loop assigned [] self = (Inr (), self)"
| "order_loop assigned (ord # rest) self =
     (case map_of (stock_objects self) (order_symbol ord) of
        None \<Rightarrow> (Inl (KeyError (order_symbol ord)), self)
      | Some stock \<Rightarrow>
          if 0 < current_price stock
          then order_loop assigned rest
                 (self\<lparr>holdings :=
                    AList.update (order_symbol ord)
                      (assigned (dict_get (holdings self) (order_symbol ord) 0)
                         (amount_in_dollars ord) (current_price stock))
                      (holdings self)\<rparr>)
          else order_loop assigned rest self)"

definition float_order ::
  "(real \<Rightarrow> real \<Rightarrow> real \<Rightarrow> real) \<Rightarrow> (string \<Rightarrow> real) \<Rightarrow> (string \<rightharpoonup> real) \<Rightarrow> order \<Rightarrow>
   (string \<rightharpoonup> real)" where
  "float_order assigned price_fn h ord =
     (if price_fn (order_symbol ord) \<le> 0 then h
      else h(order_symbol ord \<mapsto>
             assigned (held_shares h (order_symbol ord)) (amount_in_dollars ord)
               (price_fn (order_symbol ord))))"

subsection \<open>Portfolios that can be rebalanced\<close>

text \<open>
  The three dicts have distinct keys, as every dict has; the symbols of the target
  allocation and of the holdings are tradable; no holding and no target fraction is
  negative; the fractions sum to 1 up to \<open>10\<^sup>-\<^sup>1\<^sup>2\<close>, which is more than the sum of a thousand
  fractions can be away from their double sum 1.0; every price is \<open>> 0\<close>, there are at most a
  thousand stocks and the holdings are worth at most \<open>10\<^sup>8\<close>, amounts at which a rounding
  error is less than \<open>10\<^sup>-\<^sup>7\<close>; and every price is between \<open>10\<^sup>-\<^sup>2\<^sup>0\<^sup>0\<close> and \<open>10\<^sup>2\<^sup>0\<^sup>0\<close>, so that no
  quotient of an amount by a price leaves the range of the doubles.
\<close>

definition rebalanceable :: "Portfolio \<Rightarrow> bool" where
  "rebalanceable self \<longleftrightarrow>
     distinct (map fst (target_allocation self))
   \<and> distinct (map fst (stock_objects self))
   \<and> distinct (map fst (holdings self))
   \<and> (\<forall>symb \<in> set (map fst (target_allocation self)). tradable self symb)
   \<and> (\<forall>symb \<in> set (map fst (holdings self)). tradable self symb)
   \<and> (\<forall>symb \<in> set (map fst (stock_objects self)).
         1 / 10 ^ 200 \<le> price_of self symb \<and> price_of self symb \<le> 10 ^ 200)
   \<and> nonneg (holdings self)
   \<and> nonneg (target_allocation self)
   \<and> \<bar>sum_list (map snd (target_allocation self)) - 1\<bar> \<le> 1 / 10 ^ 12
   \<and> length (stock_objects self) \<le> 1000
   \<and> sum_list (map (\<lambda>(symb, shares). shares * price_of self symb) (holdings self)) \<le> 10 ^ 8"

subsection \<open>Examples on floats\<close>

text \<open>
  The portfolio of the main block, its target fractions being the floats that the literals
  \<^verbatim>\<open>0.50\<close>, \<^verbatim>\<open>0.30\<close> and \<^verbatim>\<open>0.20\<close> denote.
\<close>

definition float_portfolio :: Portfolio where
  "float_portfolio =
     portfolio\<lparr>target_allocation :=
       [(''AAPL'', double_round (50 / 100)), (''META'', double_round (30 / 100)),
        (''GOOG'', double_round (20 / 100))]\<rparr>"

text \<open>
  A large portfolio: \<open>10\<^sup>1\<^sup>5\<close> shares at the price 3, and the target fractions \<^verbatim>\<open>0.3\<close> and
  \<^verbatim>\<open>0.7\<close>.
\<close>

definition large_portfolio :: Portfolio where
  "large_portfolio =
     \<lparr>target_allocation = [(''A'', double_round (3 / 10)), (''B'', double_round (7 / 10))],
      stock_objects = [(''A'', \<lparr>symbol = ''A'', price = 3\<rparr>),
                       (''B'', \<lparr>symbol = ''B'', price = 7\<rparr>)],
      holdings = [(''A'', 10 ^ 15)]\<rparr>"

text \<open>A portfolio with a negative target fraction, and one with a negative holding.\<close>

definition short_portfolio :: Portfolio where
  "short_portfolio =
     \<lparr>target_allocation = [(''AAPL'', 3 / 2), (''META'', - (1 / 2))],
      stock_objects = [(''AAPL'', \<lparr>symbol = ''AAPL'', price = 150\<rparr>),
                       (''META'', \<lparr>symbol = ''META'', price = 300\<rparr>)],
      holdings = [(''AAPL'', 10)]\<rparr>"

definition owing_portfolio :: Portfolio where
  "owing_portfolio =
     \<lparr>target_allocation = [(''AAPL'', 1 / 2), (''META'', 1 / 2)],
      stock_objects = [(''AAPL'', \<lparr>symbol = ''AAPL'', price = 150\<rparr>),
                       (''META'', \<lparr>symbol = ''META'', price = 300\<rparr>)],
      holdings = [(''AAPL'', - 10), (''META'', 5)]\<rparr>"

section \<open>Properties\<close>

subsection \<open>The worked example\<close>

lemma init_portfolio:
  "init all_stocks my_target_allocation (Some initial_holdings) = Inr portfolio"
  by (simp add: init_def all_stocks_def my_target_allocation_def initial_holdings_def
      portfolio_def build_stock_objects_def)

lemma total_value_portfolio: "get_total_value portfolio = Inr 4175"
  by (simp add: get_total_value_def portfolio_def initial_holdings_def current_price_def)

lemma backfill_portfolio:
  "backfill (stock_objects portfolio) (target_allocation portfolio) =
   my_target_allocation @ [(''MSFT'', 0)]"
  by (simp add: backfill_def portfolio_def my_target_allocation_def)

lemma plan_portfolio:
  "create_rebalance_plan portfolio =
     (Inr [(''buy'', [\<lparr>order_symbol = ''AAPL'', amount_in_dollars = 587.50\<rparr>,
                      \<lparr>order_symbol = ''META'', amount_in_dollars = 1252.50\<rparr>,
                      \<lparr>order_symbol = ''GOOG'', amount_in_dollars = 160.00\<rparr>]),
           (''sell'', [\<lparr>order_symbol = ''MSFT'', amount_in_dollars = 2000.00\<rparr>])],
      portfolio\<lparr>target_allocation := my_target_allocation @ [(''MSFT'', 0)]\<rparr>)"
  by (simp add: create_rebalance_plan_def total_value_portfolio backfill_portfolio)
     (simp add: portfolio_def my_target_allocation_def initial_holdings_def dict_get_def
      current_price_def round2_def)

text \<open>
  Claim C1. With the registry AAPL 150, META 300, GOOG 135, MSFT 250, the holdings
  AAPL 10, GOOG 5, MSFT 8 and the target AAPL 0.50, META 0.30, GOOG 0.20, construction
  succeeds, the total value is 4175, and the plan buys AAPL for 587.50, META for 1252.50
  and GOOG for 160.00 and sells MSFT for 2000.00, in this order.
\<close>

theorem C1_worked_example:
  "init [\<lparr>symbol = ''AAPL'', price = 150\<rparr>, \<lparr>symbol = ''META'', price = 300\<rparr>,
         \<lparr>symbol = ''GOOG'', price = 135\<rparr>, \<lparr>symbol = ''MSFT'', price = 250\<rparr>]
        [(''AAPL'', 0.50), (''META'', 0.30), (''GOOG'', 0.20)]
        (Some [(''AAPL'', 10), (''GOOG'', 5), (''MSFT'', 8)]) = Inr portfolio
   \<and> get_total_value portfolio = Inr 4175
   \<and> fst (create_rebalance_plan portfolio) =
       Inr [(''buy'', [\<lparr>order_symbol = ''AAPL'', amount_in_dollars = 587.50\<rparr>,
                        \<lparr>order_symbol = ''META'', amount_in_dollars = 1252.50\<rparr>,
                        \<lparr>order_symbol = ''GOOG'', amount_in_dollars = 160.00\<rparr>]),
            (''sell'', [\<lparr>order_symbol = ''MSFT'', amount_in_dollars = 2000.00\<rparr>])]"
proof -
  have "init all_stocks my_target_allocation (Some initial_holdings) = Inr portfolio"
    by (rule init_portfolio)
  then have "init [\<lparr>symbol = ''AAPL'', price = 150\<rparr>, \<lparr>symbol = ''META'', price = 300\<rparr>,
         \<lparr>symbol = ''GOOG'', price = 135\<rparr>, \<lparr>symbol = ''MSFT'', price = 250\<rparr>]
        [(''AAPL'', 0.50), (''META'', 0.30), (''GOOG'', 0.20)]
        (Some [(''AAPL'', 10), (''GOOG'', 5), (''MSFT'', 8)]) = Inr portfolio"
    by (simp add: all_stocks_def my_target_allocation_def initial_holdings_def)
  then show ?thesis
    by (simp add: total_value_portfolio plan_portfolio)
qed

subsection \<open>Holdings of an unknown symbol\<close>

text \<open>
  Claim C10. Construction does not look at the symbols of the initial holdings: with
  the holdings AAPL 10, TSLA 2, where TSLA is not a tradable stock, and the target of the
  example, construction succeeds; the total value and the plan then fail on the lookup
  of TSLA in the stock objects.
\<close>

theorem C10_unknown_holding_accepted:
  "map_of (build_stock_objects all_stocks) ''TSLA'' = None
   \<and> init all_stocks my_target_allocation (Some [(''AAPL'', 10), (''TSLA'', 2)])
       = Inr unknown_portfolio
   \<and> get_total_value unknown_portfolio = Inl (KeyError ''TSLA'')
   \<and> create_rebalance_plan unknown_portfolio = (Inl (KeyError ''TSLA''), unknown_portfolio)"
proof -
  have total: "get_total_value unknown_portfolio = Inl (KeyError ''TSLA'')"
    by (simp add: get_total_value_def unknown_portfolio_def unknown_holdings_def
        portfolio_def)
  have "init all_stocks my_target_allocation (Some [(''AAPL'', 10), (''TSLA'', 2)])
        = Inr unknown_portfolio"
    by (simp add: init_def all_stocks_def my_target_allocation_def unknown_portfolio_def
        unknown_holdings_def portfolio_def build_stock_objects_def)
  moreover have "map_of (build_stock_objects all_stocks) ''TSLA'' = None"
    by (simp add: all_stocks_def build_stock_objects_def)
  ultimately show ?thesis
    using total by (simp add: create_rebalance_plan_def)
qed

subsection \<open>Deposits\<close>

text \<open>
  Claim C5, as the code has it. \<^verbatim>\<open>add_position\<close> tests the symbol first: a symbol that
  is not tradable raises the \<^verbatim>\<open>ValueError\<close> whatever the number of shares, and the object
  is as before; for a tradable symbol, shares \<open>\<le> 0\<close> change nothing and raise nothing, and
  shares \<open>> 0\<close> are added to the holding of the symbol, which is created at the end of the
  dict when absent; nothing else changes.
\<close>

theorem C5_deposit:
  "(\<not> tradable self symb \<longrightarrow>
      add_position self symb shares =
        (Inl (ValueError (''Error: Cannot add position for '' @ quote symb @
                ''. It is not a known tradable stock.'')), self))
   \<and> (tradable self symb \<and> shares \<le> 0 \<longrightarrow> add_position self symb shares = (Inr (), self))
   \<and> (tradable self symb \<and> 0 < shares \<longrightarrow>
        fst (add_position self symb shares) = Inr ()
        \<and> map_of (holdings (snd (add_position self symb shares))) =
            (map_of (holdings self))
              (symb \<mapsto> (case map_of (holdings self) symb of
                           None \<Rightarrow> shares | Some v \<Rightarrow> v + shares))
        \<and> map fst (holdings (snd (add_position self symb shares))) =
            (if symb \<in> set (map fst (holdings self)) then map fst (holdings self)
             else map fst (holdings self) @ [symb])
        \<and> target_allocation (snd (add_position self symb shares)) = target_allocation self
        \<and> stock_objects (snd (add_position self symb shares)) = stock_objects self)"
  by (auto simp: add_position_def tradable_def dict_get_def update_conv' update_keys
      split: option.splits)

theorem C5_deposit_witness:
  "\<not> tradable portfolio ''TSLA''
   \<and> add_position portfolio ''TSLA'' 3 =
       (Inl (ValueError (''Error: Cannot add position for '' @ quote ''TSLA'' @
               ''. It is not a known tradable stock.'')), portfolio)
   \<and> tradable portfolio ''META'' \<and> (0::real) \<le> 0
   \<and> add_position portfolio ''META'' 0 = (Inr (), portfolio)
   \<and> (0::real) < 3
   \<and> holdings (snd (add_position portfolio ''META'' 3)) =
       [(''AAPL'', 10), (''GOOG'', 5), (''MSFT'', 8), (''META'', 3)]
   \<and> holdings (snd (add_position portfolio ''AAPL'' 3)) =
       [(''AAPL'', 13), (''GOOG'', 5), (''MSFT'', 8)]"
  using C5_deposit [of portfolio "''TSLA''" 3] C5_deposit [of portfolio "''META''" 0]
    C5_deposit [of portfolio "''META''" 3] C5_deposit [of portfolio "''AAPL''" 3]
  by (simp add: tradable_def portfolio_def add_position_def initial_holdings_def dict_get_def)

text \<open>
  The claim's first clause, a deposit of shares \<open>\<le> 0\<close> being no error for every symbol,
  fails at a symbol that is not tradable: the call raises.
\<close>

theorem C5_nonpositive_unknown_counterexample:
  "(- 5 :: real) \<le> 0
   \<and> add_position portfolio ''TSLA'' (- 5) =
       (Inl (ValueError (''Error: Cannot add position for '' @ quote ''TSLA'' @
               ''. It is not a known tradable stock.'')), portfolio)"
  by (simp add: add_position_def portfolio_def)

subsection \<open>The allocation report\<close>

lemma total_value_loop_known:
  "total_value_loop stocks its acc = Inr t \<Longrightarrow> (symb, shares) \<in> set its \<Longrightarrow>
   map_of stocks symb \<noteq> None"
  by (induction stocks its acc rule: total_value_loop.induct)
     (auto split: option.splits)

lemma allocation_loop_known:
  "\<forall>symb \<in> fst ` set its. map_of stocks symb \<noteq> None \<Longrightarrow>
   allocation_loop stocks t its = Inr (map (position_of stocks t) (filter (shown stocks t) its))"
proof (induction its)
  case Nil
  then show ?case by simp
next
  case (Cons it its)
  obtain symb shares where it: "it = (symb, shares)" by (cases it)
  from Cons.prems obtain stock where stock: "map_of stocks symb = Some stock"
    by (auto simp: it)
  from Cons have IH: "allocation_loop stocks t its =
      Inr (map (position_of stocks t) (filter (shown stocks t) its))"
    by simp
  show ?case
    by (simp add: it stock IH position_of_def shown_def Let_def)
qed

lemma position_symbols_map: "position_symbols (map (position_of stocks t) its) = map fst its"
  by (induction its) (auto simp: position_of_def)

lemma sorted_map_fst: "sorted (its :: (string \<times> real) list) \<Longrightarrow> sorted (map fst its)"
  by (induction its) (auto simp: less_eq_prod_def)

lemma sorted_shown: "sorted (map fst (filter P (sort (its :: (string \<times> real) list))))"
proof -
  have "sorted (map fst (sort its))" by (rule sorted_map_fst) simp
  then show ?thesis by (simp add: filter_map[symmetric] sorted_filter del: filter_map) 
qed


lemma total_value_loop_sum:
  "total_value_loop stocks its acc = Inr t \<Longrightarrow>
   t = acc + sum_list (map (\<lambda>(symb, shares). shares * current_price (the (map_of stocks symb))) its)"
  by (induction stocks its acc rule: total_value_loop.induct)
     (auto split: option.splits)

lemma get_current_allocation_known:
  assumes "get_total_value self = Inr t"
  shows "get_current_allocation self =
     (if t = 0 then Inr [Empty_portfolio]
      else Inr (Total_line t # map (position_of (stock_objects self) t)
                  (filter (shown (stock_objects self) t) (sort (holdings self)))))"
proof -
  have "\<forall>symb \<in> fst ` set (sort (holdings self)). map_of (stock_objects self) symb \<noteq> None"
    using assms total_value_loop_known [of "stock_objects self" "holdings self" 0 t]
    by (auto simp: get_total_value_def)
  then show ?thesis
    using assms by (simp add: get_current_allocation_def allocation_loop_known)
qed

text \<open>
  Claim C8, as the code has it. When the total value is 0 the report is the single line of
  the empty portfolio. Otherwise the report is the line of the total followed by the
  position lines, sorted by symbol, of exactly the held symbols whose percentage of the
  total is \<open>> 0\<close>: those whose value (shares times price) is \<open>> 0\<close>. With shares and prices
  that are not negative, these are the symbols with shares \<open>> 0\<close> and price \<open>> 0\<close>: a held
  symbol whose price is 0 is left out.
\<close>

theorem C8_report:
  "get_total_value self = Inr t \<longrightarrow>
     (t = 0 \<longrightarrow> get_current_allocation self = Inr [Empty_portfolio])
   \<and> (t \<noteq> 0 \<longrightarrow>
        (\<exists>printed. get_current_allocation self = Inr (Total_line t # printed)
           \<and> sorted (position_symbols printed)
           \<and> set (position_symbols printed) =
               {symb. \<exists>shares. (symb, shares) \<in> set (holdings self) \<and> 0 < t
                        \<and> 0 < shares * price_of self symb}
           \<and> ((\<forall>(symb, shares) \<in> set (holdings self). 0 \<le> shares \<and> 0 \<le> price_of self symb)
                \<longrightarrow> set (position_symbols printed) =
                      {symb. \<exists>shares. (symb, shares) \<in> set (holdings self) \<and> 0 < shares
                               \<and> 0 < price_of self symb})))"
proof (intro impI conjI)
  assume t: "get_total_value self = Inr t" and "t = 0"
  then show "get_current_allocation self = Inr [Empty_portfolio]"
    by (simp add: get_current_allocation_known)
next
  assume t: "get_total_value self = Inr t" and nz: "t \<noteq> 0"
  let ?its = "filter (shown (stock_objects self) t) (sort (holdings self))"
  let ?printed = "map (position_of (stock_objects self) t) ?its"
  have printed: "get_current_allocation self = Inr (Total_line t # ?printed)"
    using t nz by (simp add: get_current_allocation_known)
  have symbols: "position_symbols ?printed = map fst ?its"
    by (rule position_symbols_map)
  have sorted: "sorted (position_symbols ?printed)"
    unfolding symbols by (rule sorted_shown)
  have shown_iff: "shown (stock_objects self) t (symb, shares) \<longleftrightarrow>
      0 < t \<and> 0 < shares * price_of self symb" for symb shares
    by (auto simp: shown_def price_of_def zero_less_mult_iff zero_less_divide_iff)
  have listed: "set (position_symbols ?printed) =
      {symb. \<exists>shares. (symb, shares) \<in> set (holdings self) \<and> 0 < t
         \<and> 0 < shares * price_of self symb}"
    unfolding symbols using shown_iff by (auto simp: image_iff) 
  have valid: "set (position_symbols ?printed) =
      {symb. \<exists>shares. (symb, shares) \<in> set (holdings self) \<and> 0 < shares
         \<and> 0 < price_of self symb}"
    if nonneg: "\<forall>(symb, shares) \<in> set (holdings self). 0 \<le> shares \<and> 0 \<le> price_of self symb"
  proof -
    have "0 \<le> sum_list (map (\<lambda>(symb, shares). shares * current_price (the (map_of (stock_objects self) symb)))
              (holdings self))"
      using nonneg by (intro sum_list_nonneg) (auto simp: price_of_def)
    with t nz have "0 < t"
      using total_value_loop_sum [of "stock_objects self" "holdings self" 0 t]
      by (simp add: get_total_value_def)
    then show ?thesis
      unfolding listed using nonneg by (fastforce simp: zero_less_mult_iff)
  qed
  show "\<exists>printed. get_current_allocation self = Inr (Total_line t # printed)
           \<and> sorted (position_symbols printed)
           \<and> set (position_symbols printed) =
               {symb. \<exists>shares. (symb, shares) \<in> set (holdings self) \<and> 0 < t
                        \<and> 0 < shares * price_of self symb}
           \<and> ((\<forall>(symb, shares) \<in> set (holdings self). 0 \<le> shares \<and> 0 \<le> price_of self symb)
                \<longrightarrow> set (position_symbols printed) =
                      {symb. \<exists>shares. (symb, shares) \<in> set (holdings self) \<and> 0 < shares
                               \<and> 0 < price_of self symb})"
    using printed sorted listed valid by blast
qed

theorem C8_report_witness:
  "get_total_value portfolio = Inr 4175 \<and> (4175::real) \<noteq> 0
   \<and> list_all (\<lambda>(symb, shares). 0 \<le> shares \<and> 0 \<le> price_of portfolio symb) (holdings portfolio)
   \<and> (\<exists>printed. get_current_allocation portfolio = Inr (Total_line 4175 # printed)
         \<and> sorted (position_symbols printed)
         \<and> set (position_symbols printed) = {''AAPL'', ''GOOG'', ''MSFT''})
   \<and> get_total_value (portfolio\<lparr>holdings := []\<rparr>) = Inr 0
   \<and> get_current_allocation (portfolio\<lparr>holdings := []\<rparr>) = Inr [Empty_portfolio]"
proof -
  have nonneg: "\<forall>(symb, shares) \<in> set (holdings portfolio). 0 \<le> shares \<and> 0 \<le> price_of portfolio symb"
    by (simp add: portfolio_def initial_holdings_def price_of_def current_price_def)
  have listed: "{symb. \<exists>shares. (symb, shares) \<in> set (holdings portfolio) \<and> 0 < shares
                               \<and> 0 < price_of portfolio symb} = {''AAPL'', ''GOOG'', ''MSFT''}"
    by (auto simp: portfolio_def initial_holdings_def price_of_def current_price_def)
  have empty: "get_total_value (portfolio\<lparr>holdings := []\<rparr>) = Inr 0"
    by (simp add: get_total_value_def)
  show ?thesis
    using C8_report [of portfolio 4175] C8_report [of "portfolio\<lparr>holdings := []\<rparr>" 0]
      total_value_portfolio nonneg listed empty
    by (auto simp: list_all_iff)
qed

text \<open>
  The claim that a held symbol of price 0 is listed with value 0 fails: META is held
  with 3 shares at price 0, and the report has the line of AAPL only.
\<close>

lemma sort_zero: "sort [(''META'', 3::real), (''AAPL'', 1)] = [(''AAPL'', 1), (''META'', 3)]"
  by (simp add: less_eq_prod_def less_char_def)

theorem C8_zero_price_counterexample:
  "init [\<lparr>symbol = ''AAPL'', price = 150\<rparr>, \<lparr>symbol = ''META'', price = 0\<rparr>]
        [(''AAPL'', 1)] (Some [(''META'', 3), (''AAPL'', 1)]) = Inr zero_price_portfolio
   \<and> map_of (holdings zero_price_portfolio) ''META'' = Some 3
   \<and> get_current_allocation zero_price_portfolio =
        Inr [Total_line 150, Position_line ''AAPL'' 1 150 100]"
  by (simp add: init_def build_stock_objects_def zero_price_portfolio_def
      get_current_allocation_def get_total_value_def current_price_def sort_zero)

subsection \<open>Execution\<close>

lemma sell_loop_spec:
  "\<forall>ord \<in> set sells. tradable self (order_symbol ord) \<Longrightarrow>
   fst (sell_loop sells self) = Inr ()
   \<and> map_of (holdings (snd (sell_loop sells self))) =
       foldl (spec_sell (price_of self)) (map_of (holdings self)) sells
   \<and> stock_objects (snd (sell_loop sells self)) = stock_objects self
   \<and> target_allocation (snd (sell_loop sells self)) = target_allocation self"
proof (induction sells arbitrary: self)
  case Nil
  then show ?case by simp
next
  case (Cons ord sells)
  let ?symb = "order_symbol ord"
  from Cons.prems obtain stock where stock: "map_of (stock_objects self) ?symb = Some stock"
    by (auto simp: tradable_def)
  then have p: "price_of self ?symb = current_price stock" by (simp add: price_of_def)
  show ?case
  proof (cases "0 < current_price stock")
    case True
    define self' where "self' = self\<lparr>holdings := AList.update ?symb
        (max 0 (dict_get (holdings self) ?symb 0 - amount_in_dollars ord / current_price stock))
        (holdings self)\<rparr>"
    have unfold: "sell_loop (ord # sells) self = sell_loop sells self'"
      using True by (simp add: stock Let_def self'_def)
    have "\<forall>ord \<in> set sells. tradable self' (order_symbol ord)"
      using Cons.prems by (simp add: tradable_def self'_def)
    note IH = Cons.IH [OF this]
    have pr: "price_of self' = price_of self" by (simp add: price_of_def fun_eq_iff self'_def)
    have step: "map_of (holdings self') = spec_sell (price_of self) (map_of (holdings self)) ord"
      using True
      by (simp add: spec_sell_def p update_conv' held_shares_def dict_get_def self'_def)
    have frame: "stock_objects self' = stock_objects self"
      "target_allocation self' = target_allocation self"
      by (simp_all add: self'_def)
    show ?thesis
      unfolding unfold using IH by (simp add: pr step frame)
  next
    case False
    have unfold: "sell_loop (ord # sells) self = sell_loop sells self"
      using False by (simp add: stock Let_def)
    from Cons.prems have "\<forall>ord \<in> set sells. tradable self (order_symbol ord)" by simp
    note IH = Cons.IH [OF this]
    have step: "spec_sell (price_of self) (map_of (holdings self)) ord = map_of (holdings self)"
      using False by (simp add: spec_sell_def p)
    show ?thesis
      unfolding unfold using IH by (simp add: step)
  qed
qed

lemma buy_loop_spec:
  "\<forall>ord \<in> set buys. tradable self (order_symbol ord) \<Longrightarrow>
   fst (buy_loop buys self) = Inr ()
   \<and> map_of (holdings (snd (buy_loop buys self))) =
       foldl (spec_buy (price_of self)) (map_of (holdings self)) buys
   \<and> stock_objects (snd (buy_loop buys self)) = stock_objects self
   \<and> target_allocation (snd (buy_loop buys self)) = target_allocation self"
proof (induction buys arbitrary: self)
  case Nil
  then show ?case by simp
next
  case (Cons ord buys)
  let ?symb = "order_symbol ord"
  from Cons.prems obtain stock where stock: "map_of (stock_objects self) ?symb = Some stock"
    by (auto simp: tradable_def)
  then have p: "price_of self ?symb = current_price stock" by (simp add: price_of_def)
  show ?case
  proof (cases "0 < current_price stock")
    case True
    define self' where "self' = self\<lparr>holdings := AList.update ?symb
        (dict_get (holdings self) ?symb 0 + amount_in_dollars ord / current_price stock)
        (holdings self)\<rparr>"
    have unfold: "buy_loop (ord # buys) self = buy_loop buys self'"
      using True by (simp add: stock Let_def self'_def)
    have "\<forall>ord \<in> set buys. tradable self' (order_symbol ord)"
      using Cons.prems by (simp add: tradable_def self'_def)
    note IH = Cons.IH [OF this]
    have pr: "price_of self' = price_of self" by (simp add: price_of_def fun_eq_iff self'_def)
    have step: "map_of (holdings self') = spec_buy (price_of self) (map_of (holdings self)) ord"
      using True
      by (simp add: spec_buy_def p update_conv' held_shares_def dict_get_def self'_def)
    have frame: "stock_objects self' = stock_objects self"
      "target_allocation self' = target_allocation self"
      by (simp_all add: self'_def)
    show ?thesis
      unfolding unfold using IH by (simp add: pr step frame)
  next
    case False
    have unfold: "buy_loop (ord # buys) self = buy_loop buys self"
      using False by (simp add: stock Let_def)
    from Cons.prems have "\<forall>ord \<in> set buys. tradable self (order_symbol ord)" by simp
    note IH = Cons.IH [OF this]
    have step: "spec_buy (price_of self) (map_of (holdings self)) ord = map_of (holdings self)"
      using False by (simp add: spec_buy_def p)
    show ?thesis
      unfolding unfold using IH by (simp add: step)
  qed
qed

lemma spec_sell_nonneg:
  "ord \<in> set sells \<Longrightarrow> 0 < price_fn (order_symbol ord) \<Longrightarrow>
   \<exists>v. foldl (spec_sell price_fn) h sells (order_symbol ord) = Some v \<and> 0 \<le> v"
proof (induction sells arbitrary: h rule: rev_induct)
  case Nil
  then show ?case by simp
next
  case (snoc x xs)
  show ?case
  proof (cases "order_symbol x = order_symbol ord")
    case True
    with snoc.prems show ?thesis by (simp add: spec_sell_def)
  next
    case False
    with snoc.prems have "ord \<in> set xs" by auto
    from snoc.IH [OF this snoc.prems(2)] False show ?thesis
      by (simp add: spec_sell_def)
  qed
qed

lemma execute_rebalance_spec:
  assumes known: "\<forall>ord \<in> set (dict_get plan ''sell'' [] @ dict_get plan ''buy'' []).
       tradable self (order_symbol ord)"
  shows "fst (execute_rebalance self plan) = Inr ()"
    and "map_of (holdings (snd (execute_rebalance self plan))) =
       foldl (spec_buy (price_of self))
         (foldl (spec_sell (price_of self)) (map_of (holdings self)) (dict_get plan ''sell'' []))
         (dict_get plan ''buy'' [])"
    and "stock_objects (snd (execute_rebalance self plan)) = stock_objects self"
    and "target_allocation (snd (execute_rebalance self plan)) = target_allocation self"
proof -
  let ?sells = "dict_get plan ''sell'' []" and ?buys = "dict_get plan ''buy'' []"
  obtain r self' where sold: "sell_loop ?sells self = (r, self')"
    by (cases "sell_loop ?sells self")
  from known have "\<forall>ord \<in> set ?sells. tradable self (order_symbol ord)" by simp
  from sell_loop_spec [OF this] sold have
    r: "r = Inr ()" and
    held: "map_of (holdings self') =
      foldl (spec_sell (price_of self)) (map_of (holdings self)) ?sells" and
    frame: "stock_objects self' = stock_objects self"
      "target_allocation self' = target_allocation self"
    by simp_all
  have exec: "execute_rebalance self plan = buy_loop ?buys self'"
    by (simp add: execute_rebalance_def sold r)
  have pr: "price_of self' = price_of self"
    by (simp add: price_of_def fun_eq_iff frame)
  from known have "\<forall>ord \<in> set ?buys. tradable self' (order_symbol ord)"
    by (simp add: tradable_def frame)
  from buy_loop_spec [OF this]
  show "fst (execute_rebalance self plan) = Inr ()"
    and "map_of (holdings (snd (execute_rebalance self plan))) =
       foldl (spec_buy (price_of self))
         (foldl (spec_sell (price_of self)) (map_of (holdings self)) ?sells) ?buys"
    and "stock_objects (snd (execute_rebalance self plan)) = stock_objects self"
    and "target_allocation (snd (execute_rebalance self plan)) = target_allocation self"
    unfolding exec by (simp_all add: pr frame held)
qed

text \<open>
  Claim C2. When every order of the plan names a tradable symbol,
  \<^verbatim>\<open>execute_rebalance\<close> raises nothing and leaves the holdings that result from applying
  first every sell order, in order, and then every buy order, in order, each as the
  specification words it: a sell order at a price \<open>> 0\<close> writes
  \<open>max 0 (held - amount / price)\<close>, a buy order at a price \<open>> 0\<close> adds \<open>amount / price\<close>,
  an order at a price \<open>\<le> 0\<close> changes nothing. The stock objects and the target allocation
  are unchanged, and after the sell orders the holding of every symbol sold at a price
  \<open>> 0\<close> is present and not negative.
\<close>

theorem C2_execute:
  "(\<forall>ord \<in> set (dict_get plan ''sell'' [] @ dict_get plan ''buy'' []).
       tradable self (order_symbol ord)) \<longrightarrow>
     fst (execute_rebalance self plan) = Inr ()
   \<and> map_of (holdings (snd (execute_rebalance self plan))) =
       foldl (spec_buy (price_of self))
         (foldl (spec_sell (price_of self)) (map_of (holdings self)) (dict_get plan ''sell'' []))
         (dict_get plan ''buy'' [])
   \<and> stock_objects (snd (execute_rebalance self plan)) = stock_objects self
   \<and> target_allocation (snd (execute_rebalance self plan)) = target_allocation self
   \<and> (\<forall>ord \<in> set (dict_get plan ''sell'' []). 0 < price_of self (order_symbol ord) \<longrightarrow>
         (\<exists>v. foldl (spec_sell (price_of self)) (map_of (holdings self))
                 (dict_get plan ''sell'' []) (order_symbol ord) = Some v \<and> 0 \<le> v))"
proof (intro impI)
  assume known: "\<forall>ord \<in> set (dict_get plan ''sell'' [] @ dict_get plan ''buy'' []).
       tradable self (order_symbol ord)"
  have "\<forall>ord \<in> set (dict_get plan ''sell'' []). 0 < price_of self (order_symbol ord) \<longrightarrow>
         (\<exists>v. foldl (spec_sell (price_of self)) (map_of (holdings self))
                 (dict_get plan ''sell'' []) (order_symbol ord) = Some v \<and> 0 \<le> v)"
    using spec_sell_nonneg by blast
  with execute_rebalance_spec [OF known]
  show "fst (execute_rebalance self plan) = Inr ()
   \<and> map_of (holdings (snd (execute_rebalance self plan))) =
       foldl (spec_buy (price_of self))
         (foldl (spec_sell (price_of self)) (map_of (holdings self)) (dict_get plan ''sell'' []))
         (dict_get plan ''buy'' [])
   \<and> stock_objects (snd (execute_rebalance self plan)) = stock_objects self
   \<and> target_allocation (snd (execute_rebalance self plan)) = target_allocation self
   \<and> (\<forall>ord \<in> set (dict_get plan ''sell'' []). 0 < price_of self (order_symbol ord) \<longrightarrow>
         (\<exists>v. foldl (spec_sell (price_of self)) (map_of (holdings self))
                 (dict_get plan ''sell'' []) (order_symbol ord) = Some v \<and> 0 \<le> v))"
    by simp
qed

lemma execute_example:
  "execute_rebalance portfolio example_plan =
     (Inr (), portfolio\<lparr>holdings :=
        [(''AAPL'', 10 + 587.50 / 150), (''GOOG'', 5 + 160 / 135), (''MSFT'', 0),
         (''META'', 1252.50 / 300)]\<rparr>)"
  by (simp add: execute_rebalance_def example_plan_def dict_get_def portfolio_def
      initial_holdings_def current_price_def Let_def)

theorem C2_execute_witness:
  "list_all (\<lambda>ord. tradable portfolio (order_symbol ord))
     (dict_get example_plan ''sell'' [] @ dict_get example_plan ''buy'' [])
   \<and> fst (execute_rebalance portfolio example_plan) = Inr ()
   \<and> holdings (snd (execute_rebalance portfolio example_plan)) =
       [(''AAPL'', 10 + 587.50 / 150), (''GOOG'', 5 + 160 / 135), (''MSFT'', 0),
        (''META'', 1252.50 / 300)]
   \<and> 0 < price_of portfolio ''MSFT''
   \<and> foldl (spec_sell (price_of portfolio)) (map_of (holdings portfolio))
        (dict_get example_plan ''sell'' []) ''MSFT'' = Some 0"
proof -
  have known: "\<forall>ord \<in> set (dict_get example_plan ''sell'' [] @ dict_get example_plan ''buy'' []).
       tradable portfolio (order_symbol ord)"
    by (simp add: example_plan_def dict_get_def tradable_def portfolio_def)
  have price: "0 < price_of portfolio ''MSFT''"
    by (simp add: price_of_def portfolio_def current_price_def)
  have sold: "foldl (spec_sell (price_of portfolio)) (map_of (holdings portfolio))
        (dict_get example_plan ''sell'' []) ''MSFT'' = Some 0"
    by (simp add: example_plan_def dict_get_def spec_sell_def held_shares_def price_of_def
        portfolio_def initial_holdings_def current_price_def)
  show ?thesis
    using C2_execute [of example_plan portfolio] known price sold
    by (simp add: list_all_iff execute_example)
qed

subsection \<open>The backfill of the target allocation\<close>

lemma update_absent: "map_of t k = None \<Longrightarrow> AList.update k v t = t @ [(k, v)]"
  by (induction t) auto

lemma backfill_suffix:
  "\<exists>suffix. fold (\<lambda>symb t. if map_of t symb = None then AList.update symb (0::real) t else t) ks t
        = t @ suffix
     \<and> set suffix = (\<lambda>symb. (symb, 0)) ` {symb \<in> set ks. map_of t symb = None}
     \<and> distinct (map fst suffix)"
proof (induction ks arbitrary: t)
  case Nil
  then show ?case by simp
next
  case (Cons k ks)
  let ?f = "\<lambda>symb t. if map_of t symb = None then AList.update symb (0::real) t else t"
  show ?case
  proof (cases "map_of t k = None")
    case True
    let ?t = "t @ [(k, 0)]"
    from Cons.IH [of ?t] obtain suffix where
      suffix: "fold ?f ks ?t = ?t @ suffix"
        "set suffix = (\<lambda>symb. (symb, 0)) ` {symb \<in> set ks. map_of ?t symb = None}"
        "distinct (map fst suffix)"
      by blast
    have absent: "map_of ?t symb = None \<longleftrightarrow> symb \<noteq> k \<and> map_of t symb = None" for symb
      by (auto simp: map_add_def split: option.splits)
    have "fold ?f (k # ks) t = t @ ((k, 0) # suffix)"
      using True suffix(1) by (simp add: update_absent)
    moreover have "set ((k, 0) # suffix) =
        (\<lambda>symb. (symb, 0)) ` {symb \<in> set (k # ks). map_of t symb = None}"
      using True suffix(2) by (auto simp: absent)
    moreover have "distinct (map fst ((k, 0) # suffix))"
      using suffix(2,3) by (auto simp: absent)
    ultimately show ?thesis by blast
  next
    case False
    from Cons.IH [of t] obtain suffix where
      suffix: "fold ?f ks t = t @ suffix"
        "set suffix = (\<lambda>symb. (symb, 0)) ` {symb \<in> set ks. map_of t symb = None}"
        "distinct (map fst suffix)"
      by blast
    have "fold ?f (k # ks) t = t @ suffix"
      using False suffix(1) by auto
    moreover have "set suffix = (\<lambda>symb. (symb, 0)) ` {symb \<in> set (k # ks). map_of t symb = None}"
      using False suffix(2) by auto
    ultimately show ?thesis using suffix(3) by blast
  qed
qed

lemma backfill_distinct:
  "distinct ks \<Longrightarrow>
   fold (\<lambda>symb t. if map_of t symb = None then AList.update symb (0::real) t else t) ks t
     = t @ map (\<lambda>symb. (symb, 0)) (filter (\<lambda>symb. map_of t symb = None) ks)"
proof (induction ks arbitrary: t)
  case Nil
  then show ?case by simp
next
  case (Cons k ks)
  show ?case
  proof (cases "map_of t k = None")
    case True
    have "filter (\<lambda>symb. map_of (t @ [(k, 0::real)]) symb = None) ks
        = filter (\<lambda>symb. map_of t symb = None) ks"
      using Cons.prems by (intro filter_cong) (auto simp: map_add_def split: option.splits)
    with True Cons show ?thesis by (simp add: update_absent)
  next
    case False
    with Cons show ?thesis by auto
  qed
qed

lemma backfill_present:
  "\<forall>symb \<in> set ks. map_of t symb \<noteq> None \<Longrightarrow>
   fold (\<lambda>symb t. if map_of t symb = None then AList.update symb (0::real) t else t) ks t = t"
  by (induction ks) auto

lemma backfill_covers:
  "symb \<in> set ks \<or> map_of t symb \<noteq> None \<Longrightarrow>
   map_of (fold (\<lambda>symb t. if map_of t symb = None then AList.update symb (0::real) t else t) ks t) symb
     \<noteq> None"
  by (induction ks arbitrary: t) (auto simp: update_conv')

lemma backfill_idem: "backfill stocks (backfill stocks t) = backfill stocks t"
  unfolding backfill_def by (rule backfill_present) (simp add: backfill_covers)

lemma create_rebalance_plan_state:
  "get_total_value self = Inr t \<Longrightarrow>
   snd (create_rebalance_plan self) =
     (if t = 0 then self
      else self\<lparr>target_allocation := backfill (stock_objects self) (target_allocation self)\<rparr>)"
  by (simp add: create_rebalance_plan_def Let_def split: sum.splits prod.splits)


lemma get_total_value_frame:
  "get_total_value (self\<lparr>target_allocation := ta\<rparr>) = get_total_value self"
  by (simp add: get_total_value_def)

text \<open>
  Claim C4. When the total value is not 0, \<^verbatim>\<open>create_rebalance_plan\<close> leaves the object
  with a target allocation that is the old one, entries and order unchanged, followed by
  one entry of fraction 0 for each symbol of the stock objects that the old one lacks (in
  the order of the stock objects when their keys are distinct, as those of a dict
  are); holdings and stock objects are unchanged; the change stays in the object, and a
  second call leaves the object as the first call left it.
\<close>

theorem C4_backfill:
  "get_total_value self = Inr t \<and> t \<noteq> 0 \<longrightarrow>
     (\<exists>suffix.
         target_allocation (snd (create_rebalance_plan self)) = target_allocation self @ suffix
       \<and> set suffix =
           (\<lambda>symb. (symb, 0)) `
             {symb \<in> set (map fst (stock_objects self)).
                map_of (target_allocation self) symb = None}
       \<and> distinct (map fst suffix))
   \<and> (distinct (map fst (stock_objects self)) \<longrightarrow>
        target_allocation (snd (create_rebalance_plan self)) =
          target_allocation self @
          map (\<lambda>symb. (symb, 0))
            (filter (\<lambda>symb. map_of (target_allocation self) symb = None)
               (map fst (stock_objects self))))
   \<and> holdings (snd (create_rebalance_plan self)) = holdings self
   \<and> stock_objects (snd (create_rebalance_plan self)) = stock_objects self
   \<and> snd (create_rebalance_plan (snd (create_rebalance_plan self))) =
       snd (create_rebalance_plan self)"
proof (intro impI, elim conjE)
  assume t: "get_total_value self = Inr t" and nz: "t \<noteq> 0"
  define self' where
    "self' = self\<lparr>target_allocation := backfill (stock_objects self) (target_allocation self)\<rparr>"
  have state: "snd (create_rebalance_plan self) = self'"
    using t nz by (simp add: create_rebalance_plan_state self'_def)
  have "get_total_value self' = Inr t"
    using t by (simp add: self'_def get_total_value_frame)
  then have again: "snd (create_rebalance_plan self') = self'"
    using nz by (simp add: create_rebalance_plan_state) (simp add: self'_def backfill_idem)
  have suffix: "\<exists>suffix.
         target_allocation self' = target_allocation self @ suffix
       \<and> set suffix =
           (\<lambda>symb. (symb, 0)) `
             {symb \<in> set (map fst (stock_objects self)).
                map_of (target_allocation self) symb = None}
       \<and> distinct (map fst suffix)"
    using backfill_suffix [of "map fst (stock_objects self)" "target_allocation self"]
    by (simp add: self'_def backfill_def)
  have exact: "target_allocation self' =
          target_allocation self @
          map (\<lambda>symb. (symb, 0))
            (filter (\<lambda>symb. map_of (target_allocation self) symb = None)
               (map fst (stock_objects self)))"
    if "distinct (map fst (stock_objects self))"
    using backfill_distinct [OF that, of "target_allocation self"]
    by (simp add: self'_def backfill_def)
  have frame: "holdings self' = holdings self" "stock_objects self' = stock_objects self"
    by (simp_all add: self'_def)
  show "(\<exists>suffix.
         target_allocation (snd (create_rebalance_plan self)) = target_allocation self @ suffix
       \<and> set suffix =
           (\<lambda>symb. (symb, 0)) `
             {symb \<in> set (map fst (stock_objects self)).
                map_of (target_allocation self) symb = None}
       \<and> distinct (map fst suffix))
   \<and> (distinct (map fst (stock_objects self)) \<longrightarrow>
        target_allocation (snd (create_rebalance_plan self)) =
          target_allocation self @
          map (\<lambda>symb. (symb, 0))
            (filter (\<lambda>symb. map_of (target_allocation self) symb = None)
               (map fst (stock_objects self))))
   \<and> holdings (snd (create_rebalance_plan self)) = holdings self
   \<and> stock_objects (snd (create_rebalance_plan self)) = stock_objects self
   \<and> snd (create_rebalance_plan (snd (create_rebalance_plan self))) =
       snd (create_rebalance_plan self)"
    unfolding state using suffix exact frame again by blast
qed

theorem C4_backfill_witness:
  "get_total_value portfolio = Inr 4175 \<and> (4175::real) \<noteq> 0
   \<and> distinct (map fst (stock_objects portfolio))
   \<and> target_allocation (snd (create_rebalance_plan portfolio)) =
       [(''AAPL'', 50 / 100), (''META'', 30 / 100), (''GOOG'', 20 / 100), (''MSFT'', 0)]
   \<and> holdings (snd (create_rebalance_plan portfolio)) = holdings portfolio
   \<and> snd (create_rebalance_plan (snd (create_rebalance_plan portfolio))) =
       snd (create_rebalance_plan portfolio)"
proof -
  have d: "distinct (map fst (stock_objects portfolio))"
    by (simp add: portfolio_def)
  have f: "target_allocation portfolio @
          map (\<lambda>symb. (symb, 0))
            (filter (\<lambda>symb. map_of (target_allocation portfolio) symb = None)
               (map fst (stock_objects portfolio))) =
        [(''AAPL'', 50 / 100), (''META'', 30 / 100), (''GOOG'', 20 / 100), (''MSFT'', 0)]"
    by (simp add: portfolio_def my_target_allocation_def)
  show ?thesis
    using C4_backfill [of portfolio 4175] total_value_portfolio d f by simp
qed

subsection \<open>Holdings are never negative\<close>

lemma set_update_subset: "set (AList.update k v al) \<subseteq> insert (k, v) (set al)"
  by (induction al) auto

lemma dict_get_nonneg: "nonneg d \<Longrightarrow> 0 \<le> dict_get d k 0"
  by (force simp: nonneg_def dict_get_def split: option.splits dest!: map_of_SomeD)

lemma update_nonneg: "nonneg d \<Longrightarrow> 0 \<le> v \<Longrightarrow> nonneg (AList.update k v d)"
  using set_update_subset [of k v d] by (fastforce simp: nonneg_def)

lemma add_position_nonneg:
  "nonneg (holdings self) \<Longrightarrow> nonneg (holdings (snd (add_position self symb shares)))"
  by (simp add: add_position_def update_nonneg dict_get_nonneg)

lemma sell_loop_nonneg:
  "nonneg (holdings self) \<Longrightarrow> nonneg (holdings (snd (sell_loop sells self)))"
proof (induction sells arbitrary: self)
  case Nil
  then show ?case by simp
next
  case (Cons ord sells)
  show ?case
  proof (cases "map_of (stock_objects self) (order_symbol ord)")
    case None
    with Cons.prems show ?thesis by simp
  next
    case (Some stock)
    show ?thesis
    proof (cases "0 < current_price stock")
      case True
      let ?self' = "self\<lparr>holdings := AList.update (order_symbol ord)
        (max 0 (dict_get (holdings self) (order_symbol ord) 0
                - amount_in_dollars ord / current_price stock))
        (holdings self)\<rparr>"
      have "nonneg (holdings ?self')"
        using Cons.prems by (simp add: update_nonneg)
      from Cons.IH [OF this] show ?thesis
        using True Some by (simp add: Let_def)
    next
      case False
      with Cons Some show ?thesis by (simp add: Let_def)
    qed
  qed
qed

lemma buy_loop_nonneg:
  "nonneg (holdings self) \<Longrightarrow> nonneg_amounts buys \<Longrightarrow>
   nonneg (holdings (snd (buy_loop buys self)))"
proof (induction buys arbitrary: self)
  case Nil
  then show ?case by simp
next
  case (Cons ord buys)
  from Cons.prems have amount: "0 \<le> amount_in_dollars ord" and rest: "nonneg_amounts buys"
    by (simp_all add: nonneg_amounts_def)
  show ?case
  proof (cases "map_of (stock_objects self) (order_symbol ord)")
    case None
    with Cons.prems show ?thesis by simp
  next
    case (Some stock)
    show ?thesis
    proof (cases "0 < current_price stock")
      case True
      let ?self' = "self\<lparr>holdings := AList.update (order_symbol ord)
        (dict_get (holdings self) (order_symbol ord) 0
           + amount_in_dollars ord / current_price stock)
        (holdings self)\<rparr>"
      have "nonneg (holdings ?self')"
        using Cons.prems(1) amount True by (simp add: update_nonneg dict_get_nonneg)
      from Cons.IH [OF this rest] show ?thesis
        using True Some by (simp add: Let_def)
    next
      case False
      with Cons.IH [OF Cons.prems(1) rest] Some show ?thesis by (simp add: Let_def)
    qed
  qed
qed

lemma execute_rebalance_nonneg:
  assumes "nonneg (holdings self)" and "nonneg_amounts (dict_get plan ''buy'' [])"
  shows "nonneg (holdings (snd (execute_rebalance self plan)))"
proof -
  obtain r self' where sold: "sell_loop (dict_get plan ''sell'' []) self = (r, self')"
    by (cases "sell_loop (dict_get plan ''sell'' []) self")
  with sell_loop_nonneg [OF assms(1), of "dict_get plan ''sell'' []"]
  have self': "nonneg (holdings self')" by simp
  show ?thesis
  proof (cases r)
    case (Inl e)
    with sold self' show ?thesis by (simp add: execute_rebalance_def)
  next
    case (Inr u)
    with sold buy_loop_nonneg [OF self' assms(2)] show ?thesis
      by (simp add: execute_rebalance_def)
  qed
qed

lemma round2_nonneg: "0 \<le> x \<Longrightarrow> 0 \<le> round2 x"
proof -
  assume "0 \<le> x"
  then have "0 \<le> \<lfloor>x * 100\<rfloor>" by simp
  then show ?thesis by (simp add: round2_def Let_def)
qed

lemma plan_loop_nonneg:
  "plan_loop stocks held t its (buy, sell) = Inr (buy', sell') \<Longrightarrow>
   nonneg_amounts buy \<Longrightarrow> nonneg_amounts buy'"
proof (induction its arbitrary: buy sell)
  case Nil
  then show ?case by simp
next
  case (Cons it its)
  obtain symb target_percent where it: "it = (symb, target_percent)" by (cases it)
  from Cons.prems(1) obtain stock where stock: "map_of stocks symb = Some stock"
    by (auto simp: it split: option.splits)
  let ?d = "t * target_percent - dict_get held symb 0 * current_price stock"
  consider "1 / 100 < ?d" | "\<not> 1 / 100 < ?d" "?d < - (1 / 100)"
    | "\<not> 1 / 100 < ?d" "\<not> ?d < - (1 / 100)" by blast
  then show ?case
  proof cases
    case 1
    then have "nonneg_amounts (buy @ [\<lparr>order_symbol = symb, amount_in_dollars = round2 ?d\<rparr>])"
      using Cons.prems(2) by (simp add: nonneg_amounts_def round2_nonneg)
    moreover have "plan_loop stocks held t its
        (buy @ [\<lparr>order_symbol = symb, amount_in_dollars = round2 ?d\<rparr>], sell) = Inr (buy', sell')"
      using Cons.prems(1) 1 by (simp add: it stock Let_def)
    ultimately show ?thesis by (rule Cons.IH [rotated])
  next
    case 2
    then have "plan_loop stocks held t its
        (buy, sell @ [\<lparr>order_symbol = symb, amount_in_dollars = round2 \<bar>?d\<bar>\<rparr>]) = Inr (buy', sell')"
      using Cons.prems(1) by (simp add: it stock Let_def)
    then show ?thesis using Cons.prems(2) by (rule Cons.IH)
  next
    case 3
    then have "plan_loop stocks held t its (buy, sell) = Inr (buy', sell')"
      using Cons.prems(1) by (simp add: it stock Let_def)
    then show ?thesis using Cons.prems(2) by (rule Cons.IH)
  qed
qed

lemma create_rebalance_plan_nonneg:
  "create_rebalance_plan self = (Inr plan, self') \<Longrightarrow> nonneg_amounts (dict_get plan ''buy'' [])"
  by (auto simp: create_rebalance_plan_def Let_def dict_get_def nonneg_amounts_def
      split: sum.splits if_splits prod.splits dest!: plan_loop_nonneg)

lemma create_rebalance_plan_holdings:
  "holdings (snd (create_rebalance_plan self)) = holdings self"
  by (simp add: create_rebalance_plan_def Let_def split: sum.splits prod.splits)


lemma reachable_invariant:
  "reachable start st \<Longrightarrow> nonneg (holdings start) \<Longrightarrow>
   nonneg (holdings (fst st))
   \<and> (\<forall>plan \<in> set (snd st). nonneg_amounts (dict_get plan ''buy'' []))"
proof (induction rule: reachable.induct)
  case constructed
  then show ?case by simp
next
  case (deposit self plans symb shares)
  then show ?case by (simp add: add_position_nonneg)
next
  case (planned self plans plan self')
  from planned.hyps(2) have "holdings self' = holdings self"
    using create_rebalance_plan_holdings [of self] by simp
  with planned show ?case
    by (simp add: create_rebalance_plan_nonneg)
next
  case (planning_raised self plans e self')
  from planning_raised.hyps(2) have "holdings self' = holdings self"
    using create_rebalance_plan_holdings [of self] by simp
  with planning_raised show ?case by simp
next
  case (executed self plans plan)
  then show ?case by (simp add: execute_rebalance_nonneg)
qed

lemma init_holdings:
  "init stocks target initial = Inr start \<Longrightarrow>
   holdings start = (case initial of None \<Rightarrow> [] | Some h \<Rightarrow> h)"
  by (auto simp: init_def Let_def split: if_splits option.splits)

text \<open>
  Claim C7. From a portfolio constructed with initial holdings that are not negative,
  every sequence of calls of \<^verbatim>\<open>add_position\<close>, \<^verbatim>\<open>create_rebalance_plan\<close> and
  \<^verbatim>\<open>execute_rebalance\<close> (the latter with any plan that an earlier
  \<^verbatim>\<open>create_rebalance_plan\<close> of the sequence returned), raising or not, leaves holdings
  whose values are all \<open>\<ge> 0\<close>.
\<close>

theorem C7_holdings_never_negative:
  "init all_tradable_stocks target initial = Inr start
   \<and> nonneg (case initial of None \<Rightarrow> [] | Some h \<Rightarrow> h)
   \<and> reachable start (self, plans)
   \<longrightarrow> nonneg (holdings self)"
proof (intro impI, elim conjE)
  assume "init all_tradable_stocks target initial = Inr start"
    and "nonneg (case initial of None \<Rightarrow> [] | Some h \<Rightarrow> h)"
    and r: "reachable start (self, plans)"
  then have "nonneg (holdings start)" by (simp add: init_holdings)
  with reachable_invariant [OF r] show "nonneg (holdings self)" by simp
qed

lemma plan_portfolio_example:
  "create_rebalance_plan portfolio =
     (Inr example_plan, portfolio\<lparr>target_allocation := my_target_allocation @ [(''MSFT'', 0)]\<rparr>)"
  using plan_portfolio by (simp add: example_plan_def)

lemma execute_planned_example:
  "snd (execute_rebalance (portfolio\<lparr>target_allocation := my_target_allocation @ [(''MSFT'', 0)]\<rparr>)
         example_plan) =
     portfolio\<lparr>target_allocation := my_target_allocation @ [(''MSFT'', 0)],
       holdings := [(''AAPL'', 10 + 587.50 / 150), (''GOOG'', 5 + 160 / 135), (''MSFT'', 0),
         (''META'', 1252.50 / 300)]\<rparr>"
  by (simp add: execute_rebalance_def example_plan_def dict_get_def portfolio_def
      initial_holdings_def current_price_def Let_def)

theorem C7_holdings_never_negative_witness:
  "init all_stocks my_target_allocation (Some initial_holdings) = Inr portfolio
   \<and> nonneg initial_holdings
   \<and> reachable portfolio
       (portfolio\<lparr>target_allocation := my_target_allocation @ [(''MSFT'', 0)],
          holdings := [(''AAPL'', 10 + 587.50 / 150), (''GOOG'', 5 + 160 / 135), (''MSFT'', 0),
            (''META'', 1252.50 / 300)]\<rparr>, [example_plan])
   \<and> nonneg [(''AAPL'', 10 + 587.50 / 150), (''GOOG'', 5 + 160 / 135), (''MSFT'', 0),
            (''META'', 1252.50 / 300)]"
proof -
  have n: "nonneg initial_holdings"
    by (simp add: nonneg_def initial_holdings_def)
  have "reachable portfolio
      (portfolio\<lparr>target_allocation := my_target_allocation @ [(''MSFT'', 0)]\<rparr>, [example_plan])"
    by (rule reachable.planned [OF reachable.constructed plan_portfolio_example])
  then have "reachable portfolio
      (snd (execute_rebalance
              (portfolio\<lparr>target_allocation := my_target_allocation @ [(''MSFT'', 0)]\<rparr>)
              example_plan), [example_plan])"
    by (rule reachable.executed) simp
  then have r: "reachable portfolio
       (portfolio\<lparr>target_allocation := my_target_allocation @ [(''MSFT'', 0)],
          holdings := [(''AAPL'', 10 + 587.50 / 150), (''GOOG'', 5 + 160 / 135), (''MSFT'', 0),
            (''META'', 1252.50 / 300)]\<rparr>, [example_plan])"
    by (simp only: execute_planned_example)
  show ?thesis
    using C7_holdings_never_negative [of all_stocks my_target_allocation "Some initial_holdings"
        portfolio
        "portfolio\<lparr>target_allocation := my_target_allocation @ [(''MSFT'', 0)],
          holdings := [(''AAPL'', 10 + 587.50 / 150), (''GOOG'', 5 + 160 / 135), (''MSFT'', 0),
            (''META'', 1252.50 / 300)]\<rparr>" "[example_plan]"] n r
    by (simp add: init_portfolio)
qed

subsection \<open>The initial holdings are the caller's dict\<close>

lemma init_ref_Some:
  "init_ref h stocks target (Some r) =
     (case init stocks (cells h target) (Some (cells h r)) of
        Inl e \<Rightarrow> (Inl e, h)
      | Inr self \<Rightarrow>
          (Inr \<lparr>target_allocation_ref = target, stock_objects_of = stock_objects self,
                holdings_ref = r\<rparr>, h))"
  by (simp add: init_ref_def init_def Let_def split: option.splits)

lemma init_ref_None:
  "init_ref h stocks target None = (Inr obj, h') \<Longrightarrow>
   holdings_ref obj = next_ref h \<and> h' = snd (new_dict h)"
  by (auto simp: init_ref_def Let_def new_dict_def split: if_splits option.splits)

text \<open>
  Claim C9, as the code has it. The constructor makes no copy: given initial holdings, it
  allocates nothing and the holdings of the object are the caller's dict itself. So a
  deposit through the object rewrites the caller's dict, \<^verbatim>\<open>execute_rebalance\<close> leaves its
  result in the caller's dict, and what the caller writes into the dict is what the
  object holds from then on. Only with the default argument does the object get a new
  empty dict of its own, every other dict being as before.
\<close>

theorem C9_holdings_shared:
  "(init_ref h all_tradable_stocks target (Some r) = (Inr obj, h') \<longrightarrow>
      h' = h \<and> holdings_ref obj = r
    \<and> holdings (view h' obj) = cells h r
    \<and> (map_of (stock_objects_of obj) symb \<noteq> None \<and> 0 < shares \<longrightarrow>
         cells (snd (add_position_ref h' obj symb shares)) r =
           AList.update symb (dict_get (cells h r) symb 0 + shares) (cells h r))
    \<and> cells (snd (execute_rebalance_ref h' obj plan)) r =
         holdings (snd (execute_rebalance (view h' obj) plan))
    \<and> holdings (view (h'\<lparr>cells := (cells h')(r := d)\<rparr>) obj) = d)
   \<and> (init_ref h all_tradable_stocks target None = (Inr obj, h') \<longrightarrow>
        holdings_ref obj = next_ref h \<and> cells h' (next_ref h) = []
      \<and> (\<forall>r'. r' \<noteq> next_ref h \<longrightarrow> cells h' r' = cells h r'))"
proof (intro conjI impI)
  assume a: "init_ref h all_tradable_stocks target None = (Inr obj, h')"
  from init_ref_None [OF a]
  show "holdings_ref obj = next_ref h" "cells h' (next_ref h) = []"
    "\<forall>r'. r' \<noteq> next_ref h \<longrightarrow> cells h' r' = cells h r'"
    by (simp_all add: new_dict_def)
next
  assume a: "init_ref h all_tradable_stocks target (Some r) = (Inr obj, h')"
  then show h: "h' = h" and r: "holdings_ref obj = r"
    by (auto simp: init_ref_Some split: sum.splits)
  show "holdings (view h' obj) = cells h r"
    by (simp add: view_def h r)
  show "cells (snd (execute_rebalance_ref h' obj plan)) r =
         holdings (snd (execute_rebalance (view h' obj) plan))"
    by (simp add: execute_rebalance_ref_def on_holdings_def r split: prod.splits)
  show "holdings (view (h'\<lparr>cells := (cells h')(r := d)\<rparr>) obj) = d"
    by (simp add: view_def r)
  show "cells (snd (add_position_ref h' obj symb shares)) r =
           AList.update symb (dict_get (cells h r) symb 0 + shares) (cells h r)"
    if "map_of (stock_objects_of obj) symb \<noteq> None \<and> 0 < shares"
    using that
    by (auto simp: add_position_ref_def on_holdings_def add_position_def view_def h r)
qed

lemma init_caller:
  "init_ref caller_heap all_stocks 0 (Some 1) = (Inr portfolio_ref, caller_heap)"
  by (simp add: init_ref_Some caller_heap_def init_portfolio portfolio_ref_def)

lemma view_caller: "view caller_heap portfolio_ref = portfolio"
  by (simp add: view_def caller_heap_def portfolio_ref_def portfolio_def)

theorem C9_holdings_shared_witness:
  "init_ref caller_heap all_stocks 0 (Some 1) = (Inr portfolio_ref, caller_heap)
   \<and> holdings_ref portfolio_ref = 1
   \<and> map_of (stock_objects_of portfolio_ref) ''AAPL'' \<noteq> None \<and> (0::real) < 5
   \<and> cells (snd (add_position_ref caller_heap portfolio_ref ''AAPL'' 5)) 1 =
       AList.update ''AAPL'' (dict_get (cells caller_heap 1) ''AAPL'' 0 + 5) (cells caller_heap 1)
   \<and> init_ref caller_heap all_stocks 0 None =
       (Inr (portfolio_ref\<lparr>holdings_ref := 2\<rparr>),
        caller_heap\<lparr>cells := (cells caller_heap)(2 := []), next_ref := 3\<rparr>)
   \<and> cells (caller_heap\<lparr>cells := (cells caller_heap)(2 := []), next_ref := 3\<rparr>) 1 =
       cells caller_heap 1"
proof -
  have known: "map_of (stock_objects_of portfolio_ref) ''AAPL'' \<noteq> None"
    by (simp add: portfolio_ref_def portfolio_def)
  have fresh: "init_ref caller_heap all_stocks 0 None =
       (Inr (portfolio_ref\<lparr>holdings_ref := 2\<rparr>),
        caller_heap\<lparr>cells := (cells caller_heap)(2 := []), next_ref := 3\<rparr>)"
    by (simp add: init_ref_def new_dict_def caller_heap_def my_target_allocation_def
        all_stocks_def build_stock_objects_def portfolio_ref_def portfolio_def)
  show ?thesis
    using C9_holdings_shared [of caller_heap all_stocks 0 1 portfolio_ref caller_heap
        "''AAPL''" 5 example_plan "[]"]
      C9_holdings_shared [of caller_heap all_stocks 0 1 "portfolio_ref\<lparr>holdings_ref := 2\<rparr>"
        "caller_heap\<lparr>cells := (cells caller_heap)(2 := []), next_ref := 3\<rparr>"
        "''AAPL''" 5 example_plan "[]"]
      init_caller known fresh
    by simp
qed

text \<open>
  The claim fails on the main block's own input: after construction, a deposit of 5 AAPL
  through the portfolio changes the caller's dict from AAPL 10 to AAPL 15, and the
  caller emptying its dict takes the total value of the portfolio from 4175 to 0.
\<close>

theorem C9_caller_map_modified_counterexample:
  "init_ref caller_heap all_stocks 0 (Some 1) = (Inr portfolio_ref, caller_heap)
   \<and> cells caller_heap 1 = [(''AAPL'', 10), (''GOOG'', 5), (''MSFT'', 8)]
   \<and> fst (add_position_ref caller_heap portfolio_ref ''AAPL'' 5) = Inr ()
   \<and> cells (snd (add_position_ref caller_heap portfolio_ref ''AAPL'' 5)) 1 =
       [(''AAPL'', 15), (''GOOG'', 5), (''MSFT'', 8)]
   \<and> get_total_value (view caller_heap portfolio_ref) = Inr 4175
   \<and> get_total_value (view (caller_heap\<lparr>cells := (cells caller_heap)(1 := [])\<rparr>) portfolio_ref)
       = Inr 0"
proof -
  have before: "cells caller_heap 1 = [(''AAPL'', 10), (''GOOG'', 5), (''MSFT'', 8)]"
    by (simp add: caller_heap_def initial_holdings_def)
  have deposit: "add_position portfolio ''AAPL'' 5 =
      (Inr (), portfolio\<lparr>holdings := [(''AAPL'', 15), (''GOOG'', 5), (''MSFT'', 8)]\<rparr>)"
    by (simp add: add_position_def portfolio_def initial_holdings_def dict_get_def)
  have r: "holdings_ref portfolio_ref = 1"
    by (simp add: portfolio_ref_def)
  have after: "add_position_ref caller_heap portfolio_ref ''AAPL'' 5 =
      (Inr (), caller_heap\<lparr>cells := (cells caller_heap)
                 (1 := [(''AAPL'', 15), (''GOOG'', 5), (''MSFT'', 8)])\<rparr>)"
    by (simp add: add_position_ref_def on_holdings_def view_caller deposit r)
  have emptied: "get_total_value
      (view (caller_heap\<lparr>cells := (cells caller_heap)(1 := [])\<rparr>) portfolio_ref) = Inr 0"
    by (simp add: view_def r get_total_value_def)
  show ?thesis
    using init_caller before after emptied
    by (simp add: view_caller total_value_portfolio)
qed

subsection \<open>Rounding to a double\<close>

lemma round_half_even_close: "\<bar>of_int (round_half_even y) - y\<bar> \<le> 1 / 2"
  unfolding round_half_even_def Let_def by (auto; linarith)

lemma round_half_even_nonneg: "0 \<le> y \<Longrightarrow> 0 \<le> round_half_even y"
  unfolding round_half_even_def Let_def by (auto; linarith)

lemma round_half_even_nonpos: "y \<le> 0 \<Longrightarrow> round_half_even y \<le> 0"
  unfolding round_half_even_def Let_def
  by (auto; linarith)

lemma binade_bounds:
  assumes "x \<noteq> 0"
  shows "2 powi binade x \<le> \<bar>x\<bar>" and "\<bar>x\<bar> < 2 powi (binade x + 1)"
proof -
  have "2 powi binade x \<le> \<bar>x\<bar> \<and> \<bar>x\<bar> < 2 powi (binade x + 1)"
  proof (cases "1 \<le> \<bar>x\<bar>")
    case True
    define m where "m = \<lfloor>\<bar>x\<bar>\<rfloor>"
    have m: "0 < m" unfolding m_def using True by linarith
    have b: "1 \<le> bitlen m" using m by (simp add: bitlen_alt_def)
    from bitlen_bounds [OF m]
    have lo: "2 ^ nat (bitlen m - 1) \<le> m" and hi: "m < 2 ^ nat (bitlen m)" by auto
    have e: "binade x = bitlen m - 1" using True by (simp add: binade_def m_def)
    have "(2::real) powi (bitlen m - 1) = 2 ^ nat (bitlen m - 1)"
      using b by (simp add: power_int_def)
    also have "\<dots> = of_int (2 ^ nat (bitlen m - 1))" by simp
    also have "\<dots> \<le> of_int m" using lo by (simp only: of_int_le_iff)
    also have "\<dots> \<le> \<bar>x\<bar>" unfolding m_def by linarith
    finally have 1: "2 powi binade x \<le> \<bar>x\<bar>" using e by simp
    have "m + 1 \<le> 2 ^ nat (bitlen m)" using hi by simp
    hence "(of_int (m + 1) :: real) \<le> of_int (2 ^ nat (bitlen m))" by (simp only: of_int_le_iff)
    moreover have "\<bar>x\<bar> < of_int (m + 1)" unfolding m_def by linarith
    ultimately have "\<bar>x\<bar> < 2 ^ nat (bitlen m)" by simp
    also have "\<dots> = 2 powi (bitlen m - 1 + 1)" using b by (simp add: power_int_def)
    finally have 2: "\<bar>x\<bar> < 2 powi (binade x + 1)" using e by simp
    from 1 2 show ?thesis by simp
  next
    case False
    define y where "y = 1 / \<bar>x\<bar>"
    have x: "0 < \<bar>x\<bar>" "\<bar>x\<bar> < 1" using assms False by auto
    have y: "1 < y" unfolding y_def using x by simp
    have xy: "\<bar>x\<bar> = 1 / y" unfolding y_def by simp
    define m where "m = \<lfloor>y\<rfloor>"
    have m: "0 < m" unfolding m_def using y by linarith
    define b where "b = bitlen m"
    have b: "1 \<le> b" using m by (simp add: bitlen_alt_def b_def)
    from bitlen_bounds [OF m]
    have lo: "2 ^ nat (b - 1) \<le> m" and hi: "m < 2 ^ nat b" by (auto simp: b_def)
    have ylo: "2 ^ nat (b - 1) \<le> y"
    proof -
      have "(2::real) ^ nat (b - 1) = of_int (2 ^ nat (b - 1))" by simp
      also have "\<dots> \<le> of_int m" using lo by (simp only: of_int_le_iff)
      also have "\<dots> \<le> y" unfolding m_def by linarith
      finally show ?thesis .
    qed
    have yhi: "y < 2 ^ nat b"
    proof -
      have "m + 1 \<le> 2 ^ nat b" using hi by simp
      hence "(of_int (m + 1) :: real) \<le> of_int (2 ^ nat b)" by (simp only: of_int_le_iff)
      moreover have "y < of_int (m + 1)" unfolding m_def by linarith
      moreover have "(of_int (2 ^ nat b) :: real) = 2 ^ nat b" by simp
      ultimately show ?thesis by linarith
    qed
    have pb: "(2::real) powi (- b) = 1 / 2 ^ nat b"
      using b by (simp add: power_int_def field_simps)
    have pb1: "(2::real) powi (1 - b) = 1 / 2 ^ nat (b - 1)"
    proof -
      have "1 - b = - (b - 1)" by simp
      moreover have "(2::real) powi (- (b - 1)) = inverse (2 powi (b - 1))"
        by (rule power_int_minus)
      moreover have "(2::real) powi (b - 1) = 2 ^ nat (b - 1)" using b by (simp add: power_int_def)
      ultimately show ?thesis by (simp add: field_simps)
    qed
    have step: "(2::real) ^ nat b = 2 * 2 ^ nat (b - 1)"
    proof -
      have "nat b = Suc (nat (b - 1))" using b by simp
      thus ?thesis by simp
    qed
    show ?thesis
    proof (cases "y = 2 ^ nat (b - 1)")
      case True
      hence e: "binade x = 1 - b" using False by (simp add: binade_def y_def m_def b_def Let_def)
      have "\<bar>x\<bar> = 2 powi (1 - b)" using xy True pb1 by simp
      moreover have "(2::real) powi (1 - b) < 2 powi (1 - b + 1)"
        by (rule power_int_strict_increasing) simp_all
      ultimately show ?thesis using e by simp
    next
      case ne: False
      hence e: "binade x = - b" using False by (simp add: binade_def y_def m_def b_def Let_def)
      have ys: "2 ^ nat (b - 1) < y" using ylo ne by simp
      have 1: "2 powi (- b) \<le> \<bar>x\<bar>"
      proof -
        have "1 / 2 ^ nat b < 1 / y" using yhi y by (intro divide_strict_left_mono) simp_all
        thus ?thesis using pb xy by simp
      qed
      have 2: "\<bar>x\<bar> < 2 powi (- b + 1)"
      proof -
        have "1 / y < 1 / 2 ^ nat (b - 1)" using ys y by (intro divide_strict_left_mono) simp_all
        moreover have "- b + 1 = 1 - b" by simp
        ultimately show ?thesis using pb1 xy by simp
      qed
      from 1 2 show ?thesis using e by simp
    qed
  qed
  thus "2 powi binade x \<le> \<bar>x\<bar>" and "\<bar>x\<bar> < 2 powi (binade x + 1)" by simp_all
qed

lemma double_round_zero: "double_round 0 = 0"
  by (simp add: double_round_def round_half_even_def)

lemma double_round_nonneg: "0 \<le> x \<Longrightarrow> 0 \<le> double_round x"
  unfolding double_round_def Let_def
  by (intro mult_nonneg_nonneg) (simp_all add: round_half_even_nonneg)

lemma double_round_nonpos: "x \<le> 0 \<Longrightarrow> double_round x \<le> 0"
  unfolding double_round_def Let_def
  by (intro mult_nonpos_nonneg) (simp_all add: round_half_even_nonpos divide_nonpos_pos)

lemma double_round_error: "\<bar>double_round x - x\<bar> \<le> \<bar>x\<bar> / 2 ^ 53 + 1 / 2 ^ 1075"
proof (cases "x = 0")
  case True
  thus ?thesis by (simp add: double_round_zero)
next
  case False
  define e where "e = max (binade x) (- 1022)"
  define q :: real where "q = 2 powi (e - 52)"
  have q: "0 < q" unfolding q_def by simp
  have dr: "double_round x = of_int (round_half_even (x / q)) * q"
    by (simp add: double_round_def q_def e_def Let_def)
  have "\<bar>double_round x - x\<bar> = \<bar>of_int (round_half_even (x / q)) - x / q\<bar> * q"
  proof -
    have "double_round x - x = (of_int (round_half_even (x / q)) - x / q) * q"
      using q by (simp add: dr field_simps)
    thus ?thesis using q by (simp add: abs_mult)
  qed
  also have "\<dots> \<le> (1 / 2) * q"
    using round_half_even_close [of "x / q"] q by (intro mult_right_mono) simp_all
  finally have err: "\<bar>double_round x - x\<bar> \<le> q / 2" by simp
  have half: "q / 2 = 2 powi (e - 53)"
  proof -
    have "(2::real) powi (e - 52) = 2 powi (e - 53 + 1)" by simp
    also have "\<dots> = 2 powi (e - 53) * 2" by (subst power_int_add) simp_all
    finally show ?thesis by (simp add: q_def)
  qed
  show ?thesis
  proof (cases "binade x \<le> - 1022")
    case True
    hence "e = - 1022" by (simp add: e_def)
    hence "q / 2 = 2 powi (- 1075)" using half by simp
    also have "\<dots> = 1 / 2 ^ 1075" by (simp add: power_int_def field_simps)
    finally have "q / 2 = 1 / 2 ^ 1075" .
    moreover have "0 \<le> \<bar>x\<bar> / 2 ^ 53" by simp
    ultimately show ?thesis using err by linarith
  next
    case False
    hence "e = binade x" by (simp add: e_def)
    hence "q / 2 = 2 powi (binade x - 53)" using half by simp
    also have "\<dots> = 2 powi binade x * 2 powi (- 53)"
      by (subst power_int_add [symmetric]) simp_all
    also have "\<dots> = 2 powi binade x / 2 ^ 53" by (simp add: power_int_def field_simps)
    also have "\<dots> \<le> \<bar>x\<bar> / 2 ^ 53"
      using binade_bounds(1) [OF \<open>x \<noteq> 0\<close>] by (simp add: divide_right_mono)
    finally have "q / 2 \<le> \<bar>x\<bar> / 2 ^ 53" .
    moreover have "(0::real) \<le> 1 / 2 ^ 1075" by simp
    ultimately show ?thesis using err by linarith
  qed
qed

lemma tens:
  "(10::real) ^ 3 = 1000" "(10::real) ^ 4 = 10000" "(10::real) ^ 6 = 1000000" "(10::real) ^ 7 = 10000000"
  "(10::real) ^ 8 = 100000000"
  "(10::real) ^ 12 = 1000000000000"
  by simp_all

lemma round_err:
  assumes "\<bar>x\<bar> \<le> 8 * 10 ^ 8"
  shows "\<bar>double_round x - x\<bar> \<le> 1 / 10 ^ 7"
proof -
  have "\<bar>x\<bar> / 2 ^ 53 \<le> 8 * 10 ^ 8 / 2 ^ 53"
    using assms by (rule divide_right_mono) simp
  moreover have "(8 * 10 ^ 8 / 2 ^ 53 :: real) + 1 / 2 ^ 1075 \<le> 1 / 10 ^ 7" by simp
  ultimately show ?thesis using double_round_error [of x] by linarith
qed

lemma round_err_scaled:
  assumes p: "0 < p" "p \<le> 10 ^ 200" and x: "\<bar>x * p\<bar> \<le> 8 * 10 ^ 8"
  shows "\<bar>double_round x * p - x * p\<bar> \<le> 1 / 10 ^ 7"
proof -
  have "\<bar>double_round x * p - x * p\<bar> = \<bar>double_round x - x\<bar> * p"
    using p(1) by (simp add: abs_mult left_diff_distrib [symmetric])
  also have "\<dots> \<le> (\<bar>x\<bar> / 2 ^ 53 + 1 / 2 ^ 1075) * p"
    using double_round_error [of x] p(1) by (intro mult_right_mono) simp_all
  also have "\<dots> = \<bar>x * p\<bar> / 2 ^ 53 + p / 2 ^ 1075"
    using p(1) by (simp add: abs_mult field_simps)
  also have "\<dots> \<le> 8 * 10 ^ 8 / 2 ^ 53 + 10 ^ 200 / 2 ^ 1075"
    using x p(2) by (intro add_mono divide_right_mono) simp_all
  also have "\<dots> \<le> 1 / 10 ^ 7" by simp
  finally show ?thesis .
qed

lemma total_value_loop_float_close:
  assumes known: "\<forall>symb \<in> set (map fst its). map_of stocks symb \<noteq> None"
    and vals: "\<forall>(symb, shares) \<in> set its. 0 \<le> shares * current_price (the (map_of stocks symb))"
    and acc: "0 \<le> acc" "0 \<le> exact" "\<bar>acc - exact\<bar> \<le> real k * (2 / 10 ^ 7)"
    and size: "k + length its \<le> 1000"
    and bound: "exact + sum_list (map (\<lambda>(symb, shares).
                  shares * current_price (the (map_of stocks symb))) its) \<le> 2 * 10 ^ 8"
  shows "\<exists>t. total_value_loop_float stocks its acc = Inr t \<and> 0 \<le> t
     \<and> \<bar>t - (exact + sum_list (map (\<lambda>(symb, shares).
                  shares * current_price (the (map_of stocks symb))) its))\<bar>
         \<le> real (k + length its) * (2 / 10 ^ 7)"
  using assms
proof (induction its arbitrary: acc exact k)
  case Nil
  then show ?case by simp
next
  case (Cons it its)
  obtain symb shares where it: "it = (symb, shares)" by (cases it)
  from Cons.prems(1) obtain stock where stock: "map_of stocks symb = Some stock"
    by (auto simp: it)
  define v where "v = shares * current_price stock"
  define rest where "rest = sum_list (map (\<lambda>(symb, shares).
                  shares * current_price (the (map_of stocks symb))) its)"
  have v0: "0 \<le> v" using Cons.prems(2) by (simp add: it stock v_def)
  have rest0: "0 \<le> rest"
    unfolding rest_def using Cons.prems(2) by (intro sum_list_nonneg) auto
  have total: "exact + (v + rest) \<le> 2 * 10 ^ 8"
    using Cons.prems(7) by (simp add: it stock v_def rest_def)
  have k: "real k + real (length its) + 1 \<le> 1000"
  proof -
    have "real (k + length (it # its)) \<le> real 1000"
      using Cons.prems(6) by (simp only: of_nat_le_iff)
    thus ?thesis by simp
  qed
  define rv where "rv = float_mul shares (current_price stock)"
  have "\<bar>v\<bar> \<le> 8 * 10 ^ 8"
    using v0 rest0 total Cons.prems(4) unfolding tens by linarith
  from round_err [OF this] have rv: "\<bar>rv - v\<bar> \<le> 1 / 10 ^ 7"
    by (simp add: rv_def float_mul_def v_def)
  have rv0: "0 \<le> rv" unfolding rv_def float_mul_def using v0
    by (intro double_round_nonneg) (simp add: v_def)
  define acc' where "acc' = float_add acc rv"
  have "\<bar>acc + rv\<bar> \<le> 8 * 10 ^ 8"
    using Cons.prems(3,4,5) rv v0 rest0 total k unfolding tens by linarith
  from round_err [OF this] have acc': "\<bar>acc' - (acc + rv)\<bar> \<le> 1 / 10 ^ 7"
    by (simp add: acc'_def float_add_def)
  have acc'0: "0 \<le> acc'" unfolding acc'_def float_add_def
    using Cons.prems(3) rv0 by (intro double_round_nonneg) simp
  have "real (Suc k) * (2 / 10 ^ 7) = real k * (2 / 10 ^ 7) + 2 / 10 ^ 7"
    by (simp add: algebra_simps)
  with acc' rv Cons.prems(5)
  have close: "\<bar>acc' - (exact + v)\<bar> \<le> real (Suc k) * (2 / 10 ^ 7)"
    unfolding tens by linarith
  have step: "total_value_loop_float stocks (it # its) acc =
      total_value_loop_float stocks its acc'"
    by (simp add: it stock acc'_def rv_def)
  have "\<exists>t. total_value_loop_float stocks its acc' = Inr t \<and> 0 \<le> t
     \<and> \<bar>t - (exact + v + sum_list (map (\<lambda>(symb, shares).
                  shares * current_price (the (map_of stocks symb))) its))\<bar>
         \<le> real (Suc k + length its) * (2 / 10 ^ 7)"
  proof (rule Cons.IH)
    show "\<forall>symb \<in> set (map fst its). map_of stocks symb \<noteq> None"
      using Cons.prems(1) by simp
    show "\<forall>(symb, shares) \<in> set its. 0 \<le> shares * current_price (the (map_of stocks symb))"
      using Cons.prems(2) by simp
    show "0 \<le> acc'" by (rule acc'0)
    show "0 \<le> exact + v" using Cons.prems(4) v0 by simp
    show "\<bar>acc' - (exact + v)\<bar> \<le> real (Suc k) * (2 / 10 ^ 7)" by (rule close)
    show "Suc k + length its \<le> 1000" using Cons.prems(6) by simp
    show "exact + v + sum_list (map (\<lambda>(symb, shares).
                  shares * current_price (the (map_of stocks symb))) its) \<le> 2 * 10 ^ 8"
      using total by (simp add: rest_def)
  qed
  then show ?case
    unfolding step by (simp add: it stock v_def add.assoc)
qed

subsection \<open>Rebalancing brings the holdings to the target\<close>

lemma plan_loop_float_orders:
  "\<forall>symb \<in> set (map fst its). tradable self symb \<Longrightarrow>
   plan_loop_float (stock_objects self) (holdings self) t its (buy, sell) =
     Inr (buy @ buy_orders_float self t its, sell @ sell_orders_float self t its)"
proof (induction its arbitrary: buy sell)
  case Nil
  then show ?case by (simp add: buy_orders_float_def sell_orders_float_def)
next
  case (Cons it its)
  obtain symb target_percent where it: "it = (symb, target_percent)" by (cases it)
  from Cons.prems obtain stock where stock: "map_of (stock_objects self) symb = Some stock"
    by (auto simp: it tradable_def)
  define d where "d = value_difference_float self t it"
  have d: "float_sub (float_mul t target_percent)
             (float_mul (dict_get (holdings self) symb 0) (current_price stock)) = d"
    by (simp add: d_def it value_difference_float_def price_of_def stock)
  from Cons.prems have rest: "\<forall>symb \<in> set (map fst its). tradable self symb" by simp
  note IH = Cons.IH [OF rest]
  have step: "plan_loop_float (stock_objects self) (holdings self) t (it # its) (buy, sell) =
      (if double_round (1 / 100) < d
       then plan_loop_float (stock_objects self) (holdings self) t its
              (buy @ [\<lparr>order_symbol = symb, amount_in_dollars = float_round2 d\<rparr>], sell)
       else if d < - double_round (1 / 100)
       then plan_loop_float (stock_objects self) (holdings self) t its
              (buy, sell @ [\<lparr>order_symbol = symb, amount_in_dollars = float_round2 \<bar>d\<bar>\<rparr>])
       else plan_loop_float (stock_objects self) (holdings self) t its (buy, sell))"
    unfolding it plan_loop_float.simps by (simp only: stock option.case Let_def d)
  have buys: "buy_orders_float self t (it # its) =
      (if double_round (1 / 100) < d
       then [\<lparr>order_symbol = symb, amount_in_dollars = float_round2 d\<rparr>] else [])
      @ buy_orders_float self t its"
    unfolding buy_orders_float_def d_def by (simp add: it)
  have sells: "sell_orders_float self t (it # its) =
      (if \<not> double_round (1 / 100) < d \<and> d < - double_round (1 / 100)
       then [\<lparr>order_symbol = symb, amount_in_dollars = float_round2 \<bar>d\<bar>\<rparr>] else [])
      @ sell_orders_float self t its"
    unfolding sell_orders_float_def d_def by (simp add: it)
  show ?case
    unfolding step buys sells IH by simp
qed

lemma sell_loop_float_order_loop: "sell_loop_float orders self = order_loop sold orders self"
  by (induction orders arbitrary: self) (simp_all add: Let_def sold_def split: option.splits)

lemma buy_loop_float_order_loop: "buy_loop_float orders self = order_loop bought orders self"
  by (induction orders arbitrary: self) (simp_all add: Let_def bought_def split: option.splits)

lemma order_loop_spec:
  "\<forall>ord \<in> set orders. tradable self (order_symbol ord) \<Longrightarrow>
   fst (order_loop assigned orders self) = Inr ()
   \<and> map_of (holdings (snd (order_loop assigned orders self))) =
       foldl (float_order assigned (price_of self)) (map_of (holdings self)) orders
   \<and> stock_objects (snd (order_loop assigned orders self)) = stock_objects self
   \<and> target_allocation (snd (order_loop assigned orders self)) = target_allocation self"
proof (induction orders arbitrary: self)
  case Nil
  then show ?case by simp
next
  case (Cons ord orders)
  let ?symb = "order_symbol ord"
  from Cons.prems obtain stock where stock: "map_of (stock_objects self) ?symb = Some stock"
    by (auto simp: tradable_def)
  then have p: "price_of self ?symb = current_price stock" by (simp add: price_of_def)
  show ?case
  proof (cases "0 < current_price stock")
    case True
    define self' where "self' = self\<lparr>holdings := AList.update ?symb
        (assigned (dict_get (holdings self) ?symb 0) (amount_in_dollars ord)
           (current_price stock))
        (holdings self)\<rparr>"
    have unfold: "order_loop assigned (ord # orders) self = order_loop assigned orders self'"
      using True by (simp add: stock self'_def)
    have "\<forall>ord \<in> set orders. tradable self' (order_symbol ord)"
      using Cons.prems by (simp add: tradable_def self'_def)
    note IH = Cons.IH [OF this]
    have pr: "price_of self' = price_of self" by (simp add: price_of_def fun_eq_iff self'_def)
    have step: "map_of (holdings self') =
        float_order assigned (price_of self) (map_of (holdings self)) ord"
      using True
      by (simp add: float_order_def p update_conv' held_shares_def dict_get_def self'_def)
    have frame: "stock_objects self' = stock_objects self"
      "target_allocation self' = target_allocation self"
      by (simp_all add: self'_def)
    show ?thesis
      unfolding unfold using IH by (simp add: pr step frame)
  next
    case False
    have unfold: "order_loop assigned (ord # orders) self = order_loop assigned orders self"
      using False by (simp add: stock)
    from Cons.prems have "\<forall>ord \<in> set orders. tradable self (order_symbol ord)" by simp
    note IH = Cons.IH [OF this]
    have step: "float_order assigned (price_of self) (map_of (holdings self)) ord =
        map_of (holdings self)"
      using False by (simp add: float_order_def p)
    show ?thesis
      unfolding unfold using IH by (simp add: step)
  qed
qed

lemma order_loop_invariant:
  assumes upd: "\<And>d symb v. P d \<Longrightarrow> map_of stocks symb \<noteq> None \<Longrightarrow> P (AList.update symb v d)"
  shows "stock_objects self = stocks \<Longrightarrow> P (holdings self) \<Longrightarrow>
         P (holdings (snd (order_loop assigned orders self)))"
proof (induction orders arbitrary: self)
  case Nil
  then show ?case by simp
next
  case (Cons ord orders)
  show ?case
  proof (cases "map_of (stock_objects self) (order_symbol ord)")
    case None
    with Cons.prems show ?thesis by simp
  next
    case (Some stock)
    show ?thesis
    proof (cases "0 < current_price stock")
      case True
      let ?self' = "self\<lparr>holdings := AList.update (order_symbol ord)
        (assigned (dict_get (holdings self) (order_symbol ord) 0) (amount_in_dollars ord)
           (current_price stock))
        (holdings self)\<rparr>"
      have "P (holdings ?self')" "stock_objects ?self' = stocks"
        using Cons.prems Some by (simp_all add: upd)
      from Cons.IH [OF this(2,1)] show ?thesis
        using True Some by simp
    next
      case False
      with Cons Some show ?thesis by simp
    qed
  qed
qed

lemma execute_rebalance_float_spec:
  assumes known: "\<forall>ord \<in> set (dict_get plan ''sell'' [] @ dict_get plan ''buy'' []).
       tradable self (order_symbol ord)"
  shows "fst (execute_rebalance_float self plan) = Inr ()"
    and "map_of (holdings (snd (execute_rebalance_float self plan))) =
       foldl (float_order bought (price_of self))
         (foldl (float_order sold (price_of self)) (map_of (holdings self))
            (dict_get plan ''sell'' []))
         (dict_get plan ''buy'' [])"
    and "stock_objects (snd (execute_rebalance_float self plan)) = stock_objects self"
    and "target_allocation (snd (execute_rebalance_float self plan)) = target_allocation self"
proof -
  let ?sells = "dict_get plan ''sell'' []" and ?buys = "dict_get plan ''buy'' []"
  obtain r self' where sold: "order_loop sold ?sells self = (r, self')"
    by (cases "order_loop sold ?sells self")
  from known have "\<forall>ord \<in> set ?sells. tradable self (order_symbol ord)" by simp
  from order_loop_spec [OF this, of sold] sold have
    r: "r = Inr ()" and
    held: "map_of (holdings self') =
      foldl (float_order sold (price_of self)) (map_of (holdings self)) ?sells" and
    frame: "stock_objects self' = stock_objects self"
      "target_allocation self' = target_allocation self"
    by simp_all
  have exec: "execute_rebalance_float self plan = order_loop bought ?buys self'"
    by (simp add: execute_rebalance_float_def sell_loop_float_order_loop
        buy_loop_float_order_loop sold r)
  have pr: "price_of self' = price_of self"
    by (simp add: price_of_def fun_eq_iff frame)
  from known have "\<forall>ord \<in> set ?buys. tradable self' (order_symbol ord)"
    by (simp add: tradable_def frame)
  from order_loop_spec [OF this, of bought]
  show "fst (execute_rebalance_float self plan) = Inr ()"
    and "map_of (holdings (snd (execute_rebalance_float self plan))) =
       foldl (float_order bought (price_of self))
         (foldl (float_order sold (price_of self)) (map_of (holdings self)) ?sells) ?buys"
    and "stock_objects (snd (execute_rebalance_float self plan)) = stock_objects self"
    and "target_allocation (snd (execute_rebalance_float self plan)) = target_allocation self"
    unfolding exec by (simp_all add: pr frame held)
qed

lemma execute_rebalance_float_invariant:
  assumes upd: "\<And>d symb v. P d \<Longrightarrow> map_of (stock_objects self) symb \<noteq> None \<Longrightarrow>
                  P (AList.update symb v d)"
    and P: "P (holdings self)"
  shows "P (holdings (snd (execute_rebalance_float self plan)))"
proof -
  obtain r self' where sold: "order_loop sold (dict_get plan ''sell'' []) self = (r, self')"
    by (cases "order_loop sold (dict_get plan ''sell'' []) self")
  from order_loop_invariant [of P "stock_objects self" self sold "dict_get plan ''sell'' []",
      OF upd refl P] sold
  have self': "P (holdings self')" by simp
  have "stock_objects (snd (order_loop sold orders self)) = stock_objects self" for orders
    by (induction orders arbitrary: self) (auto split: option.splits)
  from this [of "dict_get plan ''sell'' []"] sold
  have stocks: "stock_objects self' = stock_objects self" by simp
  show ?thesis
  proof (cases r)
    case (Inl e)
    with sold self' show ?thesis
      by (simp add: execute_rebalance_float_def sell_loop_float_order_loop)
  next
    case (Inr u)
    with sold order_loop_invariant [of P "stock_objects self" self' bought
        "dict_get plan ''buy'' []", OF upd stocks self']
    show ?thesis
      by (simp add: execute_rebalance_float_def sell_loop_float_order_loop
          buy_loop_float_order_loop)
  qed
qed

lemma execute_rebalance_float_distinct:
  "distinct (map fst (holdings self)) \<Longrightarrow>
   distinct (map fst (holdings (snd (execute_rebalance_float self plan))))"
  by (rule execute_rebalance_float_invariant [where P = "\<lambda>d. distinct (map fst d)"])
     (simp_all add: distinct_update)

lemma execute_rebalance_float_tradable:
  "\<forall>symb \<in> set (map fst (holdings self)). tradable self symb \<Longrightarrow>
   \<forall>symb \<in> set (map fst (holdings (snd (execute_rebalance_float self plan)))). tradable self symb"
  by (rule execute_rebalance_float_invariant
        [where P = "\<lambda>d. \<forall>symb \<in> set (map fst d). tradable self symb"])
     (auto simp: update_keys tradable_def)

lemma float_order_other:
  "symb \<notin> set (map order_symbol orders) \<Longrightarrow>
   foldl (float_order assigned pf) h orders symb = h symb"
  by (induction orders arbitrary: h) (simp_all add: float_order_def)

lemma float_order_at:
  "distinct (map order_symbol orders) \<Longrightarrow> ord \<in> set orders \<Longrightarrow>
   foldl (float_order assigned pf) h orders (order_symbol ord) =
     float_order assigned pf h ord (order_symbol ord)"
proof (induction orders arbitrary: h)
  case Nil
  then show ?case by simp
next
  case (Cons x xs)
  show ?case
  proof (cases "ord = x")
    case True
    with Cons.prems have "order_symbol ord \<notin> set (map order_symbol xs)" by simp
    from float_order_other [OF this] True show ?thesis by simp
  next
    case False
    with Cons.prems have in_xs: "ord \<in> set xs" and d: "distinct (map order_symbol xs)"
      and neq: "order_symbol ord \<noteq> order_symbol x"
      by (auto simp: image_iff)
    have "foldl (float_order assigned pf) (float_order assigned pf h x) xs (order_symbol ord) =
        float_order assigned pf (float_order assigned pf h x) ord (order_symbol ord)"
      by (rule Cons.IH [OF d in_xs])
    also have "\<dots> = float_order assigned pf h ord (order_symbol ord)"
      using neq by (simp add: float_order_def held_shares_def)
    finally show ?thesis by simp
  qed
qed

lemma held_shares_map_of: "held_shares (map_of d) symb = dict_get d symb 0"
  by (simp add: held_shares_def dict_get_def)

lemma buy_orders_float_symbols:
  "map order_symbol (buy_orders_float self t its) =
   map fst (filter (\<lambda>it. double_round (1 / 100) < value_difference_float self t it) its)"
  by (simp add: buy_orders_float_def comp_def)

lemma sell_orders_float_symbols:
  "map order_symbol (sell_orders_float self t its) =
   map fst (filter (\<lambda>it. \<not> double_round (1 / 100) < value_difference_float self t it
                     \<and> value_difference_float self t it < - double_round (1 / 100)) its)"
  by (simp add: sell_orders_float_def comp_def)

lemma distinct_filter_keys: "distinct (map fst its) \<Longrightarrow> distinct (map fst (filter P its))"
  by (induction its) (auto simp: image_iff)

lemma key_in_filter:
  assumes "distinct (map fst its)" and "(k, v) \<in> set its"
  shows "k \<in> set (map fst (filter P its)) \<longleftrightarrow> P (k, v)"
proof
  assume "k \<in> set (map fst (filter P its))"
  then obtain v' where v': "(k, v') \<in> set its" "P (k, v')" by auto
  from assms v'(1) have "v' = v" by (metis eq_key_imp_eq_value)
  with v'(2) show "P (k, v)" by simp
next
  assume "P (k, v)"
  with assms(2) have "(k, v) \<in> set (filter P its)" by simp
  then show "k \<in> set (map fst (filter P its))" by force
qed

lemma round2_close: "\<bar>round2 x - x\<bar> \<le> 1 / 200"
proof -
  define y where "y = x * 100"
  define d where "d = y - of_int \<lfloor>y\<rfloor>"
  have d: "0 \<le> d" "d < 1" unfolding d_def by linarith+
  have x: "x = (of_int \<lfloor>y\<rfloor> + d) / 100" unfolding d_def y_def by simp
  consider "d < 1 / 2" | "1 / 2 < d" | "d = 1 / 2" by linarith
  then show ?thesis
  proof cases
    case 1
    then have "round2 x = of_int \<lfloor>y\<rfloor> / 100"
      by (simp add: round2_def Let_def y_def d_def)
    with 1 d show ?thesis unfolding x by (simp add: field_simps)
  next
    case 2
    then have "round2 x = (of_int \<lfloor>y\<rfloor> + 1) / 100"
      by (simp add: round2_def Let_def y_def d_def)
    with 2 d show ?thesis unfolding x by (simp add: field_simps)
  next
    case 3
    then have "round2 x = of_int \<lfloor>y\<rfloor> / 100 \<or> round2 x = (of_int \<lfloor>y\<rfloor> + 1) / 100"
      by (simp add: round2_def Let_def y_def d_def)
    with 3 show ?thesis unfolding x by (auto simp: field_simps)
  qed
qed

lemma fraction_of_total:
  fixes t f :: real
  assumes "0 \<le> t" "t \<le> 3 * 10 ^ 8" "0 \<le> f" "f \<le> 1 + 1 / 10 ^ 12"
  shows "0 \<le> t * f" and "t * f \<le> 31 * 10 ^ 7"
proof -
  show "0 \<le> t * f" using assms by simp
  have "t * f \<le> t * (1 + 1 / 10 ^ 12)" using assms by (intro mult_left_mono) simp_all
  also have "\<dots> = t + t / 10 ^ 12" by (simp add: algebra_simps)
  also have "\<dots> \<le> 31 * 10 ^ 7" using assms(1,2) by simp
  finally show "t * f \<le> 31 * 10 ^ 7" .
qed

lemma float_round2_close:
  assumes "\<bar>x\<bar> \<le> 7 * 10 ^ 8"
  shows "\<bar>float_round2 x - x\<bar> \<le> 1 / 200 + 1 / 10 ^ 7"
proof -
  have "\<bar>round2 x\<bar> \<le> 8 * 10 ^ 8"
    using round2_close [of x] assms unfolding tens by linarith
  from round_err [OF this] round2_close [of x] show ?thesis
    unfolding float_round2_def tens by linarith
qed

lemma float_round2_nonneg: "0 \<le> x \<Longrightarrow> 0 \<le> float_round2 x"
  unfolding float_round2_def by (intro double_round_nonneg round2_nonneg)

lemma cent_close: "0 \<le> double_round (1 / 100)" "double_round (1 / 100) \<le> 1 / 100 + 1 / 10 ^ 7"
proof -
  show "0 \<le> double_round (1 / 100)" by (rule double_round_nonneg) simp
  have "\<bar>1 / 100 :: real\<bar> \<le> 8 * 10 ^ 8" by simp
  from round_err [OF this] show "double_round (1 / 100) \<le> 1 / 100 + 1 / 10 ^ 7"
    unfolding tens by linarith
qed

lemma value_difference_close:
  assumes tf: "0 \<le> tf" "tf \<le> 31 * 10 ^ 7" and v: "0 \<le> v" "v \<le> 2 * 10 ^ 8"
  shows "\<bar>double_round (double_round tf - double_round v) - (tf - v)\<bar> \<le> 3 / 10 ^ 7"
proof -
  have "\<bar>tf\<bar> \<le> 8 * 10 ^ 8" using tf unfolding tens by linarith
  from round_err [OF this] have a: "\<bar>double_round tf - tf\<bar> \<le> 1 / 10 ^ 7" .
  have "\<bar>v\<bar> \<le> 8 * 10 ^ 8" using v unfolding tens by linarith
  from round_err [OF this] have b: "\<bar>double_round v - v\<bar> \<le> 1 / 10 ^ 7" .
  have "\<bar>double_round tf - double_round v\<bar> \<le> 8 * 10 ^ 8"
    using a b tf v unfolding tens by linarith
  from round_err [OF this] a b show ?thesis unfolding tens by linarith
qed

lemma shares_close:
  assumes p: "0 < p" "p \<le> 10 ^ 200" and a: "0 \<le> a" "a \<le> 7 * 10 ^ 8"
  shows "0 \<le> float_div a p" and "\<bar>float_div a p * p - a\<bar> \<le> 1 / 10 ^ 7"
proof -
  show "0 \<le> float_div a p"
    unfolding float_div_def using p(1) a(1) by (intro double_round_nonneg) simp
  have ap: "a / p * p = a" using p(1) by simp
  have "\<bar>a / p * p\<bar> \<le> 8 * 10 ^ 8" unfolding ap using a unfolding tens by linarith
  from round_err_scaled [OF p this] show "\<bar>float_div a p * p - a\<bar> \<le> 1 / 10 ^ 7"
    unfolding float_div_def ap .
qed

lemma bought_close:
  assumes p: "0 < p" "p \<le> 10 ^ 200"
    and hs: "0 \<le> hs" "hs * p \<le> 2 * 10 ^ 8"
    and tf: "0 \<le> tf" "tf \<le> 31 * 10 ^ 7"
    and d: "\<bar>d - (tf - hs * p)\<bar> \<le> 3 / 10 ^ 7" and buy: "0 < d"
  shows "0 \<le> bought hs (float_round2 d) p"
    and "\<bar>tf - bought hs (float_round2 d) p * p\<bar> \<le> 1 / 200 + 6 / 10 ^ 7"
proof -
  define a where "a = float_round2 d"
  define sh where "sh = float_div a p"
  have v0: "0 \<le> hs * p" using hs(1) p(1) by simp
  have dd: "\<bar>d\<bar> \<le> 7 * 10 ^ 8" using d buy tf v0 unfolding tens by linarith
  have a0: "0 \<le> a" unfolding a_def using buy by (intro float_round2_nonneg) simp
  have ad: "\<bar>a - d\<bar> \<le> 1 / 200 + 1 / 10 ^ 7"
    unfolding a_def by (rule float_round2_close [OF dd])
  have a7: "a \<le> 7 * 10 ^ 8" using ad d buy tf v0 unfolding tens by linarith
  note sh = shares_close [OF p a0 a7, folded sh_def]
  have b: "bought hs a p = double_round (hs + sh)"
    by (simp add: bought_def float_add_def sh_def)
  show "0 \<le> bought hs (float_round2 d) p"
    unfolding a_def [symmetric] b using hs(1) sh(1) by (intro double_round_nonneg) simp
  have sum: "(hs + sh) * p = hs * p + sh * p" by (simp add: algebra_simps)
  have "\<bar>(hs + sh) * p\<bar> \<le> 8 * 10 ^ 8"
    unfolding sum using sh(2) hs(2) v0 a0 ad d buy tf unfolding tens by linarith
  from round_err_scaled [OF p this]
  have "\<bar>double_round (hs + sh) * p - (hs * p + sh * p)\<bar> \<le> 1 / 10 ^ 7"
    unfolding sum .
  with sh(2) ad d
  show "\<bar>tf - bought hs (float_round2 d) p * p\<bar> \<le> 1 / 200 + 6 / 10 ^ 7"
    unfolding a_def [symmetric] b tens by linarith
qed

lemma sold_close:
  assumes p: "0 < p" "p \<le> 10 ^ 200"
    and hs: "0 \<le> hs" "hs * p \<le> 2 * 10 ^ 8"
    and tf: "0 \<le> tf" "tf \<le> 31 * 10 ^ 7"
    and d: "\<bar>d - (tf - hs * p)\<bar> \<le> 3 / 10 ^ 7" and sell: "d < 0"
  shows "0 \<le> sold hs (float_round2 \<bar>d\<bar>) p"
    and "\<bar>tf - sold hs (float_round2 \<bar>d\<bar>) p * p\<bar> \<le> 1 / 200 + 6 / 10 ^ 7"
proof -
  define a where "a = float_round2 \<bar>d\<bar>"
  define sh where "sh = float_div a p"
  define w where "w = double_round (hs - sh)"
  have v0: "0 \<le> hs * p" using hs(1) p(1) by simp
  have dd: "\<bar>\<bar>d\<bar>\<bar> \<le> 7 * 10 ^ 8" using d sell tf v0 hs(2) unfolding tens by linarith
  have a0: "0 \<le> a" unfolding a_def by (intro float_round2_nonneg) simp
  have ad: "\<bar>a - \<bar>d\<bar>\<bar> \<le> 1 / 200 + 1 / 10 ^ 7"
    unfolding a_def by (rule float_round2_close [OF dd])
  have a7: "a \<le> 7 * 10 ^ 8" using ad d sell tf v0 hs(2) unfolding tens by linarith
  note sh = shares_close [OF p a0 a7, folded sh_def]
  have s: "sold hs a p = max 0 w"
    by (simp add: sold_def float_sub_def sh_def w_def)
  show "0 \<le> sold hs (float_round2 \<bar>d\<bar>) p"
    unfolding a_def [symmetric] s by simp
  have diff: "(hs - sh) * p = hs * p - sh * p" by (simp add: algebra_simps)
  have "\<bar>(hs - sh) * p\<bar> \<le> 8 * 10 ^ 8"
    unfolding diff using sh(2) hs(2) v0 a0 ad d sell tf unfolding tens by linarith
  from round_err_scaled [OF p this]
  have w: "\<bar>w * p - (hs * p - sh * p)\<bar> \<le> 1 / 10 ^ 7"
    unfolding diff w_def .
  have mx: "max 0 w * p = max 0 (w * p)"
    using p(1) by (simp add: max_def mult_le_0_iff zero_le_mult_iff not_le)
  from w sh(2) ad d sell tf(1)
  show "\<bar>tf - sold hs (float_round2 \<bar>d\<bar>) p * p\<bar> \<le> 1 / 200 + 6 / 10 ^ 7"
    unfolding a_def [symmetric] s mx tens by linarith
qed

lemma rebalanced_value_float:
  assumes dist: "distinct (map fst its)"
    and it: "(symb, f) \<in> set its"
    and p: "0 < price_of self symb" "price_of self symb \<le> 10 ^ 200"
    and t: "0 \<le> t" "t \<le> 3 * 10 ^ 8" and f: "0 \<le> f" "f \<le> 1 + 1 / 10 ^ 12"
    and h: "0 \<le> dict_get (holdings self) symb 0"
      "dict_get (holdings self) symb 0 * price_of self symb \<le> 2 * 10 ^ 8"
  shows "0 \<le> held_shares
            (foldl (float_order bought (price_of self))
               (foldl (float_order sold (price_of self)) (map_of (holdings self))
                  (sell_orders_float self t its))
               (buy_orders_float self t its)) symb
       \<and> \<bar>t * f - held_shares
            (foldl (float_order bought (price_of self))
               (foldl (float_order sold (price_of self)) (map_of (holdings self))
                  (sell_orders_float self t its))
               (buy_orders_float self t its)) symb * price_of self symb\<bar>
           \<le> 1 / 100 + 1 / 10 ^ 6"
proof -
  let ?pf = "price_of self"
  let ?m = "map_of (holdings self)"
  let ?sells = "sell_orders_float self t its" and ?buys = "buy_orders_float self t its"
  let ?ms = "foldl (float_order sold ?pf) ?m ?sells"
  let ?m2 = "foldl (float_order bought ?pf) ?ms ?buys"
  let ?c = "double_round (1 / 100)"
  define d where "d = value_difference_float self t (symb, f)"
  define hs where "hs = dict_get (holdings self) symb 0"
  note tf = fraction_of_total [OF t f]
  have v: "0 \<le> hs * ?pf symb" "hs * ?pf symb \<le> 2 * 10 ^ 8"
    using h p(1) by (simp_all add: hs_def)
  have d: "\<bar>d - (t * f - hs * ?pf symb)\<bar> \<le> 3 / 10 ^ 7"
    using value_difference_close [OF tf v]
    by (simp add: d_def hs_def value_difference_float_def float_sub_def float_mul_def)
  have hs0: "0 \<le> hs" using h(1) by (simp add: hs_def)
  have hv: "hs * ?pf symb \<le> 2 * 10 ^ 8" by (rule v(2))
  have dsells: "distinct (map order_symbol ?sells)"
    unfolding sell_orders_float_symbols by (rule distinct_filter_keys [OF dist])
  have dbuys: "distinct (map order_symbol ?buys)"
    unfolding buy_orders_float_symbols by (rule distinct_filter_keys [OF dist])
  have in_buys: "symb \<in> set (map order_symbol ?buys) \<longleftrightarrow> ?c < d"
    unfolding buy_orders_float_symbols d_def by (rule key_in_filter [OF dist it])
  have in_sells: "symb \<in> set (map order_symbol ?sells) \<longleftrightarrow> \<not> ?c < d \<and> d < - ?c"
    unfolding sell_orders_float_symbols d_def by (rule key_in_filter [OF dist it])
  have m: "held_shares ?m symb = hs"
    by (simp add: held_shares_map_of hs_def)
  consider (buy) "?c < d" | (sell) "\<not> ?c < d" "d < - ?c"
    | (keep) "\<not> ?c < d" "\<not> d < - ?c" by blast
  then show ?thesis
  proof cases
    case buy
    let ?ord = "\<lparr>order_symbol = symb, amount_in_dollars = float_round2 d\<rparr>"
    have ord: "?ord \<in> set ?buys"
      unfolding buy_orders_float_def d_def using it buy by (force simp: d_def)
    have "symb \<notin> set (map order_symbol ?sells)" using in_sells buy by simp
    then have ms: "?ms symb = ?m symb"
      by (rule float_order_other)
    have "?m2 (order_symbol ?ord) = float_order bought ?pf ?ms ?ord (order_symbol ?ord)"
      by (rule float_order_at [OF dbuys ord])
    then have "?m2 symb = Some (bought (held_shares ?ms symb) (float_round2 d) (?pf symb))"
      using p(1) by (simp add: float_order_def)
    moreover have "held_shares ?ms symb = hs"
      using ms m by (simp add: held_shares_def)
    ultimately have eq: "held_shares ?m2 symb = bought hs (float_round2 d) (?pf symb)"
      by (simp add: held_shares_def)
    from buy cent_close(1) have "0 < d" by linarith
    from bought_close [OF p hs0 hv tf d this] show ?thesis
      unfolding eq tens by linarith
  next
    case sell
    let ?ord = "\<lparr>order_symbol = symb, amount_in_dollars = float_round2 \<bar>d\<bar>\<rparr>"
    have ord: "?ord \<in> set ?sells"
      unfolding sell_orders_float_def using it sell by (force simp: d_def)
    have "symb \<notin> set (map order_symbol ?buys)" using in_buys sell by simp
    then have "?m2 symb = ?ms symb"
      by (rule float_order_other)
    moreover have "?ms (order_symbol ?ord) = float_order sold ?pf ?m ?ord (order_symbol ?ord)"
      by (rule float_order_at [OF dsells ord])
    ultimately have "?m2 symb = Some (sold hs (float_round2 \<bar>d\<bar>) (?pf symb))"
      using p(1) m by (simp add: float_order_def)
    then have eq: "held_shares ?m2 symb = sold hs (float_round2 \<bar>d\<bar>) (?pf symb)"
      by (simp add: held_shares_def)
    from sell(2) cent_close(1) have "d < 0" by linarith
    from sold_close [OF p hs0 hv tf d this] show ?thesis
      unfolding eq tens by linarith
  next
    case keep
    have "symb \<notin> set (map order_symbol ?buys)" using in_buys keep by simp
    then have "?m2 symb = ?ms symb"
      by (rule float_order_other)
    moreover have "symb \<notin> set (map order_symbol ?sells)" using in_sells keep by simp
    then have "?ms symb = ?m symb"
      by (rule float_order_other)
    ultimately have eq: "held_shares ?m2 symb = hs"
      using m by (simp add: held_shares_def)
    from keep cent_close(2) d hs0 show ?thesis
      unfolding eq tens by linarith
  qed
qed

lemma tradable_iff_key: "tradable self symb \<longleftrightarrow> symb \<in> set (map fst (stock_objects self))"
  by (auto simp: tradable_def map_of_eq_None_iff)

lemma nonnegD: "nonneg d \<Longrightarrow> (symb, v) \<in> set d \<Longrightarrow> 0 \<le> v"
  by (force simp: nonneg_def)

lemma length_le_keys:
  assumes "distinct xs" and "set xs \<subseteq> set ys"
  shows "length xs \<le> length ys"
proof -
  have "length xs = card (set xs)" using assms(1) by (simp add: distinct_card)
  also have "\<dots> \<le> card (set ys)" using assms(2) by (intro card_mono) simp_all
  also have "\<dots> \<le> length ys" by (rule card_length)
  finally show ?thesis .
qed

lemma member_le_sum_list_real:
  fixes xs :: "real list"
  shows "\<forall>x \<in> set xs. 0 \<le> x \<Longrightarrow> y \<in> set xs \<Longrightarrow> y \<le> sum_list xs"
proof (induction xs)
  case Nil
  then show ?case by simp
next
  case (Cons x xs)
  then have "0 \<le> sum_list xs" by (intro sum_list_nonneg) simp
  with Cons show ?case by auto
qed

text \<open>
  The total that \<^verbatim>\<open>get_total_value\<close> returns, for holdings of at most a thousand tradable
  symbols, each worth \<open>\<ge> 0\<close>, that are worth \<open>2 \<sqdot> 10\<^sup>8\<close> at most.
\<close>

lemma get_total_value_float_close:
  assumes kh: "\<forall>symb \<in> set (map fst (holdings self)). tradable self symb"
    and vals: "\<forall>(symb, shares) \<in> set (holdings self). 0 \<le> shares * price_of self symb"
    and size: "length (holdings self) \<le> 1000"
    and bound: "sum_list (map (\<lambda>(symb, shares). shares * price_of self symb) (holdings self))
                \<le> 2 * 10 ^ 8"
  shows "\<exists>t. get_total_value_float self = Inr t \<and> 0 \<le> t
     \<and> \<bar>t - sum_list (map (\<lambda>(symb, shares). shares * price_of self symb) (holdings self))\<bar>
         \<le> 2 / 10 ^ 4"
proof -
  have pf: "(\<lambda>(symb, shares). shares * price_of self symb) =
      (\<lambda>(symb, shares). shares * current_price (the (map_of (stock_objects self) symb)))"
    by (simp add: price_of_def fun_eq_iff)
  let ?S = "sum_list (map (\<lambda>(symb, shares).
      shares * current_price (the (map_of (stock_objects self) symb))) (holdings self))"
  have "\<exists>t. total_value_loop_float (stock_objects self) (holdings self) 0 = Inr t \<and> 0 \<le> t
     \<and> \<bar>t - (0 + ?S)\<bar> \<le> real (0 + length (holdings self)) * (2 / 10 ^ 7)"
  proof (rule total_value_loop_float_close)
    show "\<forall>symb \<in> set (map fst (holdings self)). map_of (stock_objects self) symb \<noteq> None"
      using kh by (simp add: tradable_def)
    show "\<forall>(symb, shares) \<in> set (holdings self).
        0 \<le> shares * current_price (the (map_of (stock_objects self) symb))"
      using vals by (simp add: price_of_def)
    show "0 + length (holdings self) \<le> 1000" using size by simp
    show "0 + ?S \<le> 2 * 10 ^ 8" using bound by (simp add: pf)
    show "\<bar>0 - 0 :: real\<bar> \<le> real 0 * (2 / 10 ^ 7)" by simp
  qed simp_all
  then obtain t where t: "get_total_value_float self = Inr t" "0 \<le> t"
    "\<bar>t - ?S\<bar> \<le> real (length (holdings self)) * (2 / 10 ^ 7)"
    by (auto simp: get_total_value_float_def)
  have "real (length (holdings self)) \<le> real 1000" using size by (simp only: of_nat_le_iff)
  then have "real (length (holdings self)) * (2 / 10 ^ 7) \<le> 2 / 10 ^ 4"
    by simp
  with t show ?thesis unfolding pf by (intro exI [of _ t]) simp
qed

lemma sum_list_abs_bound:
  fixes g :: "'a \<Rightarrow> real"
  shows "\<forall>x \<in> set xs. \<bar>g x\<bar> \<le> c \<Longrightarrow> \<bar>sum_list (map g xs)\<bar> \<le> real (length xs) * c"
proof (induction xs)
  case Nil
  then show ?case by simp
next
  case (Cons x xs)
  then have "\<bar>g x\<bar> \<le> c" and "\<bar>sum_list (map g xs)\<bar> \<le> real (length xs) * c" by simp_all
  then show ?case by (simp add: algebra_simps)
qed

lemma sum_over_keys:
  fixes g :: "'k \<Rightarrow> real \<Rightarrow> real"
  assumes d: "distinct (map fst d)" and ks: "distinct ks" and sub: "fst ` set d \<subseteq> set ks"
  shows "sum_list (map (\<lambda>(k, v). g k v) d) =
         sum_list (map (\<lambda>k. case map_of d k of None \<Rightarrow> 0 | Some v \<Rightarrow> g k v) ks)"
proof -
  let ?F = "\<lambda>k. case map_of d k of None \<Rightarrow> 0 | Some v \<Rightarrow> g k v"
  from d have dd: "distinct d" by (simp add: distinct_map)
  from d have inj: "inj_on fst (set d)" by (simp add: distinct_map)
  have "sum_list (map (\<lambda>(k, v). g k v) d) = sum (\<lambda>(k, v). g k v) (set d)"
    by (rule sum_list_distinct_conv_sum_set [OF dd])
  also have "\<dots> = sum (?F \<circ> fst) (set d)"
    by (rule sum.cong) (auto simp: map_of_is_SomeI [OF d])
  also have "\<dots> = sum ?F (fst ` set d)"
    by (rule sum.reindex [OF inj, symmetric])
  also have "\<dots> = sum ?F (set ks)"
  proof (rule sum.mono_neutral_left [OF _ sub])
    show "finite (set ks)" by simp
    show "\<forall>k \<in> set ks - fst ` set d. ?F k = 0"
      by (auto simp: map_of_eq_None_iff [THEN iffD2] split: option.splits)
  qed
  also have "\<dots> = sum_list (map ?F ks)"
    by (rule sum_list_distinct_conv_sum_set [OF ks, symmetric])
  finally show ?thesis .
qed

lemma dict_get_plan:
  "dict_get [(''buy'', buy), (''sell'', sell)] ''buy'' [] = buy"
  "dict_get [(''buy'', buy), (''sell'', sell)] ''sell'' [] = sell"
  by (simp_all add: dict_get_def)

lemma order_float_symbols_subset:
  "set (map order_symbol (buy_orders_float self t its)) \<subseteq> set (map fst its)"
  "set (map order_symbol (sell_orders_float self t its)) \<subseteq> set (map fst its)"
  unfolding buy_orders_float_symbols sell_orders_float_symbols by auto

lemma fraction_of_total_tight:
  fixes t f :: real
  assumes "0 \<le> t" "t \<le> 10 ^ 8 + 1" "0 \<le> f" "f \<le> 1 + 1 / 10 ^ 12"
  shows "t * f \<le> 10 ^ 8 + 2"
proof -
  have "t * f \<le> t * (1 + 1 / 10 ^ 12)" using assms by (intro mult_left_mono) simp_all
  also have "\<dots> = t + t / 10 ^ 12" by (simp add: algebra_simps)
  also have "\<dots> \<le> 10 ^ 8 + 2" using assms(1,2) by simp
  finally show ?thesis .
qed

text \<open>The target allocation after the backfill, for a portfolio that can be rebalanced.\<close>

lemma backfill_rebalanceable:
  assumes "rebalanceable self"
  defines "t1 \<equiv> backfill (stock_objects self) (target_allocation self)"
  shows "distinct (map fst t1)"
    and "\<forall>symb. symb \<in> set (map fst t1) \<longleftrightarrow> tradable self symb"
    and "nonneg t1"
    and "\<bar>sum_list (map snd t1) - 1\<bar> \<le> 1 / 10 ^ 12"
proof -
  let ?absent = "filter (\<lambda>symb. map_of (target_allocation self) symb = None)
      (map fst (stock_objects self))"
  from assms(1) have d: "distinct (map fst (stock_objects self))"
    by (simp add: rebalanceable_def)
  have t1: "t1 = target_allocation self @ map (\<lambda>symb. (symb, 0)) ?absent"
    unfolding t1_def backfill_def by (rule backfill_distinct [OF d])
  have keys: "map fst t1 = map fst (target_allocation self) @ ?absent"
    unfolding t1 by (simp add: comp_def)
  show "distinct (map fst t1)"
    unfolding keys using assms(1) d
    by (auto simp: rebalanceable_def map_of_eq_None_iff)
  show "\<forall>symb. symb \<in> set (map fst t1) \<longleftrightarrow> tradable self symb"
    unfolding keys using assms(1)
    by (auto simp: rebalanceable_def tradable_iff_key map_of_eq_None_iff)
  show "nonneg t1"
    unfolding t1 using assms(1) by (auto simp: rebalanceable_def nonneg_def)
  have "sum_list (map snd (map (\<lambda>symb. (symb, 0::real)) ?absent)) = 0"
    by (simp add: comp_def)
  then have "sum_list (map snd t1) = sum_list (map snd (target_allocation self))"
    unfolding t1 by simp
  then show "\<bar>sum_list (map snd t1) - 1\<bar> \<le> 1 / 10 ^ 12"
    using assms(1) by (simp add: rebalanceable_def)
qed

lemma rebalanceable_price:
  assumes "rebalanceable self" and "tradable self symb"
  shows "0 < price_of self symb" and "price_of self symb \<le> 10 ^ 200"
proof -
  from assms(2) have "symb \<in> set (map fst (stock_objects self))"
    by (simp only: tradable_iff_key)
  moreover from assms(1)
  have "\<forall>symb \<in> set (map fst (stock_objects self)).
      1 / 10 ^ 200 \<le> price_of self symb \<and> price_of self symb \<le> 10 ^ 200"
    unfolding rebalanceable_def by blast
  ultimately have b: "1 / 10 ^ 200 \<le> price_of self symb" "price_of self symb \<le> 10 ^ 200"
    by blast+
  have "(0::real) < 1 / 10 ^ 200" by simp
  from this b(1) show "0 < price_of self symb" by (rule less_le_trans)
  show "price_of self symb \<le> 10 ^ 200" by (rule b(2))
qed

lemma rebalanceable_held:
  assumes "rebalanceable self" and "(symb, shares) \<in> set (holdings self)"
  shows "tradable self symb" and "0 \<le> shares" and "0 \<le> shares * price_of self symb"
proof -
  from assms(2) have "symb \<in> set (map fst (holdings self))" by force
  moreover from assms(1)
  have "\<forall>symb \<in> set (map fst (holdings self)). tradable self symb"
    unfolding rebalanceable_def by blast
  ultimately show tr: "tradable self symb" by blast
  from assms(1) have "nonneg (holdings self)" unfolding rebalanceable_def by blast
  then show sh: "0 \<le> shares" using assms(2) by (rule nonnegD)
  from rebalanceable_price(1) [OF assms(1) tr] sh
  show "0 \<le> shares * price_of self symb" by simp
qed

lemma rebalanceable_total:
  assumes wf: "rebalanceable self"
  shows "\<exists>t. get_total_value_float self = Inr t \<and> 0 \<le> t \<and> t \<le> 10 ^ 8 + 1"
    and "get_total_value_float self = Inr 0 \<Longrightarrow>
         dict_get (holdings self) symb 0 * price_of self symb \<le> 2 / 10 ^ 4"
    and "0 \<le> dict_get (holdings self) symb 0 * price_of self symb"
    and "dict_get (holdings self) symb 0 * price_of self symb \<le> 10 ^ 8"
proof -
  let ?vals = "map (\<lambda>(symb, shares). shares * price_of self symb) (holdings self)"
  from wf have kh: "\<forall>symb \<in> set (map fst (holdings self)). tradable self symb"
    and dh: "distinct (map fst (holdings self))"
    and ds: "distinct (map fst (stock_objects self))"
    and size: "length (stock_objects self) \<le> 1000"
    and total: "sum_list ?vals \<le> 10 ^ 8"
    unfolding rebalanceable_def by blast+
  have vals: "\<forall>(symb, shares) \<in> set (holdings self). 0 \<le> shares * price_of self symb"
    using rebalanceable_held(3) [OF wf] by blast
  have nonneg: "\<forall>v \<in> set ?vals. 0 \<le> v" using vals by auto
  have "set (map fst (holdings self)) \<subseteq> set (map fst (stock_objects self))"
    using kh by (auto simp: tradable_iff_key)
  from length_le_keys [OF dh this] size have len: "length (holdings self) \<le> 1000" by simp
  have "sum_list ?vals \<le> 2 * 10 ^ 8" using total by simp
  from get_total_value_float_close [OF kh vals len this]
  obtain t where t: "get_total_value_float self = Inr t" "0 \<le> t"
    "\<bar>t - sum_list ?vals\<bar> \<le> 2 / 10 ^ 4" by blast
  have "t \<le> 10 ^ 8 + 1" using t(3) total unfolding tens by linarith
  with t show "\<exists>t. get_total_value_float self = Inr t \<and> 0 \<le> t \<and> t \<le> 10 ^ 8 + 1"
    by blast
  have member: "0 \<le> dict_get (holdings self) symb 0 * price_of self symb
      \<and> dict_get (holdings self) symb 0 * price_of self symb \<le> sum_list ?vals"
  proof (cases "map_of (holdings self) symb")
    case None
    have "0 \<le> sum_list ?vals" using nonneg by (intro sum_list_nonneg) blast
    with None show ?thesis by (simp add: dict_get_def)
  next
    case (Some shares)
    then have held: "(symb, shares) \<in> set (holdings self)" by (rule map_of_SomeD)
    then have "shares * price_of self symb \<in> set ?vals" by force
    with nonneg have "shares * price_of self symb \<le> sum_list ?vals"
      by (rule member_le_sum_list_real)
    with rebalanceable_held(3) [OF wf held] Some show ?thesis by (simp add: dict_get_def)
  qed
  from member show "0 \<le> dict_get (holdings self) symb 0 * price_of self symb" by simp
  from member total show "dict_get (holdings self) symb 0 * price_of self symb \<le> 10 ^ 8"
    by linarith
  show "dict_get (holdings self) symb 0 * price_of self symb \<le> 2 / 10 ^ 4"
    if "get_total_value_float self = Inr 0"
  proof -
    from that t(1) have "t = 0" by simp
    with t(3) member show ?thesis unfolding tens by linarith
  qed
qed

lemma first_round_float:
  assumes wf: "rebalanceable self" and t: "get_total_value_float self = Inr t"
    and nz: "t \<noteq> 0" and tb: "0 \<le> t" "t \<le> 10 ^ 8 + 1"
  defines "t1 \<equiv> backfill (stock_objects self) (target_allocation self)"
  defines "self1 \<equiv> self\<lparr>target_allocation := t1\<rparr>"
  defines "plan \<equiv> [(''buy'', buy_orders_float self t t1), (''sell'', sell_orders_float self t t1)]"
  shows "create_rebalance_plan_float self = (Inr plan, self1)"
    and "fst (execute_rebalance_float self1 plan) = Inr ()"
    and "stock_objects (snd (execute_rebalance_float self1 plan)) = stock_objects self"
    and "target_allocation (snd (execute_rebalance_float self1 plan)) = t1"
    and "(symb, f) \<in> set t1 \<Longrightarrow>
         0 \<le> dict_get (holdings (snd (execute_rebalance_float self1 plan))) symb 0
         \<and> \<bar>t * f - dict_get (holdings (snd (execute_rebalance_float self1 plan))) symb 0
                    * price_of self symb\<bar> \<le> 1 / 100 + 1 / 10 ^ 6"
proof -
  note t1 = backfill_rebalanceable [OF wf, folded t1_def]
  have known: "\<forall>symb \<in> set (map fst t1). tradable self symb"
    using t1(2) by blast
  have loop: "plan_loop_float (stock_objects self) (holdings self) t t1 ([], []) =
      Inr (buy_orders_float self t t1, sell_orders_float self t t1)"
    using plan_loop_float_orders [OF known, of t "[]" "[]"] by simp
  show "create_rebalance_plan_float self = (Inr plan, self1)"
    using t nz loop
    by (simp add: create_rebalance_plan_float_def Let_def t1_def [symmetric] self1_def plan_def)
  have pr: "price_of self1 = price_of self"
    by (simp add: price_of_def fun_eq_iff self1_def)
  have "\<forall>ord \<in> set (sell_orders_float self t t1 @ buy_orders_float self t t1).
      order_symbol ord \<in> set (map fst t1)"
    using order_float_symbols_subset [of self t t1] by auto
  with known have "\<forall>ord \<in> set (sell_orders_float self t t1 @ buy_orders_float self t t1).
      tradable self (order_symbol ord)"
    by blast
  then have "\<forall>ord \<in> set (dict_get plan ''sell'' [] @ dict_get plan ''buy'' []).
      tradable self1 (order_symbol ord)"
    by (simp add: plan_def dict_get_plan tradable_def self1_def)
  note exec = execute_rebalance_float_spec [OF this]
  show "fst (execute_rebalance_float self1 plan) = Inr ()" by (rule exec(1))
  show "stock_objects (snd (execute_rebalance_float self1 plan)) = stock_objects self"
    using exec(3) by (simp add: self1_def)
  show "target_allocation (snd (execute_rebalance_float self1 plan)) = t1"
    using exec(4) by (simp add: self1_def)
  have held: "map_of (holdings (snd (execute_rebalance_float self1 plan))) =
      foldl (float_order bought (price_of self))
        (foldl (float_order sold (price_of self)) (map_of (holdings self))
           (sell_orders_float self t t1))
        (buy_orders_float self t t1)"
    using exec(2) unfolding pr by (simp add: plan_def dict_get_plan self1_def)
  show "0 \<le> dict_get (holdings (snd (execute_rebalance_float self1 plan))) symb 0
         \<and> \<bar>t * f - dict_get (holdings (snd (execute_rebalance_float self1 plan))) symb 0
                    * price_of self symb\<bar> \<le> 1 / 100 + 1 / 10 ^ 6"
    if it: "(symb, f) \<in> set t1"
  proof -
    from it have "symb \<in> set (map fst t1)" by force
    with t1(2) have "tradable self symb" by blast
    note p = rebalanceable_price [OF wf this]
    from t1(3) it have f0: "0 \<le> f" by (rule nonnegD)
    have "\<forall>x \<in> set (map snd t1). 0 \<le> x" using t1(3) by (simp add: nonneg_def)
    moreover have "f \<in> set (map snd t1)" using it by force
    ultimately have "f \<le> sum_list (map snd t1)" by (rule member_le_sum_list_real)
    with t1(4) have f1: "f \<le> 1 + 1 / 10 ^ 12" by linarith
    from wf have "nonneg (holdings self)" unfolding rebalanceable_def by blast
    then have h: "0 \<le> dict_get (holdings self) symb 0" by (rule dict_get_nonneg)
    have hv: "dict_get (holdings self) symb 0 * price_of self symb \<le> 2 * 10 ^ 8"
      using rebalanceable_total(4) [OF wf, of symb] by simp
    have t3: "t \<le> 3 * 10 ^ 8" using tb(2) by simp
    from rebalanced_value_float [OF t1(1) it p tb(1) t3 f0 f1 h hv]
    show ?thesis
      by (simp only: held [symmetric] held_shares_map_of)
  qed
qed

lemma second_plan_float:
  assumes d1: "distinct (map fst (target_allocation self2))"
    and cover: "\<forall>symb. symb \<in> set (map fst (target_allocation self2)) \<longleftrightarrow> tradable self2 symb"
    and fr: "nonneg (target_allocation self2)"
    and one: "\<bar>sum_list (map snd (target_allocation self2)) - 1\<bar> \<le> 1 / 10 ^ 12"
    and dh: "distinct (map fst (holdings self2))"
    and kh: "\<forall>symb \<in> set (map fst (holdings self2)). tradable self2 symb"
    and hn: "nonneg (holdings self2)"
    and ds: "distinct (map fst (stock_objects self2))"
    and size: "length (stock_objects self2) \<le> 1000"
    and pr: "\<And>symb. tradable self2 symb \<Longrightarrow> 0 < price_of self2 symb"
    and t: "0 \<le> t" "t \<le> 10 ^ 8 + 1"
    and close: "\<And>symb f. (symb, f) \<in> set (target_allocation self2) \<Longrightarrow>
        \<bar>t * f - dict_get (holdings self2) symb 0 * price_of self2 symb\<bar>
          \<le> 1 / 100 + 1 / 10 ^ 6"
  shows "\<exists>plan2. create_rebalance_plan_float self2 = (Inr plan2, self2)
    \<and> (\<forall>ord \<in> set (dict_get plan2 ''buy'' [] @ dict_get plan2 ''sell'' []).
          amount_in_dollars ord \<le> (real (length (target_allocation self2)) + 2) / 100)"
proof -
  let ?T = "target_allocation self2" and ?H = "holdings self2"
  let ?n = "real (length ?T)"
  define v where "v symb = dict_get ?H symb 0 * price_of self2 symb" for symb
  define s2 where "s2 = sum_list (map (\<lambda>(symb, shares). shares * price_of self2 symb) ?H)"
  define sigma where "sigma = sum_list (map snd ?T)"
  have keys: "set (map fst ?T) \<subseteq> set (map fst (stock_objects self2))"
    using cover by (auto simp: tradable_iff_key)
  have "length (map fst ?T) \<le> length (map fst (stock_objects self2))"
    by (rule length_le_keys [OF d1 keys])
  with size have "length ?T \<le> 1000" by simp
  then have "?n \<le> real 1000" by (simp only: of_nat_le_iff)
  then have n: "?n \<le> 1000" by simp
  have "set (map fst ?H) \<subseteq> set (map fst (stock_objects self2))"
    using kh by (auto simp: tradable_iff_key)
  from length_le_keys [OF dh this] size have len: "length ?H \<le> 1000" by simp
  have frac: "0 \<le> f \<and> f \<le> 1 + 1 / 10 ^ 12" if "(symb, f) \<in> set ?T" for symb f
  proof -
    from fr that have f0: "0 \<le> f" by (rule nonnegD)
    have "\<forall>x \<in> set (map snd ?T). 0 \<le> x" using fr by (simp add: nonneg_def)
    moreover have "f \<in> set (map snd ?T)" using that by force
    ultimately have "f \<le> sum_list (map snd ?T)" by (rule member_le_sum_list_real)
    with one f0 show ?thesis by linarith
  qed
  have v0: "0 \<le> v symb" if "tradable self2 symb" for symb
    unfolding v_def using dict_get_nonneg [OF hn, of symb] pr [OF that] by simp
  have vals: "\<forall>(symb, shares) \<in> set ?H. 0 \<le> shares * price_of self2 symb"
  proof (clarify)
    fix symb shares assume held: "(symb, shares) \<in> set ?H"
    then have "symb \<in> set (map fst ?H)" by force
    with kh have "tradable self2 symb" by blast
    from pr [OF this] nonnegD [OF hn held] show "0 \<le> shares * price_of self2 symb" by simp
  qed
  have sub: "fst ` set ?H \<subseteq> set (map fst ?T)"
    using kh cover by auto
  have "s2 = sum_list (map (\<lambda>symb. case map_of ?H symb of None \<Rightarrow> 0
                                      | Some shares \<Rightarrow> shares * price_of self2 symb) (map fst ?T))"
    unfolding s2_def by (rule sum_over_keys [OF dh d1 sub])
  also have "(\<lambda>symb. case map_of ?H symb of None \<Rightarrow> 0
                     | Some shares \<Rightarrow> shares * price_of self2 symb) = v"
    by (auto simp: v_def dict_get_def fun_eq_iff split: option.splits)
  finally have s2: "s2 = sum_list (map (\<lambda>it. v (fst it)) ?T)"
    by (simp add: comp_def)
  have ts: "t * sigma = sum_list (map (\<lambda>it. t * snd it) ?T)"
    unfolding sigma_def by (simp add: sum_list_const_mult)
  have "s2 - t * sigma = sum_list (map (\<lambda>it. v (fst it)) ?T) - sum_list (map (\<lambda>it. t * snd it) ?T)"
    using s2 ts by simp
  also have "\<dots> = sum_list (map (\<lambda>it. v (fst it) - t * snd it) ?T)"
    by (simp add: sum_list_subtractf)
  finally have diff: "s2 - t * sigma = sum_list (map (\<lambda>it. v (fst it) - t * snd it) ?T)" .
  have "\<forall>it \<in> set ?T. \<bar>v (fst it) - t * snd it\<bar> \<le> 1 / 100 + 1 / 10 ^ 6"
  proof
    fix it assume "it \<in> set ?T"
    then have "(fst it, snd it) \<in> set ?T" by simp
    from close [OF this] show "\<bar>v (fst it) - t * snd it\<bar> \<le> 1 / 100 + 1 / 10 ^ 6"
      unfolding v_def by linarith
  qed
  from sum_list_abs_bound [OF this]
  have "\<bar>s2 - t * sigma\<bar> \<le> ?n * (1 / 100 + 1 / 10 ^ 6)"
    unfolding diff .
  moreover have "(1 / 100 + 1 / 10 ^ 6 :: real) = 10001 / 10 ^ 6" by simp
  ultimately have drift1: "\<bar>s2 - t * sigma\<bar> \<le> ?n * (10001 / 10 ^ 6)"
    by simp
  have "\<bar>t * sigma - t\<bar> = t * \<bar>sigma - 1\<bar>"
  proof -
    have "t * sigma - t = t * (sigma - 1)" by (simp add: algebra_simps)
    then show ?thesis using t(1) by (simp add: abs_mult)
  qed
  also have "\<dots> \<le> (10 ^ 8 + 1) * (1 / 10 ^ 12)"
    using t one unfolding sigma_def by (intro mult_mono) simp_all
  also have "\<dots> \<le> 2 / 10 ^ 4" by simp
  finally have drift2: "\<bar>t * sigma - t\<bar> \<le> 2 / 10 ^ 4" .
  have s2b: "s2 \<le> 2 * 10 ^ 8"
    using drift1 drift2 t n unfolding tens by linarith
  from get_total_value_float_close [OF kh vals len, folded s2_def, OF s2b]
  obtain t2 where total: "get_total_value_float self2 = Inr t2" and t20: "0 \<le> t2"
    and drift3: "\<bar>t2 - s2\<bar> \<le> 2 / 10 ^ 4" by blast
  have drift: "\<bar>t2 - t\<bar> \<le> ?n * (10001 / 10 ^ 6) + 4 / 10 ^ 4"
    using drift1 drift2 drift3 unfolding tens by linarith
  have t23: "t2 \<le> 3 * 10 ^ 8" using drift t n unfolding tens by linarith
  have bound: "\<bar>value_difference_float self2 t2 it\<bar> \<le> ?n * (1 / 100) + 1 / 100 + 2 / 10 ^ 3"
    if it: "it \<in> set ?T" for it
  proof -
    obtain symb f where sf: "it = (symb, f)" by (cases it)
    from it have mem: "(symb, f) \<in> set ?T" by (simp add: sf)
    note f = frac [OF mem]
    from mem have "symb \<in> set (map fst ?T)" by force
    with cover have tr: "tradable self2 symb" by blast
    note tf2 = fraction_of_total [OF t20 t23 f [THEN conjunct1] f [THEN conjunct2]]
    have tf: "t * f \<le> 10 ^ 8 + 2"
      by (rule fraction_of_total_tight [OF t f [THEN conjunct1] f [THEN conjunct2]])
    from close [OF mem] have c: "\<bar>t * f - v symb\<bar> \<le> 1 / 100 + 1 / 10 ^ 6"
      by (simp add: v_def)
    have v2: "v symb \<le> 2 * 10 ^ 8" using c tf unfolding tens by linarith
    from value_difference_close [OF tf2 v0 [OF tr] v2]
    have d: "\<bar>value_difference_float self2 t2 it - (t2 * f - v symb)\<bar> \<le> 3 / 10 ^ 7"
      by (simp add: value_difference_float_def sf v_def float_sub_def float_mul_def)
    have "\<bar>(t2 - t) * f\<bar> = \<bar>t2 - t\<bar> * f" using f by (simp add: abs_mult)
    also have "\<dots> \<le> \<bar>t2 - t\<bar> * (1 + 1 / 10 ^ 12)"
      using f by (intro mult_left_mono) simp_all
    also have "\<dots> = \<bar>t2 - t\<bar> + \<bar>t2 - t\<bar> / 10 ^ 12" by (simp add: algebra_simps)
    finally have a: "\<bar>(t2 - t) * f\<bar> \<le> \<bar>t2 - t\<bar> + \<bar>t2 - t\<bar> / 10 ^ 12" .
    have split: "t2 * f - v symb = (t2 - t) * f + (t * f - v symb)"
      by (simp add: algebra_simps)
    define x where "x = (t2 - t) * f"
    define y where "y = \<bar>t2 - t\<bar>"
    have y: "y \<le> ?n * (10001 / 10 ^ 6) + 4 / 10 ^ 4" "0 \<le> y"
      using drift by (simp_all add: y_def)
    have x: "\<bar>x\<bar> \<le> y + y / 10 ^ 12" using a by (simp add: x_def y_def)
    have "\<bar>t2 * f - v symb\<bar> \<le> \<bar>x\<bar> + \<bar>t * f - v symb\<bar>"
      unfolding split x_def by (rule abs_triangle_ineq)
    with x y c d n show ?thesis unfolding tens by linarith
  qed
  have amounts: "amount_in_dollars ord \<le> (?n + 2) / 100"
    if "ord \<in> set (buy_orders_float self2 t2 ?T @ sell_orders_float self2 t2 ?T)" for ord
  proof -
    from that obtain it where it: "it \<in> set ?T"
      and amount: "amount_in_dollars ord = float_round2 (value_difference_float self2 t2 it)
                 \<or> amount_in_dollars ord = float_round2 \<bar>value_difference_float self2 t2 it\<bar>"
      by (auto simp: buy_orders_float_def sell_orders_float_def)
    define x where "x = value_difference_float self2 t2 it"
    from bound [OF it] have x: "\<bar>x\<bar> \<le> ?n * (1 / 100) + 1 / 100 + 2 / 10 ^ 3"
      by (simp add: x_def)
    have x7: "\<bar>x\<bar> \<le> 7 * 10 ^ 8" "\<bar>\<bar>x\<bar>\<bar> \<le> 7 * 10 ^ 8" using x n unfolding tens by linarith+
    from float_round2_close [OF x7(1)] float_round2_close [OF x7(2)]
    have "float_round2 x \<le> \<bar>x\<bar> + 1 / 200 + 1 / 10 ^ 7"
      "float_round2 \<bar>x\<bar> \<le> \<bar>x\<bar> + 1 / 200 + 1 / 10 ^ 7" by linarith+
    with amount have "amount_in_dollars ord \<le> \<bar>x\<bar> + 1 / 200 + 1 / 10 ^ 7"
      by (auto simp: x_def)
    with x have "amount_in_dollars ord \<le> ?n * (1 / 100) + 2 / 100"
      unfolding tens by linarith
    then show ?thesis by (simp add: add_divide_distrib)
  qed
  show ?thesis
  proof (cases "t2 = 0")
    case True
    with total
    have "create_rebalance_plan_float self2 = (Inr [(''buy'', []), (''sell'', [])], self2)"
      by (simp add: create_rebalance_plan_float_def)
    then show ?thesis by (simp add: dict_get_plan)
  next
    case False
    have "\<forall>symb \<in> set (map fst (stock_objects self2)). map_of ?T symb \<noteq> None"
      using cover by (auto simp: tradable_iff_key map_of_eq_None_iff)
    then have filled: "backfill (stock_objects self2) ?T = ?T"
      unfolding backfill_def by (rule backfill_present)
    have known: "\<forall>symb \<in> set (map fst ?T). tradable self2 symb"
      using cover by blast
    have loop: "plan_loop_float (stock_objects self2) ?H t2 ?T ([], []) =
        Inr (buy_orders_float self2 t2 ?T, sell_orders_float self2 t2 ?T)"
      using plan_loop_float_orders [OF known, of t2 "[]" "[]"] by simp
    have "create_rebalance_plan_float self2 =
        (Inr [(''buy'', buy_orders_float self2 t2 ?T), (''sell'', sell_orders_float self2 t2 ?T)],
         self2)"
      using total False by (simp add: create_rebalance_plan_float_def Let_def filled loop)
    with amounts show ?thesis by (simp add: dict_get_plan)
  qed
qed

lemma execute_float_empty_plan:
  "execute_rebalance_float self [(''buy'', []), (''sell'', [])] = (Inr (), self)"
  by (simp add: execute_rebalance_float_def dict_get_def)

text \<open>
  Claim C6, as the code has it, on floats. For a portfolio that can be rebalanced
  (tradable symbols, holdings and target fractions \<open>\<ge> 0\<close>, fractions summing to 1, at most
  a thousand stocks with prices \<open>> 0\<close>, holdings worth at most \<open>10\<^sup>8\<close>),
  \<^verbatim>\<open>create_rebalance_plan\<close> returns a plan and \<^verbatim>\<open>execute_rebalance\<close> of that plan raises
  nothing; afterwards the value of every symbol of the target allocation is within
  \<open>0.01 + 10\<^sup>-\<^sup>6\<close> of its fraction of the total value that the plan was made from; and a
  second \<^verbatim>\<open>create_rebalance_plan\<close> returns a plan, leaves the portfolio as it is, and asks
  in every order for at most \<open>(n + 2) / 100\<close>, where \<open>n\<close> is the number of symbols of the
  target allocation.
\<close>

theorem C6_rebalance_reaches_target:
  "rebalanceable self \<longrightarrow>
     (\<exists>t plan self1 self2 plan2.
        get_total_value_float self = Inr t
      \<and> create_rebalance_plan_float self = (Inr plan, self1)
      \<and> execute_rebalance_float self1 plan = (Inr (), self2)
      \<and> (\<forall>(symb, fraction) \<in> set (target_allocation self2).
            \<bar>t * fraction - dict_get (holdings self2) symb 0 * price_of self2 symb\<bar>
              \<le> 1 / 100 + 1 / 10 ^ 6)
      \<and> create_rebalance_plan_float self2 = (Inr plan2, self2)
      \<and> (\<forall>ord \<in> set (dict_get plan2 ''buy'' [] @ dict_get plan2 ''sell'' []).
            amount_in_dollars ord \<le> (real (length (target_allocation self2)) + 2) / 100))"
proof
  assume wf: "rebalanceable self"
  then have kh: "\<forall>symb \<in> set (map fst (holdings self)). tradable self symb"
    and dh: "distinct (map fst (holdings self))"
    and ds: "distinct (map fst (stock_objects self))"
    and size: "length (stock_objects self) \<le> 1000"
    unfolding rebalanceable_def by blast+
  from rebalanceable_total(1) [OF wf]
  obtain t where t: "get_total_value_float self = Inr t" and tb: "0 \<le> t" "t \<le> 10 ^ 8 + 1"
    by blast
  show "\<exists>t plan self1 self2 plan2.
        get_total_value_float self = Inr t
      \<and> create_rebalance_plan_float self = (Inr plan, self1)
      \<and> execute_rebalance_float self1 plan = (Inr (), self2)
      \<and> (\<forall>(symb, fraction) \<in> set (target_allocation self2).
            \<bar>t * fraction - dict_get (holdings self2) symb 0 * price_of self2 symb\<bar>
              \<le> 1 / 100 + 1 / 10 ^ 6)
      \<and> create_rebalance_plan_float self2 = (Inr plan2, self2)
      \<and> (\<forall>ord \<in> set (dict_get plan2 ''buy'' [] @ dict_get plan2 ''sell'' []).
            amount_in_dollars ord \<le> (real (length (target_allocation self2)) + 2) / 100)"
  proof (cases "t = 0")
    case True
    have plan: "create_rebalance_plan_float self = (Inr [(''buy'', []), (''sell'', [])], self)"
      using t True by (simp add: create_rebalance_plan_float_def)
    have "\<bar>t * fraction - dict_get (holdings self) symb 0 * price_of self symb\<bar>
        \<le> 1 / 100 + 1 / 10 ^ 6" for symb fraction
    proof -
      from t True have "get_total_value_float self = Inr 0" by simp
      from rebalanceable_total(2) [OF wf this, of symb] rebalanceable_total(3) [OF wf, of symb]
      show ?thesis unfolding True tens by simp
    qed
    then have "\<forall>(symb, fraction) \<in> set (target_allocation self).
        \<bar>t * fraction - dict_get (holdings self) symb 0 * price_of self symb\<bar>
          \<le> 1 / 100 + 1 / 10 ^ 6"
      by blast
    with t plan show ?thesis
      by (intro exI [of _ t] exI [of _ "[(''buy'', []), (''sell'', [])]"] exI [of _ self])
         (simp add: execute_float_empty_plan dict_get_plan)
  next
    case False
    define t1 where "t1 = backfill (stock_objects self) (target_allocation self)"
    define self1 where "self1 = self\<lparr>target_allocation := t1\<rparr>"
    define plan where
      "plan = [(''buy'', buy_orders_float self t t1), (''sell'', sell_orders_float self t t1)]"
    define self2 where "self2 = snd (execute_rebalance_float self1 plan)"
    note round = first_round_float [OF wf t False tb, folded t1_def,
        folded self1_def plan_def, folded self2_def]
    note t1 = backfill_rebalanceable [OF wf, folded t1_def]
    have exec: "execute_rebalance_float self1 plan = (Inr (), self2)"
      using round(2) by (simp add: self2_def prod_eq_iff)
    have tr: "tradable self2 = tradable self"
      using round(3) by (simp add: tradable_def fun_eq_iff)
    have pr: "price_of self2 = price_of self"
      using round(3) by (simp add: price_of_def fun_eq_iff)
    have close: "\<bar>t * f - dict_get (holdings self2) symb 0 * price_of self2 symb\<bar>
        \<le> 1 / 100 + 1 / 10 ^ 6"
      if "(symb, f) \<in> set (target_allocation self2)" for symb f
      using round(5) [of symb f] that by (simp add: round(4) pr)
    have h1: "distinct (map fst (holdings self1))"
      "\<forall>symb \<in> set (map fst (holdings self1)). tradable self1 symb"
      using dh kh by (simp_all add: self1_def tradable_def)
    have dh2: "distinct (map fst (holdings self2))"
      unfolding self2_def by (rule execute_rebalance_float_distinct [OF h1(1)])
    have "\<forall>symb \<in> set (map fst (holdings self2)). tradable self1 symb"
      unfolding self2_def by (rule execute_rebalance_float_tradable [OF h1(2)])
    then have kh2: "\<forall>symb \<in> set (map fst (holdings self2)). tradable self2 symb"
      by (simp add: tr) (simp add: self1_def tradable_def)
    have hn2: "nonneg (holdings self2)"
      unfolding nonneg_def
    proof
      fix shares assume "shares \<in> set (map snd (holdings self2))"
      then obtain symb where held: "(symb, shares) \<in> set (holdings self2)" by auto
      then have "symb \<in> set (map fst (holdings self2))" by force
      with kh2 have "tradable self2 symb" by blast
      then have "tradable self symb" by (simp only: tr)
      with t1(2) have "symb \<in> set (map fst t1)" by blast
      then obtain f where "(symb, f) \<in> set t1" by auto
      from round(5) [OF this] have "0 \<le> dict_get (holdings self2) symb 0" by simp
      moreover have "map_of (holdings self2) symb = Some shares"
        using dh2 held by (rule map_of_is_SomeI)
      ultimately show "0 \<le> shares" by (simp add: dict_get_def)
    qed
    have "\<exists>plan2. create_rebalance_plan_float self2 = (Inr plan2, self2)
      \<and> (\<forall>ord \<in> set (dict_get plan2 ''buy'' [] @ dict_get plan2 ''sell'' []).
            amount_in_dollars ord \<le> (real (length (target_allocation self2)) + 2) / 100)"
    proof (rule second_plan_float [where t = t])
      show "distinct (map fst (target_allocation self2))" by (simp add: round(4) t1(1))
      show "\<forall>symb. symb \<in> set (map fst (target_allocation self2)) \<longleftrightarrow> tradable self2 symb"
        using t1(2) by (simp add: round(4) tr)
      show "nonneg (target_allocation self2)" by (simp add: round(4) t1(3))
      show "\<bar>sum_list (map snd (target_allocation self2)) - 1\<bar> \<le> 1 / 10 ^ 12"
        using t1(4) by (simp add: round(4))
      show "distinct (map fst (holdings self2))" by (rule dh2)
      show "\<forall>symb \<in> set (map fst (holdings self2)). tradable self2 symb" by (rule kh2)
      show "nonneg (holdings self2)" by (rule hn2)
      show "distinct (map fst (stock_objects self2))" using ds by (simp add: round(3))
      show "length (stock_objects self2) \<le> 1000" using size by (simp add: round(3))
      show "0 < price_of self2 symb" if "tradable self2 symb" for symb
        using rebalanceable_price(1) [OF wf, of symb] that by (simp add: tr pr)
      show "0 \<le> t" "t \<le> 10 ^ 8 + 1" by (rule tb)+
    qed (rule close)
    with t round(1) exec close show ?thesis by blast
  qed
qed

lemma rebalanceable_float_portfolio: "rebalanceable float_portfolio"
  by code_simp

lemma float_plan_example:
  "create_rebalance_plan_float float_portfolio =
     (Inr example_plan,
      float_portfolio\<lparr>target_allocation := target_allocation float_portfolio @ [(''MSFT'', 0)]\<rparr>)"
  by code_simp

lemma float_executed_example:
  "execute_rebalance_float
     (float_portfolio\<lparr>target_allocation := target_allocation float_portfolio @ [(''MSFT'', 0)]\<rparr>)
     example_plan =
   (Inr (),
    float_portfolio\<lparr>target_allocation := target_allocation float_portfolio @ [(''MSFT'', 0)],
      holdings := [(''AAPL'', 7834386851779925 / 2 ^ 49), (''GOOG'', 3481949711902189 / 2 ^ 49),
        (''MSFT'', 0), (''META'', 4700632111067955 / 2 ^ 50)]\<rparr>)"
  by code_simp

lemma float_second_plan_example:
  "create_rebalance_plan_float
     (float_portfolio\<lparr>target_allocation := target_allocation float_portfolio @ [(''MSFT'', 0)],
        holdings := [(''AAPL'', 7834386851779925 / 2 ^ 49), (''GOOG'', 3481949711902189 / 2 ^ 49),
          (''MSFT'', 0), (''META'', 4700632111067955 / 2 ^ 50)]\<rparr>) =
   (Inr [(''buy'', []), (''sell'', [])],
    float_portfolio\<lparr>target_allocation := target_allocation float_portfolio @ [(''MSFT'', 0)],
      holdings := [(''AAPL'', 7834386851779925 / 2 ^ 49), (''GOOG'', 3481949711902189 / 2 ^ 49),
        (''MSFT'', 0), (''META'', 4700632111067955 / 2 ^ 50)]\<rparr>)"
  by code_simp

theorem C6_rebalance_reaches_target_witness:
  "rebalanceable float_portfolio
   \<and> (\<exists>t plan self1 self2 plan2.
        get_total_value_float float_portfolio = Inr t
      \<and> create_rebalance_plan_float float_portfolio = (Inr plan, self1)
      \<and> execute_rebalance_float self1 plan = (Inr (), self2)
      \<and> (\<forall>(symb, fraction) \<in> set (target_allocation self2).
            \<bar>t * fraction - dict_get (holdings self2) symb 0 * price_of self2 symb\<bar>
              \<le> 1 / 100 + 1 / 10 ^ 6)
      \<and> create_rebalance_plan_float self2 = (Inr plan2, self2)
      \<and> (\<forall>ord \<in> set (dict_get plan2 ''buy'' [] @ dict_get plan2 ''sell'' []).
            amount_in_dollars ord \<le> (real (length (target_allocation self2)) + 2) / 100))
   \<and> create_rebalance_plan_float float_portfolio =
       (Inr example_plan,
        float_portfolio\<lparr>target_allocation :=
          target_allocation float_portfolio @ [(''MSFT'', 0)]\<rparr>)
   \<and> execute_rebalance_float
         (float_portfolio\<lparr>target_allocation :=
            target_allocation float_portfolio @ [(''MSFT'', 0)]\<rparr>)
         example_plan =
       (Inr (),
        float_portfolio\<lparr>target_allocation := target_allocation float_portfolio @ [(''MSFT'', 0)],
          holdings := [(''AAPL'', 7834386851779925 / 2 ^ 49),
            (''GOOG'', 3481949711902189 / 2 ^ 49), (''MSFT'', 0),
            (''META'', 4700632111067955 / 2 ^ 50)]\<rparr>)
   \<and> fst (create_rebalance_plan_float
             (float_portfolio\<lparr>target_allocation :=
                target_allocation float_portfolio @ [(''MSFT'', 0)],
                holdings := [(''AAPL'', 7834386851779925 / 2 ^ 49),
                  (''GOOG'', 3481949711902189 / 2 ^ 49), (''MSFT'', 0),
                  (''META'', 4700632111067955 / 2 ^ 50)]\<rparr>)) =
       Inr [(''buy'', []), (''sell'', [])]"
  using C6_rebalance_reaches_target [of float_portfolio] rebalanceable_float_portfolio
    float_plan_example float_executed_example float_second_plan_example
  by simp

text \<open>
  With positive prices alone the claim fails, in four ways.

  Large amounts: of \<open>10\<^sup>1\<^sup>5\<close> shares at the price 3 the plan sells for \<open>2.1 \<sqdot> 10\<^sup>1\<^sup>5\<close> and buys
  the other stock, at the price 7, for \<open>2099999999999999.75\<close>; the shares bought are
  worth 0.3 less than their target, and the second plan sells for 0.12, more than
  \<open>(2 + 2) / 100\<close>.

  A negative target fraction: the fractions \<open>3/2\<close> and \<open>-1/2\<close> have the sum 1. Of a total
  of 1500 the plan buys AAPL for 750 and sells META, of which nothing is held, for 750;
  afterwards META is worth 0 where its target is \<open>-750\<close>, and the second plan asks for 1125
  of each.

  A negative holding: \<open>-10\<close> shares at 150 and 5 shares at 300 are worth 0 together, so the
  plan is empty, and each stock stays 1500 away from its target, which is 0.

  A holding of an unknown symbol: \<^verbatim>\<open>create_rebalance_plan\<close> raises \<^verbatim>\<open>KeyError\<close>.
\<close>

lemma large_plan:
  "create_rebalance_plan_float large_portfolio =
     (Inr [(''buy'', [\<lparr>order_symbol = ''B'', amount_in_dollars = 8399999999999999 / 4\<rparr>]),
           (''sell'', [\<lparr>order_symbol = ''A'', amount_in_dollars = 21 * 10 ^ 14\<rparr>])],
      large_portfolio)"
  by code_simp

lemma large_executed:
  "execute_rebalance_float large_portfolio
     [(''buy'', [\<lparr>order_symbol = ''B'', amount_in_dollars = 8399999999999999 / 4\<rparr>]),
      (''sell'', [\<lparr>order_symbol = ''A'', amount_in_dollars = 21 * 10 ^ 14\<rparr>])] =
     (Inr (), large_portfolio\<lparr>holdings :=
        [(''A'', 3 * 10 ^ 14), (''B'', 4799999999999999 / 16)]\<rparr>)"
  by code_simp

lemma large_second_plan:
  "create_rebalance_plan_float
     (large_portfolio\<lparr>holdings := [(''A'', 3 * 10 ^ 14), (''B'', 4799999999999999 / 16)]\<rparr>) =
     (Inr [(''buy'', []),
           (''sell'', [\<lparr>order_symbol = ''A'', amount_in_dollars = double_round (12 / 100)\<rparr>])],
      large_portfolio\<lparr>holdings := [(''A'', 3 * 10 ^ 14), (''B'', 4799999999999999 / 16)]\<rparr>)"
  by code_simp

lemma large_far:
  "get_total_value_float large_portfolio = Inr (3 * 10 ^ 15)
   \<and> 3 / 10 < \<bar>3 * 10 ^ 15 * double_round (7 / 10) - 4799999999999999 / 16 * 7\<bar>
   \<and> (2 + 2) / 100 < double_round (12 / 100)"
  by code_simp

lemma short_plan_float:
  "create_rebalance_plan_float short_portfolio =
     (Inr [(''buy'', [\<lparr>order_symbol = ''AAPL'', amount_in_dollars = 750\<rparr>]),
           (''sell'', [\<lparr>order_symbol = ''META'', amount_in_dollars = 750\<rparr>])],
      short_portfolio)"
  by code_simp

lemma short_executed_float:
  "execute_rebalance_float short_portfolio
     [(''buy'', [\<lparr>order_symbol = ''AAPL'', amount_in_dollars = 750\<rparr>]),
      (''sell'', [\<lparr>order_symbol = ''META'', amount_in_dollars = 750\<rparr>])] =
     (Inr (), short_portfolio\<lparr>holdings := [(''AAPL'', 15), (''META'', 0)]\<rparr>)"
  by code_simp

lemma short_second_plan_float:
  "create_rebalance_plan_float (short_portfolio\<lparr>holdings := [(''AAPL'', 15), (''META'', 0)]\<rparr>) =
     (Inr [(''buy'', [\<lparr>order_symbol = ''AAPL'', amount_in_dollars = 1125\<rparr>]),
           (''sell'', [\<lparr>order_symbol = ''META'', amount_in_dollars = 1125\<rparr>])],
      short_portfolio\<lparr>holdings := [(''AAPL'', 15), (''META'', 0)]\<rparr>)"
  by code_simp

lemma owing_plan_float:
  "get_total_value_float owing_portfolio = Inr 0
   \<and> create_rebalance_plan_float owing_portfolio =
       (Inr [(''buy'', []), (''sell'', [])], owing_portfolio)
   \<and> execute_rebalance_float owing_portfolio [(''buy'', []), (''sell'', [])] =
       (Inr (), owing_portfolio)"
  by code_simp

lemma unknown_plan_float:
  "create_rebalance_plan_float (float_portfolio\<lparr>holdings := unknown_holdings\<rparr>) =
     (Inl (KeyError ''TSLA''), float_portfolio\<lparr>holdings := unknown_holdings\<rparr>)"
  by code_simp

theorem C6_positive_prices_counterexample:
  "list_all (\<lambda>symb. 0 < price_of large_portfolio symb) [''A'', ''B'']
   \<and> get_total_value_float large_portfolio = Inr (3 * 10 ^ 15)
   \<and> create_rebalance_plan_float large_portfolio =
       (Inr [(''buy'', [\<lparr>order_symbol = ''B'', amount_in_dollars = 8399999999999999 / 4\<rparr>]),
             (''sell'', [\<lparr>order_symbol = ''A'', amount_in_dollars = 21 * 10 ^ 14\<rparr>])],
        large_portfolio)
   \<and> execute_rebalance_float large_portfolio
         [(''buy'', [\<lparr>order_symbol = ''B'', amount_in_dollars = 8399999999999999 / 4\<rparr>]),
          (''sell'', [\<lparr>order_symbol = ''A'', amount_in_dollars = 21 * 10 ^ 14\<rparr>])] =
       (Inr (), large_portfolio\<lparr>holdings :=
          [(''A'', 3 * 10 ^ 14), (''B'', 4799999999999999 / 16)]\<rparr>)
   \<and> 3 / 10 < \<bar>3 * 10 ^ 15 * double_round (7 / 10) - 4799999999999999 / 16 * 7\<bar>
   \<and> create_rebalance_plan_float
         (large_portfolio\<lparr>holdings :=
            [(''A'', 3 * 10 ^ 14), (''B'', 4799999999999999 / 16)]\<rparr>) =
       (Inr [(''buy'', []),
             (''sell'', [\<lparr>order_symbol = ''A'', amount_in_dollars = double_round (12 / 100)\<rparr>])],
        large_portfolio\<lparr>holdings :=
          [(''A'', 3 * 10 ^ 14), (''B'', 4799999999999999 / 16)]\<rparr>)
   \<and> (2 + 2) / 100 < double_round (12 / 100)
   \<and> list_all (\<lambda>symb. 0 < price_of short_portfolio symb) [''AAPL'', ''META'']
   \<and> get_total_value_float short_portfolio = Inr 1500
   \<and> create_rebalance_plan_float short_portfolio =
       (Inr [(''buy'', [\<lparr>order_symbol = ''AAPL'', amount_in_dollars = 750\<rparr>]),
             (''sell'', [\<lparr>order_symbol = ''META'', amount_in_dollars = 750\<rparr>])],
        short_portfolio)
   \<and> execute_rebalance_float short_portfolio
         [(''buy'', [\<lparr>order_symbol = ''AAPL'', amount_in_dollars = 750\<rparr>]),
          (''sell'', [\<lparr>order_symbol = ''META'', amount_in_dollars = 750\<rparr>])] =
       (Inr (), short_portfolio\<lparr>holdings := [(''AAPL'', 15), (''META'', 0)]\<rparr>)
   \<and> \<not> \<bar>1500 * (- (1 / 2)) - 0 * price_of short_portfolio ''META''\<bar> \<le> 1 / 100
   \<and> create_rebalance_plan_float
         (short_portfolio\<lparr>holdings := [(''AAPL'', 15), (''META'', 0)]\<rparr>) =
       (Inr [(''buy'', [\<lparr>order_symbol = ''AAPL'', amount_in_dollars = 1125\<rparr>]),
             (''sell'', [\<lparr>order_symbol = ''META'', amount_in_dollars = 1125\<rparr>])],
        short_portfolio\<lparr>holdings := [(''AAPL'', 15), (''META'', 0)]\<rparr>)
   \<and> list_all (\<lambda>symb. 0 < price_of owing_portfolio symb) [''AAPL'', ''META'']
   \<and> get_total_value_float owing_portfolio = Inr 0
   \<and> create_rebalance_plan_float owing_portfolio =
       (Inr [(''buy'', []), (''sell'', [])], owing_portfolio)
   \<and> execute_rebalance_float owing_portfolio [(''buy'', []), (''sell'', [])] =
       (Inr (), owing_portfolio)
   \<and> \<not> \<bar>0 * (1 / 2) - (- 10) * price_of owing_portfolio ''AAPL''\<bar> \<le> 1 / 100
   \<and> list_all (\<lambda>symb. 0 < price_of float_portfolio symb) [''AAPL'', ''META'', ''GOOG'', ''MSFT'']
   \<and> create_rebalance_plan_float (float_portfolio\<lparr>holdings := unknown_holdings\<rparr>) =
       (Inl (KeyError ''TSLA''), float_portfolio\<lparr>holdings := unknown_holdings\<rparr>)"
proof -
  have "list_all (\<lambda>symb. 0 < price_of large_portfolio symb) [''A'', ''B'']"
    by (simp add: price_of_def large_portfolio_def current_price_def)
  moreover have "list_all (\<lambda>symb. 0 < price_of short_portfolio symb) [''AAPL'', ''META'']"
    by (simp add: price_of_def short_portfolio_def current_price_def)
  moreover have "list_all (\<lambda>symb. 0 < price_of owing_portfolio symb) [''AAPL'', ''META'']"
    by (simp add: price_of_def owing_portfolio_def current_price_def)
  moreover have "list_all (\<lambda>symb. 0 < price_of float_portfolio symb)
      [''AAPL'', ''META'', ''GOOG'', ''MSFT'']"
    by (simp add: price_of_def float_portfolio_def portfolio_def current_price_def)
  moreover have "get_total_value_float short_portfolio = Inr 1500"
    by code_simp
  moreover have "\<not> \<bar>1500 * (- (1 / 2)) - 0 * price_of short_portfolio ''META''\<bar> \<le> 1 / 100"
    by simp
  moreover have "\<not> \<bar>0 * (1 / 2) - (- 10) * price_of owing_portfolio ''AAPL''\<bar> \<le> 1 / 100"
    by (simp add: price_of_def owing_portfolio_def current_price_def)
  ultimately show ?thesis
    using large_plan large_executed large_second_plan large_far
      short_plan_float short_executed_float short_second_plan_float
      owing_plan_float unknown_plan_float
    by blast
qed

end
